theory Spec2Isabelle
  imports Main "HOL-Library.Word"
begin

unbundle bit_operations_syntax

section \<open>Data model\<close>

text \<open>
  The sample programs drive the toolkit's stateful hash-based signature schemes
  (XMSS, XMSS-MT, HSS) from files: a private key file, a private key state file, a
  signature file and, for detachment, a detached state file. The toolkit itself
  (every \<open>iqr_...\<close> function) is a library outside the samples; the samples' own
  code is the order of the calls, the tests on their results, the file input and
  output and the wiping of buffers. The model keeps exactly that: the toolkit is a
  record of functions (an engine), the samples are functions over an explicit world.
\<close>

type_synonym uint8_t = "8 word"
type_synonym bytes = "uint8_t list"

text \<open>The return codes the samples name, and one constructor for every other code.\<close>

datatype iqr_retval =
    IQR_OK
  | IQR_EBADVALUE
  | IQR_ENOMEM
  | IQR_ESTATEDEPLETED
  | IQR_EINVBUFSIZE
  | IQR_EOTHER nat

text \<open>
  What the C library may do to an operation that can fail. The world carries a script
  of these, one entry for each call of \<open>load_data\<close>, \<open>save_data\<close> and
  \<open>calloc\<close>, taken in order; an exhausted script means no fault. \<open>Short_io k\<close> is
  a transfer that stops after \<open>k\<close> bytes and is reported by \<open>fread\<close> or by the
  error indicator after \<open>fwrite\<close>; \<open>Flush_fails k\<close> is a write that \<open>fwrite\<close> takes
  into the stream's buffer without error and of which only \<open>k\<close> bytes reach the file
  when \<open>fclose\<close> flushes the buffer (a full disk, for instance), so that \<open>fclose\<close>
  is the only call that reports it.
\<close>

datatype libc_fault =
    No_fault
  | Fopen_fails
  | Alloc_fails
  | Short_io nat
  | Flush_fails nat

text \<open>How a call of \<open>save_data\<close> ended, as recorded in the trace.\<close>

datatype save_result =
    Written
  | Open_failed
  | Write_failed nat
  | Close_failed nat

text \<open>The toolkit functions the samples call.\<close>

datatype api =
    API_CreateParams
  | API_ImportPrivateKey
  | API_ImportState
  | API_ImportPublicKey
  | API_GetSignatureCount
  | API_GetSignatureSize
  | API_GetStateSize
  | API_Sign
  | API_ExportState
  | API_DetachState
  | API_Verify

text \<open>
  The trace is the history of a run: each toolkit call, each \<open>save_data\<close> with the
  file name, the bytes handed over and how it ended, and each \<open>free\<close> of a
  non-null buffer with the name of the C variable and the bytes the block held when
  it was released.
\<close>

datatype event =
    Called api
  | Save string bytes save_result
  | Freed string bytes

record world =
  files :: "string \<rightharpoonup> bytes"
  faults :: "libc_fault list"
  trace :: "event list"

definition log_event :: "event \<Rightarrow> world \<Rightarrow> world" where
  "log_event e w = w\<lparr>trace := trace w @ [e]\<rparr>"

definition next_fault :: "world \<Rightarrow> libc_fault \<times> world" where
  "next_fault w =
     (case faults w of
        [] \<Rightarrow> (No_fault, w)
      | f # fs \<Rightarrow> (f, w\<lparr>faults := fs\<rparr>))"

text \<open>The events a run added to the trace, and the \<open>save_data\<close> calls among them.\<close>

definition new_events :: "world \<Rightarrow> world \<Rightarrow> event list" where
  "new_events w w' = drop (length (trace w)) (trace w')"

fun is_Save :: "event \<Rightarrow> bool" where
  "is_Save (Save f d r) = True"
| "is_Save e = False"

definition saves :: "event list \<Rightarrow> event list" where
  "saves evs = filter is_Save evs"

section \<open>The C library as the samples use it\<close>

text \<open>
  \<open>free(p)\<close>: nothing for a null pointer; otherwise the block is released with
  whatever it holds.
\<close>

definition frees :: "string \<Rightarrow> bytes option \<Rightarrow> event list" where
  "frees name p = (case p of None \<Rightarrow> [] | Some b \<Rightarrow> [Freed name b])"

definition free_buf :: "string \<Rightarrow> bytes option \<Rightarrow> world \<Rightarrow> world" where
  "free_buf name p w = w\<lparr>trace := trace w @ frees name p\<rparr>"

text \<open>\<open>calloc(1, n)\<close>: a null pointer, or a block of \<open>n\<close> zero bytes.\<close>

definition calloc :: "nat \<Rightarrow> world \<Rightarrow> bytes option \<times> world" where
  "calloc n w =
     (case next_fault w of (f, w1) \<Rightarrow>
        if f = Alloc_fails then (None, w1) else (Some (replicate n 0), w1))"

text \<open>
  \<open>secure_memzero\<close> (xmss/sign/main.c, the portable branch): the loop
  \<open>while (len--) *ptr++ = 0x00\<close> over the first \<open>len\<close> bytes of the block.
\<close>

fun secure_memzero :: "bytes \<Rightarrow> nat \<Rightarrow> bytes" where
  "secure_memzero b 0 = b"
| "secure_memzero [] (Suc len) = []"
| "secure_memzero (x # b) (Suc len) = 0 # secure_memzero b len"

text \<open>
  \<open>save_data\<close> (xmss/sign/main.c; hss/sign/main.c has the same text). The buffer and
  its size travel together as a list. \<open>fopen(fname, "wb")\<close> fails and leaves the file
  as it is, and the function returns \<open>IQR_EBADVALUE\<close>; or it succeeds and truncates
  the file. After \<open>fwrite\<close> the code tests \<open>ferror\<close>: when the error indicator is set
  (\<open>k\<close> bytes stored) it returns \<open>IQR_EBADVALUE\<close>. Otherwise \<open>ret\<close> stays \<open>IQR_OK\<close>;
  the statement \<open>fclose(fp);\<close> discards the result of \<open>fclose\<close>, so a write that
  fails when the buffer is flushed there leaves \<open>k\<close> bytes in the file and the
  function still returns \<open>IQR_OK\<close>.
\<close>

definition save_data :: "string \<Rightarrow> bytes \<Rightarrow> world \<Rightarrow> iqr_retval \<times> world" where
  "save_data fname data w =
     (case next_fault w of (f, w1) \<Rightarrow>
        (case f of
           Fopen_fails \<Rightarrow> (IQR_EBADVALUE, log_event (Save fname data Open_failed) w1)
         | Short_io k \<Rightarrow>
             (IQR_EBADVALUE,
              log_event (Save fname data (Write_failed k))
                (w1\<lparr>files := (files w1)(fname \<mapsto> take k data)\<rparr>))
         | Flush_fails k \<Rightarrow>
             (IQR_OK,
              log_event (Save fname data (Close_failed k))
                (w1\<lparr>files := (files w1)(fname \<mapsto> take k data)\<rparr>))
         | _ \<Rightarrow>
             (IQR_OK,
              log_event (Save fname data Written)
                (w1\<lparr>files := (files w1)(fname \<mapsto> data)\<rparr>))))"

text \<open>
  \<open>load_data\<close> (xmss/sign/main.c): \<open>fopen(fname, "rb")\<close> fails when the file is absent or by fault; an
  empty file gives a null pointer and size 0 with \<open>IQR_OK\<close>; \<open>calloc\<close> may fail; a
  short \<open>fread\<close> frees the block (first \<open>k\<close> bytes read, the rest still zero) and
  fails. On every failure the caller's pointer is left as it was, that is null.
\<close>

definition load_data :: "string \<Rightarrow> world \<Rightarrow> iqr_retval \<times> bytes option \<times> world" where
  "load_data fname w =
     (case next_fault w of (f, w1) \<Rightarrow>
        (case files w1 fname of
           None \<Rightarrow> (IQR_EBADVALUE, None, w1)
         | Some content \<Rightarrow>
             if f = Fopen_fails then (IQR_EBADVALUE, None, w1)
             else if content = [] then (IQR_OK, None, w1)
             else if f = Alloc_fails then (IQR_EBADVALUE, None, w1)
             else
               (case f of
                  Short_io k \<Rightarrow>
                    if k < length content
                    then (IQR_EBADVALUE, None,
                          free_buf ''tmp''
                            (Some (take k content @ replicate (length content - k) 0)) w1)
                    else (IQR_OK, Some content, w1)
                | _ \<Rightarrow> (IQR_OK, Some content, w1))))"

text \<open>A null pointer with size 0 and an empty block look the same to the toolkit.\<close>

definition buf :: "bytes option \<Rightarrow> bytes" where
  "buf p = (case p of None \<Rightarrow> [] | Some b \<Rightarrow> b)"

text \<open>
  The toolkit writes its output into a block the caller owns: the block keeps its
  length, the output replaces its first bytes.
\<close>

definition fill :: "bytes \<Rightarrow> bytes \<Rightarrow> bytes" where
  "fill block out = take (length block) out @ drop (length out) block"

section \<open>The helpers of the samples' common header\<close>

text \<open>
  The detach and verification samples include \<open>isara_samples.h\<close> and call its
  \<open>save_data\<close>, \<open>load_data\<close>, \<open>secure_memzero\<close> and \<open>paramcmp\<close>; neither the header
  nor the file that implements it is among the sources. The specification describes
  the samples' file input and output and their handling of the command line as
  boilerplate duplicated across the sample programs (section 2). The signing samples
  carry that boilerplate in their own text, as the functions of the same names above,
  and each function of the header is taken to be the one of the signing samples.
\<close>

text \<open>
  Modelled from the spec: \<open>save_data\<close> of \<open>isara_samples.h\<close>, which is not among the
  sources. The specification describes the reference write as a plain write in place,
  not atomic, with no temporary file, no rename and no \<open>fsync\<close> (section 9), which is
  what \<open>save_data\<close> of the signing samples does.
\<close>

definition isara_save_data :: "string \<Rightarrow> bytes \<Rightarrow> world \<Rightarrow> iqr_retval \<times> world" where
  [simp]: "isara_save_data = save_data"

text \<open>
  Modelled from the spec: \<open>load_data\<close> of \<open>isara_samples.h\<close>, which is not among the
  sources. The specification has the key, the state and the signature loaded from
  their files as blobs of bytes (sections 3 and 6), which is what \<open>load_data\<close> of the
  signing samples gives.
\<close>

definition isara_load_data :: "string \<Rightarrow> world \<Rightarrow> iqr_retval \<times> bytes option \<times> world" where
  [simp]: "isara_load_data = load_data"

text \<open>
  Modelled from the spec: \<open>secure_memzero\<close> of \<open>isara_samples.h\<close>, which is not among
  the sources. The specification has sensitive bytes wiped from memory before their
  block is released (section 3), which is what \<open>secure_memzero\<close> of the signing
  samples does to the bytes it is given.
\<close>

definition isara_secure_memzero :: "bytes \<Rightarrow> nat \<Rightarrow> bytes" where
  [simp]: "isara_secure_memzero = secure_memzero"

section \<open>The toolkit as a parameter\<close>

text \<open>
  One record for the three schemes. \<open>'sel\<close> is what \<open>CreateParams\<close> is given (context,
  strategy, height or variant), \<open>'r\<close> the random number generator, \<open>'p\<close>, \<open>'k\<close>,
  \<open>'s\<close> the parameter, private key and private key state objects, \<open>'n\<close> what the
  signature count query stores (maximum and remaining for XMSS and HSS, remaining for
  XMSS-MT). Each function gives its return code and what it stores through its
  out-parameters; the state objects, which C updates in place, are returned updated.
\<close>

record ('sel, 'r, 'p, 'k, 's, 'n) engine =
  iqr_CreateParams :: "'sel \<Rightarrow> iqr_retval \<times> 'p"
  iqr_ImportPrivateKey :: "'p \<Rightarrow> bytes \<Rightarrow> iqr_retval \<times> 'k"
  iqr_ImportState :: "'p \<Rightarrow> bytes \<Rightarrow> iqr_retval \<times> 's"
  iqr_GetSignatureCount :: "'s \<Rightarrow> iqr_retval \<times> 'n"
  iqr_GetSignatureSize :: "'p \<Rightarrow> iqr_retval \<times> nat"
  iqr_GetStateSize :: "'p \<Rightarrow> iqr_retval \<times> nat"
  iqr_Sign :: "'k \<Rightarrow> 'r \<Rightarrow> bytes \<Rightarrow> 's \<Rightarrow> nat \<Rightarrow> iqr_retval \<times> 's \<times> bytes"
  iqr_ExportState :: "'s \<Rightarrow> nat \<Rightarrow> iqr_retval \<times> bytes"
  iqr_DetachState :: "'k \<Rightarrow> 's \<Rightarrow> 32 word \<Rightarrow> iqr_retval \<times> 's \<times> 's"

section \<open>Signing: xmss/sign/main.c and hss/sign/main.c\<close>

text \<open>
  The label \<open>end\<close> of both signing functions: the private key bytes are wiped when
  the pointer is not null, then \<open>sig\<close>, \<open>priv_raw\<close> and \<open>state_raw\<close> are freed.
\<close>

definition sign_end ::
  "iqr_retval \<Rightarrow> bytes option \<Rightarrow> bytes option \<Rightarrow> bytes option \<Rightarrow> world \<Rightarrow> iqr_retval \<times> world"
where
  "sign_end ret priv_raw sig state_raw w =
     (let priv_raw' =
            (case priv_raw of
               None \<Rightarrow> None
             | Some b \<Rightarrow> Some (secure_memzero b (length b)));
          w1 = free_buf ''sig'' sig w;
          w2 = free_buf ''priv_raw'' priv_raw' w1;
          w3 = free_buf ''state_raw'' state_raw w2
      in (ret, w3))"

text \<open>
  \<open>showcase_xmss_sign\<close>, statement by statement; every \<open>goto end\<close> is a call of
  \<open>sign_end\<close> with the pointers as they are at that point.
\<close>

definition showcase_xmss_sign ::
  "('c \<times> 'y \<times> 'h, 'r, 'p, 'k, 's, 32 word \<times> 32 word) engine \<Rightarrow> 'c \<Rightarrow> 'r \<Rightarrow> 'h \<Rightarrow> 'y \<Rightarrow>
     bytes \<Rightarrow> string \<Rightarrow> string \<Rightarrow> string \<Rightarrow> world \<Rightarrow> iqr_retval \<times> world"
where
  "showcase_xmss_sign eng ctx rng height strategy digest priv_file state_file sig_file w0 =
    (case iqr_CreateParams eng (ctx, strategy, height) of (ret, params) \<Rightarrow>
     let w = log_event (Called API_CreateParams) w0 in
     if ret \<noteq> IQR_OK then sign_end ret None None None w else
    (case load_data priv_file w of (ret, priv_raw, w) \<Rightarrow>
     if ret \<noteq> IQR_OK then sign_end ret priv_raw None None w else
    (case load_data state_file w of (ret, state_raw, w) \<Rightarrow>
     if ret \<noteq> IQR_OK then sign_end ret priv_raw None state_raw w else
    (case iqr_ImportPrivateKey eng params (buf priv_raw) of (ret, priv) \<Rightarrow>
     let w = log_event (Called API_ImportPrivateKey) w in
     if ret \<noteq> IQR_OK then sign_end ret priv_raw None state_raw w else
    (case iqr_ImportState eng params (buf state_raw) of (ret, state) \<Rightarrow>
     let w = log_event (Called API_ImportState) w in
     if ret \<noteq> IQR_OK then sign_end ret priv_raw None state_raw w else
    (case iqr_GetSignatureCount eng state of (ret, max_sigs, remaining_sigs) \<Rightarrow>
     let w = log_event (Called API_GetSignatureCount) w in
     if ret \<noteq> IQR_OK then sign_end ret priv_raw None state_raw w else
     if remaining_sigs = 0 then sign_end IQR_ESTATEDEPLETED priv_raw None state_raw w else
    (case iqr_GetSignatureSize eng params of (ret, sig_size) \<Rightarrow>
     let w = log_event (Called API_GetSignatureSize) w in
     if ret \<noteq> IQR_OK then sign_end ret priv_raw None state_raw w else
    (case calloc sig_size w of (sig, w) \<Rightarrow>
     if sig = None then sign_end IQR_ENOMEM priv_raw sig state_raw w else
    (case iqr_Sign eng priv rng digest state sig_size of (ret, state, out) \<Rightarrow>
     let w = log_event (Called API_Sign) w;
         sig = Some (fill (buf sig) out) in
     if ret \<noteq> IQR_OK then sign_end ret priv_raw sig state_raw w else
    (case iqr_ExportState eng state (length (buf state_raw)) of (ret, out) \<Rightarrow>
     let w = log_event (Called API_ExportState) w;
         state_raw = (case state_raw of None \<Rightarrow> None | Some b \<Rightarrow> Some (fill b out)) in
     if ret \<noteq> IQR_OK then sign_end ret priv_raw sig state_raw w else
    (case save_data state_file (buf state_raw) w of (ret, w) \<Rightarrow>
     if ret \<noteq> IQR_OK then sign_end ret priv_raw sig state_raw w else
    (case save_data sig_file (buf sig) w of (ret, w) \<Rightarrow>
     if ret \<noteq> IQR_OK then sign_end ret priv_raw sig state_raw w else
    (case iqr_GetSignatureCount eng state of (ret, max_sigs, remaining_sigs) \<Rightarrow>
     let w = log_event (Called API_GetSignatureCount) w in
     sign_end ret priv_raw sig state_raw w)))))))))))))"

text \<open>
  \<open>showcase_hss_sign\<close>: the same sequence without the query of the signature count
  before signing; \<open>iqr_HSSCreateParams\<close> is given the constant level.
\<close>

datatype iqr_HSSLevel = IQR_HSS_LEVEL_1

definition showcase_hss_sign ::
  "('c \<times> 'y \<times> 'wn \<times> 'h \<times> iqr_HSSLevel, 'r, 'p, 'k, 's, 32 word \<times> 32 word) engine \<Rightarrow>
     'c \<Rightarrow> 'r \<Rightarrow> 'wn \<Rightarrow> 'h \<Rightarrow> 'y \<Rightarrow> bytes \<Rightarrow> string \<Rightarrow> string \<Rightarrow> string \<Rightarrow> world \<Rightarrow>
     iqr_retval \<times> world"
where
  "showcase_hss_sign eng ctx rng wn height strategy digest priv_file state_file sig_file w0 =
    (case iqr_CreateParams eng (ctx, strategy, wn, height, IQR_HSS_LEVEL_1) of (ret, params) \<Rightarrow>
     let w = log_event (Called API_CreateParams) w0 in
     if ret \<noteq> IQR_OK then sign_end ret None None None w else
    (case load_data priv_file w of (ret, priv_raw, w) \<Rightarrow>
     if ret \<noteq> IQR_OK then sign_end ret priv_raw None None w else
    (case load_data state_file w of (ret, state_raw, w) \<Rightarrow>
     if ret \<noteq> IQR_OK then sign_end ret priv_raw None state_raw w else
    (case iqr_ImportPrivateKey eng params (buf priv_raw) of (ret, priv) \<Rightarrow>
     let w = log_event (Called API_ImportPrivateKey) w in
     if ret \<noteq> IQR_OK then sign_end ret priv_raw None state_raw w else
    (case iqr_ImportState eng params (buf state_raw) of (ret, state) \<Rightarrow>
     let w = log_event (Called API_ImportState) w in
     if ret \<noteq> IQR_OK then sign_end ret priv_raw None state_raw w else
    (case iqr_GetSignatureSize eng params of (ret, sig_size) \<Rightarrow>
     let w = log_event (Called API_GetSignatureSize) w in
     if ret \<noteq> IQR_OK then sign_end ret priv_raw None state_raw w else
    (case calloc sig_size w of (sig, w) \<Rightarrow>
     if sig = None then sign_end IQR_ENOMEM priv_raw sig state_raw w else
    (case iqr_Sign eng priv rng digest state sig_size of (ret, state, out) \<Rightarrow>
     let w = log_event (Called API_Sign) w;
         sig = Some (fill (buf sig) out) in
     if ret \<noteq> IQR_OK then sign_end ret priv_raw sig state_raw w else
    (case iqr_ExportState eng state (length (buf state_raw)) of (ret, out) \<Rightarrow>
     let w = log_event (Called API_ExportState) w;
         state_raw = (case state_raw of None \<Rightarrow> None | Some b \<Rightarrow> Some (fill b out)) in
     if ret \<noteq> IQR_OK then sign_end ret priv_raw sig state_raw w else
    (case save_data state_file (buf state_raw) w of (ret, w) \<Rightarrow>
     if ret \<noteq> IQR_OK then sign_end ret priv_raw sig state_raw w else
    (case save_data sig_file (buf sig) w of (ret, w) \<Rightarrow>
     if ret \<noteq> IQR_OK then sign_end ret priv_raw sig state_raw w else
    (case iqr_GetSignatureCount eng state of (ret, max_sigs, remaining_sigs) \<Rightarrow>
     let w = log_event (Called API_GetSignatureCount) w in
     sign_end ret priv_raw sig state_raw w))))))))))))"

section \<open>Detachment: xmss/detach/main.c and xmssmt/detach/main.c\<close>

text \<open>
  The label \<open>end\<close> of both detach functions: the private key bytes are wiped when the
  pointer is not null, then \<open>priv_raw\<close>, \<open>state_raw\<close> and \<open>detached_state_raw\<close> are
  freed.
\<close>

definition detach_end ::
  "iqr_retval \<Rightarrow> bytes option \<Rightarrow> bytes option \<Rightarrow> bytes option \<Rightarrow> world \<Rightarrow> iqr_retval \<times> world"
where
  "detach_end ret priv_raw state_raw detached_state_raw w =
     (let priv_raw' =
            (case priv_raw of
               None \<Rightarrow> None
             | Some b \<Rightarrow> Some (isara_secure_memzero b (length b)));
          w1 = free_buf ''priv_raw'' priv_raw' w;
          w2 = free_buf ''state_raw'' state_raw w1;
          w3 = free_buf ''detached_state_raw'' detached_state_raw w2
      in (ret, w3))"

text \<open>
  \<open>showcase_xmss_detach\<close>. Both states are exported into \<open>state_raw\<close>, the parent
  first; the block \<open>detached_state_raw\<close> is allocated and never written.
\<close>

definition showcase_xmss_detach ::
  "('c \<times> 'y \<times> 'h, 'r, 'p, 'k, 's, 32 word \<times> 32 word) engine \<Rightarrow> 'c \<Rightarrow> 'h \<Rightarrow> 'y \<Rightarrow>
     string \<Rightarrow> string \<Rightarrow> 32 word \<Rightarrow> string \<Rightarrow> world \<Rightarrow> iqr_retval \<times> world"
where
  "showcase_xmss_detach eng ctx height strategy priv_file state_file num_signatures
       detached_state_file w0 =
    (case iqr_CreateParams eng (ctx, strategy, height) of (ret, params) \<Rightarrow>
     let w = log_event (Called API_CreateParams) w0 in
     if ret \<noteq> IQR_OK then detach_end ret None None None w else
    (case isara_load_data priv_file w of (ret, priv_raw, w) \<Rightarrow>
     if ret \<noteq> IQR_OK then detach_end ret priv_raw None None w else
    (case isara_load_data state_file w of (ret, state_raw, w) \<Rightarrow>
     if ret \<noteq> IQR_OK then detach_end ret priv_raw state_raw None w else
    (case iqr_ImportPrivateKey eng params (buf priv_raw) of (ret, priv) \<Rightarrow>
     let w = log_event (Called API_ImportPrivateKey) w in
     if ret \<noteq> IQR_OK then detach_end ret priv_raw state_raw None w else
    (case iqr_ImportState eng params (buf state_raw) of (ret, state) \<Rightarrow>
     let w = log_event (Called API_ImportState) w in
     if ret \<noteq> IQR_OK then detach_end ret priv_raw state_raw None w else
    (case iqr_DetachState eng priv state num_signatures of (ret, state, detached_state) \<Rightarrow>
     let w = log_event (Called API_DetachState) w in
     if ret \<noteq> IQR_OK then detach_end ret priv_raw state_raw None w else
    (case iqr_GetSignatureCount eng state of (ret, max_sigs, remaining_sigs) \<Rightarrow>
     let w = log_event (Called API_GetSignatureCount) w in
     if ret \<noteq> IQR_OK then detach_end ret priv_raw state_raw None w else
    (case iqr_GetSignatureCount eng detached_state of (ret, max_sigs, detached_remaining_sigs) \<Rightarrow>
     let w = log_event (Called API_GetSignatureCount) w in
     if ret \<noteq> IQR_OK then detach_end ret priv_raw state_raw None w else
    (case iqr_ExportState eng state (length (buf state_raw)) of (ret, out) \<Rightarrow>
     let w = log_event (Called API_ExportState) w;
         state_raw = (case state_raw of None \<Rightarrow> None | Some b \<Rightarrow> Some (fill b out)) in
     if ret \<noteq> IQR_OK then detach_end ret priv_raw state_raw None w else
    (case isara_save_data state_file (buf state_raw) w of (ret, w) \<Rightarrow>
     if ret \<noteq> IQR_OK then detach_end ret priv_raw state_raw None w else
    (case iqr_GetStateSize eng params of (ret, detached_state_raw_size) \<Rightarrow>
     let w = log_event (Called API_GetStateSize) w in
     if ret \<noteq> IQR_OK then detach_end ret priv_raw state_raw None w else
    (case calloc detached_state_raw_size w of (detached_state_raw, w) \<Rightarrow>
     if detached_state_raw = None
     then detach_end IQR_ENOMEM priv_raw state_raw detached_state_raw w else
    (case iqr_ExportState eng detached_state (length (buf state_raw)) of (ret, out) \<Rightarrow>
     let w = log_event (Called API_ExportState) w;
         state_raw = (case state_raw of None \<Rightarrow> None | Some b \<Rightarrow> Some (fill b out)) in
     if ret \<noteq> IQR_OK then detach_end ret priv_raw state_raw detached_state_raw w else
    (case isara_save_data detached_state_file (buf state_raw) w of (ret, w) \<Rightarrow>
     detach_end ret priv_raw state_raw detached_state_raw w))))))))))))))"

text \<open>
  \<open>showcase_xmssmt_detach\<close>: the same sequence; the count query of XMSS-MT stores the
  remaining count only, as a 64-bit value.
\<close>

definition showcase_xmssmt_detach ::
  "('c \<times> 'y \<times> 'v, 'r, 'p, 'k, 's, 64 word) engine \<Rightarrow> 'c \<Rightarrow> 'v \<Rightarrow> 'y \<Rightarrow>
     string \<Rightarrow> string \<Rightarrow> 32 word \<Rightarrow> string \<Rightarrow> world \<Rightarrow> iqr_retval \<times> world"
where
  "showcase_xmssmt_detach eng ctx variant strategy priv_file state_file num_signatures
       detached_state_file w0 =
    (case iqr_CreateParams eng (ctx, strategy, variant) of (ret, params) \<Rightarrow>
     let w = log_event (Called API_CreateParams) w0 in
     if ret \<noteq> IQR_OK then detach_end ret None None None w else
    (case isara_load_data priv_file w of (ret, priv_raw, w) \<Rightarrow>
     if ret \<noteq> IQR_OK then detach_end ret priv_raw None None w else
    (case isara_load_data state_file w of (ret, state_raw, w) \<Rightarrow>
     if ret \<noteq> IQR_OK then detach_end ret priv_raw state_raw None w else
    (case iqr_ImportPrivateKey eng params (buf priv_raw) of (ret, priv) \<Rightarrow>
     let w = log_event (Called API_ImportPrivateKey) w in
     if ret \<noteq> IQR_OK then detach_end ret priv_raw state_raw None w else
    (case iqr_ImportState eng params (buf state_raw) of (ret, state) \<Rightarrow>
     let w = log_event (Called API_ImportState) w in
     if ret \<noteq> IQR_OK then detach_end ret priv_raw state_raw None w else
    (case iqr_DetachState eng priv state num_signatures of (ret, state, detached_state) \<Rightarrow>
     let w = log_event (Called API_DetachState) w in
     if ret \<noteq> IQR_OK then detach_end ret priv_raw state_raw None w else
    (case iqr_GetSignatureCount eng state of (ret, remaining_sigs) \<Rightarrow>
     let w = log_event (Called API_GetSignatureCount) w in
     if ret \<noteq> IQR_OK then detach_end ret priv_raw state_raw None w else
    (case iqr_GetSignatureCount eng detached_state of (ret, detached_remaining_sigs) \<Rightarrow>
     let w = log_event (Called API_GetSignatureCount) w in
     if ret \<noteq> IQR_OK then detach_end ret priv_raw state_raw None w else
    (case iqr_ExportState eng state (length (buf state_raw)) of (ret, out) \<Rightarrow>
     let w = log_event (Called API_ExportState) w;
         state_raw = (case state_raw of None \<Rightarrow> None | Some b \<Rightarrow> Some (fill b out)) in
     if ret \<noteq> IQR_OK then detach_end ret priv_raw state_raw None w else
    (case isara_save_data state_file (buf state_raw) w of (ret, w) \<Rightarrow>
     if ret \<noteq> IQR_OK then detach_end ret priv_raw state_raw None w else
    (case iqr_GetStateSize eng params of (ret, detached_state_raw_size) \<Rightarrow>
     let w = log_event (Called API_GetStateSize) w in
     if ret \<noteq> IQR_OK then detach_end ret priv_raw state_raw None w else
    (case calloc detached_state_raw_size w of (detached_state_raw, w) \<Rightarrow>
     if detached_state_raw = None
     then detach_end IQR_ENOMEM priv_raw state_raw detached_state_raw w else
    (case iqr_ExportState eng detached_state (length (buf state_raw)) of (ret, out) \<Rightarrow>
     let w = log_event (Called API_ExportState) w;
         state_raw = (case state_raw of None \<Rightarrow> None | Some b \<Rightarrow> Some (fill b out)) in
     if ret \<noteq> IQR_OK then detach_end ret priv_raw state_raw detached_state_raw w else
    (case isara_save_data detached_state_file (buf state_raw) w of (ret, w) \<Rightarrow>
     detach_end ret priv_raw state_raw detached_state_raw w))))))))))))))"

section \<open>Verification: xmssmt/verify/main.c and rainbow/verify/main.c\<close>

text \<open>
  Modelled from the spec: the toolkit's \<open>iqr_XMSSMTVerify\<close> and \<open>iqr_RainbowVerify\<close>
  (with the import of the public key and the creation of the parameters) are not part
  of the samples. Section 4.1 of the specification gives \<open>verify(public_key, digest,
  signature)\<close> as a function of its three arguments to a result, without mutation;
  the record below takes any such function.
\<close>

record ('sel, 'p, 'pk) verifier =
  ver_CreateParams :: "'sel \<Rightarrow> iqr_retval \<times> 'p"
  iqr_ImportPublicKey :: "'p \<Rightarrow> bytes \<Rightarrow> iqr_retval \<times> 'pk"
  iqr_Verify :: "'pk \<Rightarrow> bytes \<Rightarrow> bytes \<Rightarrow> iqr_retval"

datatype iqr_XMSSMTTreeStrategy =
    IQR_XMSSMT_FULL_TREE_STRATEGY
  | IQR_XMSSMT_MEMORY_CONSTRAINED_STRATEGY
  | IQR_XMSSMT_CPU_CONSTRAINED_STRATEGY
  | IQR_XMSSMT_VERIFY_ONLY_STRATEGY

datatype iqr_XMSSMTVariant =
    IQR_XMSSMT_20_2 | IQR_XMSSMT_20_4
  | IQR_XMSSMT_40_2 | IQR_XMSSMT_40_4 | IQR_XMSSMT_40_8
  | IQR_XMSSMT_60_3 | IQR_XMSSMT_60_6 | IQR_XMSSMT_60_12

text \<open>
  \<open>showcase_xmssmt_verify\<close>: the public key object is destroyed after the
  verification, then the label \<open>end\<close> frees \<open>pub_raw\<close> and \<open>sig\<close>.
\<close>

definition verify_end ::
  "iqr_retval \<Rightarrow> bytes option \<Rightarrow> bytes option \<Rightarrow> world \<Rightarrow> iqr_retval \<times> world"
where
  "verify_end ret pub_raw sig w =
     (let w1 = free_buf ''pub_raw'' pub_raw w;
          w2 = free_buf ''sig'' sig w1
      in (ret, w2))"

definition showcase_xmssmt_verify ::
  "('c \<times> iqr_XMSSMTTreeStrategy \<times> iqr_XMSSMTVariant, 'p, 'pk) verifier \<Rightarrow> 'c \<Rightarrow>
     iqr_XMSSMTVariant \<Rightarrow> bytes \<Rightarrow> string \<Rightarrow> string \<Rightarrow> world \<Rightarrow> iqr_retval \<times> world"
where
  "showcase_xmssmt_verify eng ctx variant digest pub_file sig_file w0 =
    (case ver_CreateParams eng (ctx, IQR_XMSSMT_VERIFY_ONLY_STRATEGY, variant) of
       (ret, params) \<Rightarrow>
     let w = log_event (Called API_CreateParams) w0 in
     if ret \<noteq> IQR_OK then verify_end ret None None w else
    (case isara_load_data pub_file w of (ret, pub_raw, w) \<Rightarrow>
     if ret \<noteq> IQR_OK then verify_end ret pub_raw None w else
    (case isara_load_data sig_file w of (ret, sig, w) \<Rightarrow>
     if ret \<noteq> IQR_OK then verify_end ret pub_raw sig w else
    (case iqr_ImportPublicKey eng params (buf pub_raw) of (ret, pub) \<Rightarrow>
     let w = log_event (Called API_ImportPublicKey) w in
     if ret \<noteq> IQR_OK then verify_end ret pub_raw sig w else
     let ret = iqr_Verify eng pub digest (buf sig);
         w = log_event (Called API_Verify) w in
     verify_end ret pub_raw sig w))))"

text \<open>
  \<open>showcase_rainbow_verify\<close>: the message itself is verified, loaded from its file
  after the public key has been imported; \<open>end\<close> frees \<open>message\<close>, \<open>pub_raw\<close> and
  \<open>sig\<close>.
\<close>

definition rainbow_verify_end ::
  "iqr_retval \<Rightarrow> bytes option \<Rightarrow> bytes option \<Rightarrow> bytes option \<Rightarrow> world \<Rightarrow> iqr_retval \<times> world"
where
  "rainbow_verify_end ret message pub_raw sig w =
     (let w1 = free_buf ''message'' message w;
          w2 = free_buf ''pub_raw'' pub_raw w1;
          w3 = free_buf ''sig'' sig w2
      in (ret, w3))"

definition showcase_rainbow_verify ::
  "('c \<times> 'v, 'p, 'pk) verifier \<Rightarrow> 'c \<Rightarrow> 'v \<Rightarrow> string \<Rightarrow> string \<Rightarrow> string \<Rightarrow> world \<Rightarrow>
     iqr_retval \<times> world"
where
  "showcase_rainbow_verify eng ctx variant pub_file message_file sig_file w0 =
    (case ver_CreateParams eng (ctx, variant) of (ret, params) \<Rightarrow>
     let w = log_event (Called API_CreateParams) w0 in
     if ret \<noteq> IQR_OK then rainbow_verify_end ret None None None w else
    (case isara_load_data pub_file w of (ret, pub_raw, w) \<Rightarrow>
     if ret \<noteq> IQR_OK then rainbow_verify_end ret None pub_raw None w else
    (case isara_load_data sig_file w of (ret, sig, w) \<Rightarrow>
     if ret \<noteq> IQR_OK then rainbow_verify_end ret None pub_raw sig w else
    (case iqr_ImportPublicKey eng params (buf pub_raw) of (ret, pub) \<Rightarrow>
     let w = log_event (Called API_ImportPublicKey) w in
     if ret \<noteq> IQR_OK then rainbow_verify_end ret None pub_raw sig w else
    (case isara_load_data message_file w of (ret, message, w) \<Rightarrow>
     if ret \<noteq> IQR_OK then rainbow_verify_end ret message pub_raw sig w else
     let ret = iqr_Verify eng pub (buf message) (buf sig);
         w = log_event (Called API_Verify) w in
     rainbow_verify_end ret message pub_raw sig w)))))"

section \<open>The command line of the detach samples\<close>

text \<open>
  \<open>paramcmp\<close> (xmss/sign/main.c): the lengths up to 32 are compared with \<open>strnlen\<close>,
  then at most 32 characters with \<open>strncmp\<close>.
\<close>

definition strnlen :: "string \<Rightarrow> nat \<Rightarrow> nat" where
  "strnlen s n = min (length s) n"

fun strncmp :: "string \<Rightarrow> string \<Rightarrow> nat \<Rightarrow> int" where
  "strncmp p1 p2 0 = 0"
| "strncmp [] [] (Suc n) = 0"
| "strncmp [] (b # p2) (Suc n) = - int (of_char b)"
| "strncmp (a # p1) [] (Suc n) = int (of_char a)"
| "strncmp (a # p1) (b # p2) (Suc n) =
     (if a = b then strncmp p1 p2 n else int (of_char a) - int (of_char b))"

definition paramcmp :: "string \<Rightarrow> string \<Rightarrow> int" where
  "paramcmp p1 p2 =
     (let max_param_size = 32 in
      if strnlen p1 max_param_size \<noteq> strnlen p2 max_param_size then 1
      else strncmp p1 p2 max_param_size)"

text \<open>
  Modelled from the spec: the parsers of the detach samples call \<open>paramcmp\<close> of
  \<open>isara_samples.h\<close>, which is not among the sources. The specification counts the
  handling of the command line among the boilerplate duplicated across the sample
  programs (section 2); the function is taken to be the \<open>paramcmp\<close> that the signing
  samples define in their own text.
\<close>

definition isara_paramcmp :: "string \<Rightarrow> string \<Rightarrow> int" where
  [simp]: "isara_paramcmp = paramcmp"

text \<open>
  \<open>strtoull(nptr, &end, 10)\<close> as the C standard describes it, for a 64-bit
  \<open>unsigned long long\<close>: white space is skipped, one sign is accepted, the decimal
  digits are converted. Without a digit nothing is converted and \<open>end\<close> is \<open>nptr\<close>;
  a value beyond the type gives \<open>ULLONG_MAX\<close> and sets \<open>errno\<close> to \<open>ERANGE\<close>; a
  minus sign negates the value in the unsigned type. The result is the value, the
  rest of the string at \<open>end\<close>, and whether \<open>errno\<close> is \<open>ERANGE\<close> afterwards (the
  code never resets \<open>errno\<close>, so the flag comes in as well).
\<close>

definition isspace :: "char \<Rightarrow> bool" where
  "isspace c = (of_char c \<in> {32, 9, 10, 11, 12, 13 :: nat})"

definition isdigit :: "char \<Rightarrow> bool" where
  "isdigit c = (48 \<le> (of_char c :: nat) \<and> (of_char c :: nat) \<le> 57)"

definition digits_value :: "string \<Rightarrow> nat" where
  "digits_value ds = foldl (\<lambda>a c. 10 * a + (of_char c - 48)) 0 ds"

definition ULLONG_MAX :: "64 word" where
  "ULLONG_MAX = - 1"

definition strtoull :: "string \<Rightarrow> bool \<Rightarrow> 64 word \<times> string \<times> bool" where
  "strtoull nptr erange =
     (let s1 = dropWhile isspace nptr;
          neg = (s1 \<noteq> [] \<and> hd s1 = CHR ''-'');
          s2 = (if s1 \<noteq> [] \<and> (hd s1 = CHR ''-'' \<or> hd s1 = CHR ''+'') then tl s1 else s1);
          ds = takeWhile isdigit s2;
          v = digits_value ds
      in if ds = [] then (0, nptr, erange)
         else if 2 ^ 64 \<le> v then (ULLONG_MAX, dropWhile isdigit s2, True)
         else ((if neg then - of_nat v else of_nat v), dropWhile isdigit s2, erange))"

text \<open>
  The branch \<open>--num-sigs\<close> of both parsers: the test on \<open>end\<close> and \<open>errno\<close>, then
  the cast of the 64-bit value to \<open>uint32_t\<close>.
\<close>

definition parse_num_sigs :: "string \<Rightarrow> bool \<Rightarrow> iqr_retval \<times> 32 word \<times> bool" where
  "parse_num_sigs arg erange =
     (case strtoull arg erange of (val, end, erange') \<Rightarrow>
        if end = arg \<or> end \<noteq> [] \<or> (val = ULLONG_MAX \<and> erange')
        then (IQR_EBADVALUE, 0, erange')
        else (IQR_OK, ucast val, erange'))"

text \<open>
  The loop of \<open>parse_commandline\<close>, shared by the samples: \<open>i\<close> runs over the
  arguments after the program name; fewer than two arguments left is an error; a known
  option takes its value with it, anything else is skipped alone. \<open>step\<close> is the chain
  of \<open>paramcmp\<close> tests of one sample: it gives the return code, the options as
  updated, and whether the option was known.
\<close>

fun parse_loop ::
  "(string \<Rightarrow> string \<Rightarrow> 'o \<Rightarrow> iqr_retval \<times> 'o \<times> bool) \<Rightarrow> string list \<Rightarrow> 'o \<Rightarrow> iqr_retval \<times> 'o"
where
  "parse_loop step [] opts = (IQR_OK, opts)"
| "parse_loop step [a] opts = (IQR_EBADVALUE, opts)"
| "parse_loop step (a # b # rest) opts =
     (case step a b opts of (ret, opts', known) \<Rightarrow>
        if ret \<noteq> IQR_OK then (ret, opts')
        else if known then parse_loop step rest opts'
        else parse_loop step (b # rest) opts')"

datatype iqr_XMSSHeight = IQR_XMSS_HEIGHT_10 | IQR_XMSS_HEIGHT_16 | IQR_XMSS_HEIGHT_20

datatype iqr_XMSSTreeStrategy =
    IQR_XMSS_FULL_TREE_STRATEGY
  | IQR_XMSS_MEMORY_CONSTRAINED_STRATEGY
  | IQR_XMSS_CPU_CONSTRAINED_STRATEGY

record xmss_detach_opts =
  opt_priv :: string
  opt_state :: string
  opt_height :: iqr_XMSSHeight
  opt_strategy :: iqr_XMSSTreeStrategy
  opt_num_signatures :: "32 word"
  opt_detached_state :: string
  opt_erange :: bool

text \<open>The defaults of \<open>main\<close> in xmss/detach/main.c; \<open>errno\<close> is as the process has it.\<close>

definition xmss_detach_defaults :: "bool \<Rightarrow> xmss_detach_opts" where
  "xmss_detach_defaults erange =
     \<lparr>opt_priv = ''priv.key'', opt_state = ''priv.state'', opt_height = IQR_XMSS_HEIGHT_10,
      opt_strategy = IQR_XMSS_FULL_TREE_STRATEGY, opt_num_signatures = 1,
      opt_detached_state = ''detached.state'', opt_erange = erange\<rparr>"

definition xmss_detach_step ::
  "string \<Rightarrow> string \<Rightarrow> xmss_detach_opts \<Rightarrow> iqr_retval \<times> xmss_detach_opts \<times> bool"
where
  "xmss_detach_step a b opts =
     (if isara_paramcmp a ''--priv'' = 0 then (IQR_OK, opts\<lparr>opt_priv := b\<rparr>, True)
      else if isara_paramcmp a ''--state'' = 0 then (IQR_OK, opts\<lparr>opt_state := b\<rparr>, True)
      else if isara_paramcmp a ''--detached-state'' = 0
        then (IQR_OK, opts\<lparr>opt_detached_state := b\<rparr>, True)
      else if isara_paramcmp a ''--height'' = 0 then
        (if isara_paramcmp b ''10'' = 0 then (IQR_OK, opts\<lparr>opt_height := IQR_XMSS_HEIGHT_10\<rparr>, True)
         else if isara_paramcmp b ''16'' = 0
           then (IQR_OK, opts\<lparr>opt_height := IQR_XMSS_HEIGHT_16\<rparr>, True)
         else if isara_paramcmp b ''20'' = 0
           then (IQR_OK, opts\<lparr>opt_height := IQR_XMSS_HEIGHT_20\<rparr>, True)
         else (IQR_EBADVALUE, opts, True))
      else if isara_paramcmp a ''--strategy'' = 0 then
        (if isara_paramcmp b ''cpu'' = 0
           then (IQR_OK, opts\<lparr>opt_strategy := IQR_XMSS_CPU_CONSTRAINED_STRATEGY\<rparr>, True)
         else if isara_paramcmp b ''memory'' = 0
           then (IQR_OK, opts\<lparr>opt_strategy := IQR_XMSS_MEMORY_CONSTRAINED_STRATEGY\<rparr>, True)
         else if isara_paramcmp b ''full'' = 0
           then (IQR_OK, opts\<lparr>opt_strategy := IQR_XMSS_FULL_TREE_STRATEGY\<rparr>, True)
         else (IQR_EBADVALUE, opts, True))
      else if isara_paramcmp a ''--num-sigs'' = 0 then
        (case parse_num_sigs b (opt_erange opts) of (ret, n, erange') \<Rightarrow>
           if ret \<noteq> IQR_OK then (ret, opts\<lparr>opt_erange := erange'\<rparr>, True)
           else (IQR_OK, opts\<lparr>opt_num_signatures := n, opt_erange := erange'\<rparr>, True))
      else (IQR_OK, opts, False))"

text \<open>\<open>parse_commandline\<close> of xmss/detach/main.c; \<open>argv\<close> starts with the program name.\<close>

definition xmss_detach_parse_commandline ::
  "string list \<Rightarrow> xmss_detach_opts \<Rightarrow> iqr_retval \<times> xmss_detach_opts"
where
  "xmss_detach_parse_commandline argv opts =
     (case argv of
        [] \<Rightarrow> (IQR_EBADVALUE, opts)
      | cmd # args \<Rightarrow> parse_loop xmss_detach_step args opts)"

record xmssmt_detach_opts =
  mt_priv :: string
  mt_state :: string
  mt_variant :: iqr_XMSSMTVariant
  mt_strategy :: iqr_XMSSMTTreeStrategy
  mt_num_signatures :: "32 word"
  mt_detached_state :: string
  mt_erange :: bool

definition xmssmt_detach_defaults :: "bool \<Rightarrow> xmssmt_detach_opts" where
  "xmssmt_detach_defaults erange =
     \<lparr>mt_priv = ''priv.key'', mt_state = ''priv.state'', mt_variant = IQR_XMSSMT_20_4,
      mt_strategy = IQR_XMSSMT_FULL_TREE_STRATEGY, mt_num_signatures = 1,
      mt_detached_state = ''detached.state'', mt_erange = erange\<rparr>"

definition xmssmt_detach_step ::
  "string \<Rightarrow> string \<Rightarrow> xmssmt_detach_opts \<Rightarrow> iqr_retval \<times> xmssmt_detach_opts \<times> bool"
where
  "xmssmt_detach_step a b opts =
     (if isara_paramcmp a ''--priv'' = 0 then (IQR_OK, opts\<lparr>mt_priv := b\<rparr>, True)
      else if isara_paramcmp a ''--state'' = 0 then (IQR_OK, opts\<lparr>mt_state := b\<rparr>, True)
      else if isara_paramcmp a ''--detached-state'' = 0
        then (IQR_OK, opts\<lparr>mt_detached_state := b\<rparr>, True)
      else if isara_paramcmp a ''--variant'' = 0 then
        (if isara_paramcmp b ''20_2'' = 0 then (IQR_OK, opts\<lparr>mt_variant := IQR_XMSSMT_20_2\<rparr>, True)
         else if isara_paramcmp b ''20_4'' = 0
           then (IQR_OK, opts\<lparr>mt_variant := IQR_XMSSMT_20_4\<rparr>, True)
         else if isara_paramcmp b ''40_2'' = 0
           then (IQR_OK, opts\<lparr>mt_variant := IQR_XMSSMT_40_2\<rparr>, True)
         else if isara_paramcmp b ''40_4'' = 0
           then (IQR_OK, opts\<lparr>mt_variant := IQR_XMSSMT_40_4\<rparr>, True)
         else if isara_paramcmp b ''40_8'' = 0
           then (IQR_OK, opts\<lparr>mt_variant := IQR_XMSSMT_40_8\<rparr>, True)
         else if isara_paramcmp b ''60_3'' = 0
           then (IQR_OK, opts\<lparr>mt_variant := IQR_XMSSMT_60_3\<rparr>, True)
         else if isara_paramcmp b ''60_6'' = 0
           then (IQR_OK, opts\<lparr>mt_variant := IQR_XMSSMT_60_6\<rparr>, True)
         else if isara_paramcmp b ''60_12'' = 0
           then (IQR_OK, opts\<lparr>mt_variant := IQR_XMSSMT_60_12\<rparr>, True)
         else (IQR_EBADVALUE, opts, True))
      else if isara_paramcmp a ''--strategy'' = 0 then
        (if isara_paramcmp b ''cpu'' = 0
           then (IQR_OK, opts\<lparr>mt_strategy := IQR_XMSSMT_CPU_CONSTRAINED_STRATEGY\<rparr>, True)
         else if isara_paramcmp b ''memory'' = 0
           then (IQR_OK, opts\<lparr>mt_strategy := IQR_XMSSMT_MEMORY_CONSTRAINED_STRATEGY\<rparr>, True)
         else if isara_paramcmp b ''full'' = 0
           then (IQR_OK, opts\<lparr>mt_strategy := IQR_XMSSMT_FULL_TREE_STRATEGY\<rparr>, True)
         else (IQR_EBADVALUE, opts, True))
      else if isara_paramcmp a ''--num-sigs'' = 0 then
        (case parse_num_sigs b (mt_erange opts) of (ret, n, erange') \<Rightarrow>
           if ret \<noteq> IQR_OK then (ret, opts\<lparr>mt_erange := erange'\<rparr>, True)
           else (IQR_OK, opts\<lparr>mt_num_signatures := n, mt_erange := erange'\<rparr>, True))
      else (IQR_OK, opts, False))"

definition xmssmt_detach_parse_commandline ::
  "string list \<Rightarrow> xmssmt_detach_opts \<Rightarrow> iqr_retval \<times> xmssmt_detach_opts"
where
  "xmssmt_detach_parse_commandline argv opts =
     (case argv of
        [] \<Rightarrow> (IQR_EBADVALUE, opts)
      | cmd # args \<Rightarrow> parse_loop xmssmt_detach_step args opts)"

section \<open>The toolkit primitives, from the specification\<close>

text \<open>
  Modelled from the spec: the toolkit's primitives for parameters, import and export,
  signature count, signing and state detachment (\<open>iqr_XMSSCreateParams\<close>,
  \<open>iqr_XMSSImportState\<close>, \<open>iqr_XMSSExportState\<close>, \<open>iqr_XMSSGetSignatureCount\<close>,
  \<open>iqr_XMSSSign\<close>, \<open>iqr_XMSSDetachState\<close> and their XMSS-MT and HSS counterparts) are
  not part of the samples. Sections 3, 4.1 and 4.4 of the specification describe them:
  a state is a cursor \<open>next_leaf_index\<close> over a range of \<open>total_leaves\<close> leaves;
  signing consumes the leaf at the cursor and fails on a depleted state without
  changing it; detaching \<open>n\<close> leaves fails when \<open>n\<close> is 0 or exceeds the remaining
  count, and otherwise gives a state for the range that starts at the parent's cursor,
  and moves the parent's cursor by \<open>n\<close>; a state is exported to a blob of fixed size
  and import rejects any other size. The specification leaves the layout of the blobs
  open: the model writes each field as eight bytes, most significant first.
\<close>

record key_state =
  range_start :: nat
  next_leaf_index :: nat
  total_leaves :: nat

definition remaining :: "key_state \<Rightarrow> nat" where
  "remaining st = range_start st + total_leaves st - next_leaf_index st"

definition valid_state :: "nat \<Rightarrow> key_state \<Rightarrow> bool" where
  "valid_state leaves st =
     (range_start st \<le> next_leaf_index st \<and>
      next_leaf_index st \<le> range_start st + total_leaves st \<and>
      range_start st + total_leaves st \<le> leaves)"

definition InvalidParameterError :: iqr_retval where
  "InvalidParameterError = IQR_EOTHER 1"

definition ImportError :: iqr_retval where
  "ImportError = IQR_EOTHER 2"

definition InsufficientCapacityError :: iqr_retval where
  "InsufficientCapacityError = IQR_EOTHER 3"

definition CryptoEngineError :: iqr_retval where
  "CryptoEngineError = IQR_EOTHER 4"

fun enc_be :: "nat \<Rightarrow> nat \<Rightarrow> bytes" where
  "enc_be 0 n = []"
| "enc_be (Suc k) n = enc_be k (n div 256) @ [of_nat n]"

definition dec_be :: "bytes \<Rightarrow> nat" where
  "dec_be bs = foldl (\<lambda>a b. a * 256 + unat b) 0 bs"

definition export_state :: "key_state \<Rightarrow> bytes" where
  "export_state st =
     enc_be 8 (range_start st) @ enc_be 8 (next_leaf_index st) @ enc_be 8 (total_leaves st)"

definition spec_ExportState :: "key_state \<Rightarrow> nat \<Rightarrow> iqr_retval \<times> bytes" where
  "spec_ExportState st raw_size =
     (if raw_size \<noteq> 24 then (IQR_EINVBUFSIZE, []) else (IQR_OK, export_state st))"

definition spec_ImportState :: "nat \<Rightarrow> bytes \<Rightarrow> iqr_retval \<times> key_state" where
  "spec_ImportState leaves raw =
     (let st = \<lparr>range_start = dec_be (take 8 raw),
                next_leaf_index = dec_be (take 8 (drop 8 raw)),
                total_leaves = dec_be (drop 16 raw)\<rparr>
      in if length raw = 24 \<and> valid_state leaves st then (IQR_OK, st)
         else (ImportError, st))"

definition spec_ImportPrivateKey :: "nat \<Rightarrow> bytes \<Rightarrow> iqr_retval \<times> bytes" where
  "spec_ImportPrivateKey leaves raw =
     (if length raw = 32 then (IQR_OK, raw) else (ImportError, raw))"

definition spec_Sign ::
  "bytes \<Rightarrow> 'r \<Rightarrow> bytes \<Rightarrow> key_state \<Rightarrow> nat \<Rightarrow> iqr_retval \<times> key_state \<times> bytes"
where
  "spec_Sign priv rng digest st sig_size =
     (if remaining st = 0 then (IQR_ESTATEDEPLETED, st, [])
      else if length digest \<noteq> 64 \<or> sig_size \<noteq> 72 then (CryptoEngineError, st, [])
      else (IQR_OK, st\<lparr>next_leaf_index := next_leaf_index st + 1\<rparr>,
            enc_be 8 (next_leaf_index st) @ digest))"

definition parent_after :: "key_state \<Rightarrow> 32 word \<Rightarrow> key_state" where
  "parent_after st n = st\<lparr>next_leaf_index := next_leaf_index st + unat n\<rparr>"

definition detached_from :: "key_state \<Rightarrow> 32 word \<Rightarrow> key_state" where
  "detached_from st n =
     \<lparr>range_start = next_leaf_index st, next_leaf_index = next_leaf_index st,
      total_leaves = unat n\<rparr>"

definition spec_DetachState ::
  "bytes \<Rightarrow> key_state \<Rightarrow> 32 word \<Rightarrow> iqr_retval \<times> key_state \<times> key_state"
where
  "spec_DetachState priv st n =
     (if unat n = 0 \<or> remaining st < unat n then (InsufficientCapacityError, st, st)
      else (IQR_OK, parent_after st n, detached_from st n))"

text \<open>
  The engine of the model: \<open>leaves\<close> gives the number of leaves of a parameter
  selection (none for an unsupported one), \<open>count\<close> what the count query stores.
\<close>

definition spec_engine ::
  "('sel \<Rightarrow> nat option) \<Rightarrow> (key_state \<Rightarrow> 'n) \<Rightarrow> ('sel, 'r, nat, bytes, key_state, 'n) engine"
where
  "spec_engine leaves count =
     \<lparr>iqr_CreateParams =
        (\<lambda>sel. case leaves sel of
                 None \<Rightarrow> (InvalidParameterError, 0)
               | Some l \<Rightarrow> (IQR_OK, l)),
      iqr_ImportPrivateKey = spec_ImportPrivateKey,
      iqr_ImportState = spec_ImportState,
      iqr_GetSignatureCount = (\<lambda>st. (IQR_OK, count st)),
      iqr_GetSignatureSize = (\<lambda>p. (IQR_OK, 72)),
      iqr_GetStateSize = (\<lambda>p. (IQR_OK, 24)),
      iqr_Sign = spec_Sign,
      iqr_ExportState = spec_ExportState,
      iqr_DetachState = spec_DetachState\<rparr>"

definition xmss_leaves :: "'c \<times> 'y \<times> iqr_XMSSHeight \<Rightarrow> nat option" where
  "xmss_leaves sel =
     (case sel of (ctx, strategy, height) \<Rightarrow>
        (case height of
           IQR_XMSS_HEIGHT_10 \<Rightarrow> Some (2 ^ 10)
         | IQR_XMSS_HEIGHT_16 \<Rightarrow> Some (2 ^ 16)
         | IQR_XMSS_HEIGHT_20 \<Rightarrow> Some (2 ^ 20)))"

definition xmss_count :: "key_state \<Rightarrow> 32 word \<times> 32 word" where
  "xmss_count st = (of_nat (total_leaves st), of_nat (remaining st))"

definition xmssmt_leaves :: "'c \<times> 'y \<times> iqr_XMSSMTVariant \<Rightarrow> nat option" where
  "xmssmt_leaves sel =
     (case sel of (ctx, strategy, variant) \<Rightarrow>
        (case variant of
           IQR_XMSSMT_20_2 \<Rightarrow> Some (2 ^ 20)
         | IQR_XMSSMT_20_4 \<Rightarrow> Some (2 ^ 20)
         | IQR_XMSSMT_40_2 \<Rightarrow> Some (2 ^ 40)
         | IQR_XMSSMT_40_4 \<Rightarrow> Some (2 ^ 40)
         | IQR_XMSSMT_40_8 \<Rightarrow> Some (2 ^ 40)
         | IQR_XMSSMT_60_3 \<Rightarrow> Some (2 ^ 60)
         | IQR_XMSSMT_60_6 \<Rightarrow> Some (2 ^ 60)
         | IQR_XMSSMT_60_12 \<Rightarrow> Some (2 ^ 60)))"

definition xmssmt_count :: "key_state \<Rightarrow> 64 word" where
  "xmssmt_count st = of_nat (remaining st)"

text \<open>
  A verifier for the verification samples: a public key of 32 bytes is imported as it
  is, and a signature of the engine above is accepted when it ends with the digest.
  Any function would do for what is proved of the samples.
\<close>

definition spec_verifier :: "('sel, unit, bytes) verifier" where
  "spec_verifier =
     \<lparr>ver_CreateParams = (\<lambda>sel. (IQR_OK, ())),
      iqr_ImportPublicKey =
        (\<lambda>p raw. if length raw = 32 then (IQR_OK, raw) else (ImportError, raw)),
      iqr_Verify =
        (\<lambda>pub digest sig. if drop 8 sig = digest then IQR_OK else IQR_EBADVALUE)\<rparr>"

section \<open>Reading a run\<close>

text \<open>How the next call of \<open>save_data\<close> will end in a world, by the fault script.\<close>

definition save_outcome :: "world \<Rightarrow> save_result" where
  "save_outcome w =
     (case fst (next_fault w) of
        Fopen_fails \<Rightarrow> Open_failed
      | Short_io k \<Rightarrow> Write_failed k
      | Flush_fails k \<Rightarrow> Close_failed k
      | _ \<Rightarrow> Written)"

text \<open>What \<open>save_data\<close> returns to its caller for each way of ending.\<close>

fun save_ret :: "save_result \<Rightarrow> iqr_retval" where
  "save_ret Written = IQR_OK"
| "save_ret Open_failed = IQR_EBADVALUE"
| "save_ret (Write_failed k) = IQR_EBADVALUE"
| "save_ret (Close_failed k) = IQR_OK"

text \<open>What a call of \<open>save_data\<close> that ended in \<open>r\<close> did to the files.\<close>

definition files_after_save ::
  "save_result \<Rightarrow> string \<Rightarrow> bytes \<Rightarrow> (string \<rightharpoonup> bytes) \<Rightarrow> (string \<rightharpoonup> bytes)"
where
  "files_after_save r fname data fs =
     (case r of
        Written \<Rightarrow> fs(fname \<mapsto> data)
      | Open_failed \<Rightarrow> fs
      | Write_failed k \<Rightarrow> fs(fname \<mapsto> take k data)
      | Close_failed k \<Rightarrow> fs(fname \<mapsto> take k data))"

text \<open>The events a call of \<open>load_data\<close> adds: the block freed after a short read.\<close>

definition load_events :: "string \<Rightarrow> world \<Rightarrow> event list" where
  "load_events fname w =
     (case files w fname of
        None \<Rightarrow> []
      | Some content \<Rightarrow>
          (case fst (next_fault w) of
             Short_io k \<Rightarrow>
               if content \<noteq> [] \<and> k < length content
               then [Freed ''tmp'' (take k content @ replicate (length content - k) 0)]
               else []
           | _ \<Rightarrow> []))"

text \<open>
  The writes of a signing run, read off the \<open>save_data\<close> events in the order they
  happened, with what they left in the files: no write at all; or one write, of the
  state file, for which \<open>save_data\<close> returned an error; or the write of the state
  file, for which \<open>save_data\<close> returned \<open>IQR_OK\<close>, and then the write of the
  signature file.
\<close>

definition persist_then_release ::
  "string \<Rightarrow> string \<Rightarrow> iqr_retval \<Rightarrow> world \<Rightarrow> world \<Rightarrow> bool"
where
  "persist_then_release state_file sig_file ret w w' =
     (case saves (new_events w w') of
        [] \<Rightarrow> ret \<noteq> IQR_OK \<and> files w' = files w
      | [Save f blob r] \<Rightarrow>
          f = state_file \<and> save_ret r \<noteq> IQR_OK \<and> ret \<noteq> IQR_OK \<and>
          files w' = files_after_save r f blob (files w)
      | [Save f blob r, Save g sg r'] \<Rightarrow>
          f = state_file \<and> save_ret r = IQR_OK \<and> g = sig_file \<and>
          (ret = IQR_OK \<longrightarrow> save_ret r' = IQR_OK) \<and>
          files w' = files_after_save r' g sg (files_after_save r f blob (files w))
      | _ \<Rightarrow> False)"

text \<open>The key and the state a run works on: the files' bytes, imported.\<close>

definition imported_key :: "('sel, 'r, 'p, 'k, 's, 'n) engine \<Rightarrow> 'sel \<Rightarrow> bytes \<Rightarrow> 'k" where
  "imported_key eng sel priv_bytes =
     snd (iqr_ImportPrivateKey eng (snd (iqr_CreateParams eng sel)) priv_bytes)"

definition imported_state :: "('sel, 'r, 'p, 'k, 's, 'n) engine \<Rightarrow> 'sel \<Rightarrow> bytes \<Rightarrow> 's" where
  "imported_state eng sel state_bytes =
     snd (iqr_ImportState eng (snd (iqr_CreateParams eng sel)) state_bytes)"

text \<open>
  The bytes a signing run is to persist, following the specification's steps 2 and 3:
  the state file's bytes imported, advanced by the signing call, and exported into
  the block they were loaded into.
\<close>

definition advanced_state_blob ::
  "('sel, 'r, 'p, 'k, 's, 'n) engine \<Rightarrow> 'sel \<Rightarrow> 'r \<Rightarrow> bytes \<Rightarrow> bytes \<Rightarrow> bytes \<Rightarrow> bytes"
where
  "advanced_state_blob eng sel rng digest priv_bytes state_bytes =
     (let params = snd (iqr_CreateParams eng sel);
          priv = snd (iqr_ImportPrivateKey eng params priv_bytes);
          state = snd (iqr_ImportState eng params state_bytes);
          sig_size = snd (iqr_GetSignatureSize eng params);
          state' = fst (snd (iqr_Sign eng priv rng digest state sig_size));
          out = snd (iqr_ExportState eng state' (length state_bytes))
      in fill state_bytes out)"

definition signature_blob ::
  "('sel, 'r, 'p, 'k, 's, 'n) engine \<Rightarrow> 'sel \<Rightarrow> 'r \<Rightarrow> bytes \<Rightarrow> bytes \<Rightarrow> bytes \<Rightarrow> bytes"
where
  "signature_blob eng sel rng digest priv_bytes state_bytes =
     (let params = snd (iqr_CreateParams eng sel);
          priv = snd (iqr_ImportPrivateKey eng params priv_bytes);
          state = snd (iqr_ImportState eng params state_bytes);
          sig_size = snd (iqr_GetSignatureSize eng params);
          out = snd (snd (iqr_Sign eng priv rng digest state sig_size))
      in fill (replicate sig_size 0) out)"

text \<open>The bytes handed to \<open>save_data\<close> in a run, in order.\<close>

fun saved_bytes :: "event \<Rightarrow> bytes" where
  "saved_bytes (Save f d r) = d"
| "saved_bytes e = []"

text \<open>
  The writes of a detach run: no write; or the parent's state file alone (\<open>save_data\<close>
  returned an error, or a later step did); or the write of the parent's state file,
  for which \<open>save_data\<close> returned \<open>IQR_OK\<close>, and then the write of the detached
  state file, whose result is the result of the run.
\<close>

definition parent_then_detached ::
  "string \<Rightarrow> string \<Rightarrow> iqr_retval \<Rightarrow> world \<Rightarrow> world \<Rightarrow> bool"
where
  "parent_then_detached state_file detached_state_file ret w w' =
     (case saves (new_events w w') of
        [] \<Rightarrow> ret \<noteq> IQR_OK \<and> files w' = files w
      | [Save f blob r] \<Rightarrow>
          f = state_file \<and> ret \<noteq> IQR_OK \<and>
          files w' = files_after_save r f blob (files w)
      | [Save f blob r, Save g d r'] \<Rightarrow>
          f = state_file \<and> save_ret r = IQR_OK \<and> g = detached_state_file \<and>
          ret = save_ret r' \<and>
          files w' = files_after_save r' g d (files_after_save r f blob (files w))
      | _ \<Rightarrow> False)"

text \<open>
  The bytes a detach run is to write: the parent's state after the detachment,
  exported into the block the state file was loaded into, and the detached state,
  exported over it.
\<close>

definition parent_blob ::
  "('sel, 'r, 'p, 'k, 's, 'n) engine \<Rightarrow> 'sel \<Rightarrow> 32 word \<Rightarrow> bytes \<Rightarrow> bytes \<Rightarrow> bytes"
where
  "parent_blob eng sel n priv_bytes state_bytes =
     (let params = snd (iqr_CreateParams eng sel);
          priv = snd (iqr_ImportPrivateKey eng params priv_bytes);
          state = snd (iqr_ImportState eng params state_bytes);
          state' = fst (snd (iqr_DetachState eng priv state n));
          out = snd (iqr_ExportState eng state' (length state_bytes))
      in fill state_bytes out)"

definition detached_blob ::
  "('sel, 'r, 'p, 'k, 's, 'n) engine \<Rightarrow> 'sel \<Rightarrow> 32 word \<Rightarrow> bytes \<Rightarrow> bytes \<Rightarrow> bytes"
where
  "detached_blob eng sel n priv_bytes state_bytes =
     (let params = snd (iqr_CreateParams eng sel);
          priv = snd (iqr_ImportPrivateKey eng params priv_bytes);
          state = snd (iqr_ImportState eng params state_bytes);
          detached_state = snd (snd (iqr_DetachState eng priv state n));
          out = snd (iqr_ExportState eng detached_state (length state_bytes))
      in fill (parent_blob eng sel n priv_bytes state_bytes) out)"

text \<open>The blocks freed under a name in a run, and a block that holds zeros only.\<close>

definition freed_as :: "string \<Rightarrow> event list \<Rightarrow> bytes list" where
  "freed_as name evs = concat (map (\<lambda>e. case e of Freed n b \<Rightarrow> if n = name then [b] else [] | _ \<Rightarrow> []) evs)"

definition wiped :: "bytes \<Rightarrow> bool" where
  "wiped b = list_all (\<lambda>x. x = 0) b"

section \<open>A concrete setting\<close>

text \<open>
  A key of height 10 with 500 signatures left, a depleted one, and a world that holds
  the private key and a state in the default files, with a given fault script.
\<close>

definition example_key :: bytes where
  "example_key = replicate 32 7"

definition example_digest :: bytes where
  "example_digest = replicate 64 1"

definition example_state :: key_state where
  "example_state = \<lparr>range_start = 0, next_leaf_index = 524, total_leaves = 1024\<rparr>"

definition depleted_state :: key_state where
  "depleted_state = \<lparr>range_start = 0, next_leaf_index = 1024, total_leaves = 1024\<rparr>"

definition example_world :: "key_state \<Rightarrow> libc_fault list \<Rightarrow> world" where
  "example_world st fs =
     \<lparr>files = [''priv.key'' \<mapsto> example_key, ''priv.state'' \<mapsto> export_state st],
      faults = fs, trace = []\<rparr>"

definition xmss_spec ::
  "(unit \<times> iqr_XMSSTreeStrategy \<times> iqr_XMSSHeight, unit, nat, bytes, key_state, 32 word \<times> 32 word) engine"
where
  "xmss_spec = spec_engine xmss_leaves xmss_count"

definition hss_spec ::
  "(unit \<times> unit \<times> unit \<times> unit \<times> iqr_HSSLevel, unit, nat, bytes, key_state, 32 word \<times> 32 word) engine"
where
  "hss_spec = spec_engine (\<lambda>sel. Some (2 ^ 10)) xmss_count"

definition xmssmt_spec ::
  "(unit \<times> iqr_XMSSMTTreeStrategy \<times> iqr_XMSSMTVariant, unit, nat, bytes, key_state, 64 word) engine"
where
  "xmssmt_spec = spec_engine xmssmt_leaves xmssmt_count"

text \<open>
  What \<open>load_data\<close> gives its caller (return code and pointer), as a function of the
  files and the fault script alone.
\<close>

definition load_outcome ::
  "string \<Rightarrow> (string \<rightharpoonup> bytes) \<Rightarrow> libc_fault list \<Rightarrow> iqr_retval \<times> bytes option"
where
  "load_outcome fname fs fl =
     (let r = load_data fname \<lparr>files = fs, faults = fl, trace = []\<rparr> in (fst r, fst (snd r)))"

text \<open>A world for the verification samples: a public key and a signature over the digest.\<close>

definition verify_world :: world where
  "verify_world =
     \<lparr>files = [''pub.key'' \<mapsto> example_key, ''sig.dat'' \<mapsto> replicate 8 0 @ example_digest,
               ''message.dat'' \<mapsto> example_digest],
      faults = [], trace = []\<rparr>"

section \<open>Facts about the C library model\<close>

lemma log_event_proj [simp]:
  "trace (log_event e w) = trace w @ [e]"
  "files (log_event e w) = files w"
  "faults (log_event e w) = faults w"
  by (simp_all add: log_event_def)

lemma free_buf_proj [simp]:
  "trace (free_buf n p w) = trace w @ frees n p"
  "files (free_buf n p w) = files w"
  "faults (free_buf n p w) = faults w"
  by (simp_all add: free_buf_def)

lemma saves_simps [simp]:
  "saves [] = []"
  "saves (xs @ ys) = saves xs @ saves ys"
  "saves (Called a # xs) = saves xs"
  "saves (Freed n b # xs) = saves xs"
  "saves (Save f d r # xs) = Save f d r # saves xs"
  by (simp_all add: saves_def)

lemma saves_frees [simp]: "saves (frees n p) = []"
  by (cases p) (simp_all add: frees_def)

lemma next_fault_proj [simp]:
  "trace (snd (next_fault w)) = trace w"
  "files (snd (next_fault w)) = files w"
  "faults (snd (next_fault w)) = tl (faults w)"
  by (simp_all add: next_fault_def split: list.splits)

lemma next_fault_log_event [simp]: "fst (next_fault (log_event e w)) = fst (next_fault w)"
  by (simp add: next_fault_def log_event_def split: list.splits)

lemma calloc_proj [simp]:
  "trace (snd (calloc n w)) = trace w"
  "files (snd (calloc n w)) = files w"
  "faults (snd (calloc n w)) = tl (faults w)"
  by (simp_all add: calloc_def split_def)

lemma load_data_proj [simp]:
  "trace (snd (snd (load_data f w))) = trace w @ load_events f w"
  "files (snd (snd (load_data f w))) = files w"
  "faults (snd (snd (load_data f w))) = tl (faults w)"
  by (simp_all add: load_data_def split_def load_events_def frees_def
        split: option.splits libc_fault.splits)

lemma saves_load_events [simp]: "saves (load_events f w) = []"
  by (simp add: load_events_def split: option.splits libc_fault.splits)

lemma save_data_proj [simp]:
  "trace (snd (save_data f d w)) = trace w @ [Save f d (save_outcome w)]"
  "files (snd (save_data f d w)) = files_after_save (save_outcome w) f d (files w)"
  "faults (snd (save_data f d w)) = tl (faults w)"
  by (simp_all add: save_data_def save_outcome_def files_after_save_def split_def
        split: libc_fault.splits)

lemma save_data_ret [simp]: "fst (save_data f d w) = save_ret (save_outcome w)"
  by (simp add: save_data_def save_outcome_def split_def split: libc_fault.splits)

lemma save_outcome_log_event [simp]: "save_outcome (log_event e w) = save_outcome w"
  by (simp add: save_outcome_def)

lemma sign_end_proj [simp]:
  "fst (sign_end ret a b c w) = ret"
  "trace (snd (sign_end ret a b c w)) =
     trace w @ frees ''sig'' b @
     frees ''priv_raw'' (case a of None \<Rightarrow> None | Some x \<Rightarrow> Some (secure_memzero x (length x))) @
     frees ''state_raw'' c"
  "files (snd (sign_end ret a b c w)) = files w"
  "faults (snd (sign_end ret a b c w)) = faults w"
  by (simp_all add: sign_end_def Let_def)

lemma detach_end_proj [simp]:
  "fst (detach_end ret a b c w) = ret"
  "trace (snd (detach_end ret a b c w)) =
     trace w @
     frees ''priv_raw'' (case a of None \<Rightarrow> None | Some x \<Rightarrow> Some (secure_memzero x (length x))) @
     frees ''state_raw'' b @ frees ''detached_state_raw'' c"
  "files (snd (detach_end ret a b c w)) = files w"
  "faults (snd (detach_end ret a b c w)) = faults w"
  unfolding detach_end_def isara_secure_memzero_def
  by (simp_all add: Let_def)

lemma verify_end_proj [simp]:
  "fst (verify_end ret a b w) = ret"
  "trace (snd (verify_end ret a b w)) = trace w @ frees ''pub_raw'' a @ frees ''sig'' b"
  "files (snd (verify_end ret a b w)) = files w"
  "faults (snd (verify_end ret a b w)) = faults w"
  by (simp_all add: verify_end_def Let_def)

lemma rainbow_verify_end_proj [simp]:
  "fst (rainbow_verify_end ret m a b w) = ret"
  "trace (snd (rainbow_verify_end ret m a b w)) =
     trace w @ frees ''message'' m @ frees ''pub_raw'' a @ frees ''sig'' b"
  "files (snd (rainbow_verify_end ret m a b w)) = files w"
  "faults (snd (rainbow_verify_end ret m a b w)) = faults w"
  by (simp_all add: rainbow_verify_end_def Let_def)

section \<open>Facts about the engine of the specification\<close>

lemma length_enc_be [simp]: "length (enc_be k n) = k"
  by (induction k arbitrary: n) simp_all

lemma dec_be_snoc: "dec_be (bs @ [b]) = dec_be bs * 256 + unat b"
  by (simp add: dec_be_def)

lemma dec_enc_be: "n < 256 ^ k \<Longrightarrow> dec_be (enc_be k n) = n"
proof (induction k arbitrary: n)
  case 0
  then show ?case by (simp add: dec_be_def)
next
  case (Suc k)
  from Suc.prems have "n div 256 < 256 ^ k"
    by (simp add: less_mult_imp_div_less mult.commute)
  then have "dec_be (enc_be k (n div 256)) = n div 256" by (rule Suc.IH)
  then show ?case by (simp add: dec_be_snoc unat_of_nat)
qed

lemma length_export_state [simp]: "length (export_state st) = 24"
  by (simp add: export_state_def)

lemma import_export_state:
  assumes "valid_state leaves st" and "leaves < 2 ^ 64"
  shows "spec_ImportState leaves (export_state st) = (IQR_OK, st)"
proof (cases st)
  case (fields a b c)
  from assms fields have bnd: "a < 256 ^ 8" "b < 256 ^ 8" "c < 256 ^ 8"
    by (simp_all add: valid_state_def)
  have "dec_be (take 8 (export_state st)) = a"
    using bnd(1) fields by (simp add: export_state_def dec_enc_be)
  moreover have "dec_be (take 8 (drop 8 (export_state st))) = b"
    using bnd(2) fields by (simp add: export_state_def dec_enc_be)
  moreover have "dec_be (drop 16 (export_state st)) = c"
    using bnd(3) fields by (simp add: export_state_def dec_enc_be)
  ultimately show ?thesis
    using assms(1) fields by (simp add: spec_ImportState_def Let_def)
qed

lemma spec_engine_proj [simp]:
  "iqr_CreateParams (spec_engine leaves count) sel =
     (case leaves sel of None \<Rightarrow> (InvalidParameterError, 0) | Some l \<Rightarrow> (IQR_OK, l))"
  "iqr_ImportPrivateKey (spec_engine leaves count) = spec_ImportPrivateKey"
  "iqr_ImportState (spec_engine leaves count) = spec_ImportState"
  "iqr_GetSignatureCount (spec_engine leaves count) st = (IQR_OK, count st)"
  "iqr_GetSignatureSize (spec_engine leaves count) p = (IQR_OK, 72)"
  "iqr_GetStateSize (spec_engine leaves count) p = (IQR_OK, 24)"
  "iqr_Sign (spec_engine leaves count) = spec_Sign"
  "iqr_ExportState (spec_engine leaves count) = spec_ExportState"
  "iqr_DetachState (spec_engine leaves count) = spec_DetachState"
  by (simp_all add: spec_engine_def)

lemma load_data_no_fault:
  "faults w = [] \<Longrightarrow> files w f = Some c \<Longrightarrow>
   load_data f w = (IQR_OK, (if c = [] then None else Some c), w)"
  by (simp add: load_data_def next_fault_def)

lemma example_valid [simp]:
  "valid_state 1024 example_state"
  "valid_state 1024 depleted_state"
  "remaining example_state = 500"
  "remaining depleted_state = 0"
  by (simp_all add: valid_state_def example_state_def depleted_state_def remaining_def)

lemma example_world_proj [simp]:
  "files (example_world st fs) ''priv.key'' = Some example_key"
  "files (example_world st fs) ''priv.state'' = Some (export_state st)"
  "faults (example_world st fs) = fs"
  "trace (example_world st fs) = []"
  by (simp_all add: example_world_def)

lemma example_lengths [simp]:
  "length example_key = 32" "length example_digest = 64" "example_key \<noteq> []"
  by (auto simp: example_key_def example_digest_def)

lemma export_state_nonempty [simp]: "export_state st \<noteq> []"
  using length_export_state [of st] by (metis list.size(3) zero_neq_numeral)

section \<open>Facts about the runs\<close>

lemma load_data_buf:
  "fst (load_data f w) = IQR_OK \<Longrightarrow>
   buf (fst (snd (load_data f w))) = (case files w f of None \<Rightarrow> [] | Some c \<Rightarrow> c)"
  by (auto simp: load_data_def split_def buf_def split: if_splits libc_fault.splits option.splits)

lemma buf_fill_case [simp]:
  "buf (case p of None \<Rightarrow> None | Some b \<Rightarrow> Some (fill b out)) = fill (buf p) out"
  by (cases p) (simp_all add: buf_def fill_def)

lemma fill_Nil [simp]: "fill [] out = []"
  by (simp add: fill_def)

lemma length_fill [simp]: "length (fill b out) = length b"
  by (simp add: fill_def)

lemma buf_simps [simp]: "buf None = []" "buf (Some b) = b"
  by (simp_all add: buf_def)

lemma files_after_save_simps [simp]:
  "files_after_save Written f d fs = fs(f \<mapsto> d)"
  "files_after_save Open_failed f d fs = fs"
  "files_after_save (Write_failed k) f d fs = fs(f \<mapsto> take k d)"
  "files_after_save (Close_failed k) f d fs = fs(f \<mapsto> take k d)"
  by (simp_all add: files_after_save_def)

lemma xmss_sign_order:
  "persist_then_release state_file sig_file
     (fst (showcase_xmss_sign eng ctx rng height strategy digest priv_file state_file sig_file w))
     w (snd (showcase_xmss_sign eng ctx rng height strategy digest priv_file state_file sig_file w))"
  unfolding showcase_xmss_sign_def
  by (simp add: split_def Let_def new_events_def persist_then_release_def)

lemma calloc_buf:
  "fst (calloc n w) \<noteq> None \<Longrightarrow> buf (fst (calloc n w)) = replicate n 0"
  by (simp add: calloc_def split_def buf_def split: if_splits)

lemma xmss_sign_blob:
  assumes "files w priv_file = Some pk" and "files w state_file = Some sb"
  shows "map saved_bytes (saves (new_events w (snd (showcase_xmss_sign eng ctx rng height
            strategy digest priv_file state_file sig_file w)))) =
         take (length (saves (new_events w (snd (showcase_xmss_sign eng ctx rng height
            strategy digest priv_file state_file sig_file w)))))
           [advanced_state_blob eng (ctx, strategy, height) rng digest pk sb,
            signature_blob eng (ctx, strategy, height) rng digest pk sb]"
  using assms unfolding showcase_xmss_sign_def
  by (simp add: split_def Let_def new_events_def advanced_state_blob_def signature_blob_def
        load_data_buf calloc_buf)

lemma hss_sign_order:
  "persist_then_release state_file sig_file
     (fst (showcase_hss_sign eng ctx rng wn height strategy digest priv_file state_file sig_file w))
     w (snd (showcase_hss_sign eng ctx rng wn height strategy digest priv_file state_file sig_file w))"
  unfolding showcase_hss_sign_def
  by (simp add: split_def Let_def new_events_def persist_then_release_def)

lemma hss_sign_blob:
  assumes "files w priv_file = Some pk" and "files w state_file = Some sb"
  shows "map saved_bytes (saves (new_events w (snd (showcase_hss_sign eng ctx rng wn height
            strategy digest priv_file state_file sig_file w)))) =
         take (length (saves (new_events w (snd (showcase_hss_sign eng ctx rng wn height
            strategy digest priv_file state_file sig_file w)))))
           [advanced_state_blob eng (ctx, strategy, wn, height, IQR_HSS_LEVEL_1) rng digest pk sb,
            signature_blob eng (ctx, strategy, wn, height, IQR_HSS_LEVEL_1) rng digest pk sb]"
  using assms unfolding showcase_hss_sign_def
  by (simp add: split_def Let_def new_events_def advanced_state_blob_def signature_blob_def
        load_data_buf calloc_buf)

lemma xmss_detach_order:
  "parent_then_detached state_file detached_state_file
     (fst (showcase_xmss_detach eng ctx height strategy priv_file state_file n detached_state_file w))
     w (snd (showcase_xmss_detach eng ctx height strategy priv_file state_file n detached_state_file w))"
  unfolding showcase_xmss_detach_def
  by (simp add: split_def Let_def new_events_def parent_then_detached_def)

lemma xmss_detach_blobs:
  assumes "files w priv_file = Some pk" and "files w state_file = Some sb"
  shows "map saved_bytes (saves (new_events w (snd (showcase_xmss_detach eng ctx height strategy
            priv_file state_file n detached_state_file w)))) =
         take (length (saves (new_events w (snd (showcase_xmss_detach eng ctx height strategy
            priv_file state_file n detached_state_file w)))))
           [parent_blob eng (ctx, strategy, height) n pk sb,
            detached_blob eng (ctx, strategy, height) n pk sb]"
  using assms unfolding showcase_xmss_detach_def
  by (simp add: split_def Let_def new_events_def parent_blob_def detached_blob_def load_data_buf)

lemma xmssmt_detach_order:
  "parent_then_detached state_file detached_state_file
     (fst (showcase_xmssmt_detach eng ctx variant strategy priv_file state_file n detached_state_file w))
     w (snd (showcase_xmssmt_detach eng ctx variant strategy priv_file state_file n detached_state_file w))"
  unfolding showcase_xmssmt_detach_def
  by (simp add: split_def Let_def new_events_def parent_then_detached_def)

lemma xmssmt_detach_blobs:
  assumes "files w priv_file = Some pk" and "files w state_file = Some sb"
  shows "map saved_bytes (saves (new_events w (snd (showcase_xmssmt_detach eng ctx variant strategy
            priv_file state_file n detached_state_file w)))) =
         take (length (saves (new_events w (snd (showcase_xmssmt_detach eng ctx variant strategy
            priv_file state_file n detached_state_file w)))))
           [parent_blob eng (ctx, strategy, variant) n pk sb,
            detached_blob eng (ctx, strategy, variant) n pk sb]"
  using assms unfolding showcase_xmssmt_detach_def
  by (simp add: split_def Let_def new_events_def parent_blob_def detached_blob_def load_data_buf)

lemma valid_after_detach:
  assumes "valid_state l st" and "unat n \<le> remaining st"
  shows "valid_state l (parent_after st n)" and "valid_state l (detached_from st n)"
  using assms by (auto simp: valid_state_def parent_after_def detached_from_def remaining_def)

lemma remaining_after_detach:
  assumes "valid_state l st" and "unat n \<le> remaining st"
  shows "remaining (parent_after st n) = remaining st - unat n"
    and "remaining (detached_from st n) = unat n"
  using assms by (auto simp: valid_state_def parent_after_def detached_from_def remaining_def)

lemma fill_same_length [simp]: "length out = length b \<Longrightarrow> fill b out = out"
  by (simp add: fill_def)

lemma spec_xmss_detach_run:
  fixes leaves :: "'c \<times> 'y \<times> 'h \<Rightarrow> nat option" and count :: "key_state \<Rightarrow> 32 word \<times> 32 word"
  assumes "leaves (ctx, strategy, height) = Some l" and "l < 2 ^ 64"
    and "files w priv_file = Some pk" and "length pk = 32"
    and "files w state_file = Some (export_state st)" and "valid_state l st"
    and "faults w = []" and "unat n \<noteq> 0" and "unat n \<le> remaining st"
  shows "fst (showcase_xmss_detach (spec_engine leaves count) ctx height strategy priv_file state_file n
                detached_state_file w) = IQR_OK"
    and "files (snd (showcase_xmss_detach (spec_engine leaves count) ctx height strategy priv_file state_file n
                detached_state_file w)) =
         (files w)(state_file \<mapsto> export_state (parent_after st n),
                   detached_state_file \<mapsto> export_state (detached_from st n))"
proof -
  from assms(4) have "pk \<noteq> []" by auto
  with assms show
    "fst (showcase_xmss_detach (spec_engine leaves count) ctx height strategy priv_file state_file n
                detached_state_file w) = IQR_OK"
    "files (snd (showcase_xmss_detach (spec_engine leaves count) ctx height strategy priv_file state_file n
                detached_state_file w)) =
         (files w)(state_file \<mapsto> export_state (parent_after st n),
                   detached_state_file \<mapsto> export_state (detached_from st n))"
    unfolding showcase_xmss_detach_def
    by (simp_all add: load_data_no_fault import_export_state spec_ImportPrivateKey_def
        spec_DetachState_def spec_ExportState_def calloc_def next_fault_def save_data_def
        Let_def split_def)
qed

lemma spec_xmssmt_detach_run:
  fixes leaves :: "'c \<times> 'y \<times> 'v \<Rightarrow> nat option" and count :: "key_state \<Rightarrow> 64 word"
  assumes "leaves (ctx, strategy, variant) = Some l" and "l < 2 ^ 64"
    and "files w priv_file = Some pk" and "length pk = 32"
    and "files w state_file = Some (export_state st)" and "valid_state l st"
    and "faults w = []" and "unat n \<noteq> 0" and "unat n \<le> remaining st"
  shows "fst (showcase_xmssmt_detach (spec_engine leaves count) ctx variant strategy priv_file state_file n
                detached_state_file w) = IQR_OK"
    and "files (snd (showcase_xmssmt_detach (spec_engine leaves count) ctx variant strategy priv_file state_file n
                detached_state_file w)) =
         (files w)(state_file \<mapsto> export_state (parent_after st n),
                   detached_state_file \<mapsto> export_state (detached_from st n))"
proof -
  from assms(4) have "pk \<noteq> []" by auto
  with assms show
    "fst (showcase_xmssmt_detach (spec_engine leaves count) ctx variant strategy priv_file state_file n
                detached_state_file w) = IQR_OK"
    "files (snd (showcase_xmssmt_detach (spec_engine leaves count) ctx variant strategy priv_file state_file n
                detached_state_file w)) =
         (files w)(state_file \<mapsto> export_state (parent_after st n),
                   detached_state_file \<mapsto> export_state (detached_from st n))"
    unfolding showcase_xmssmt_detach_def
    by (simp_all add: load_data_no_fault import_export_state spec_ImportPrivateKey_def
        spec_DetachState_def spec_ExportState_def calloc_def next_fault_def save_data_def
        Let_def split_def)
qed

lemma xmss_leaves_bound: "xmss_leaves sel = Some l \<Longrightarrow> l < 2 ^ 64"
  by (auto simp: xmss_leaves_def split: prod.splits iqr_XMSSHeight.splits)

lemma xmssmt_leaves_bound: "xmssmt_leaves sel = Some l \<Longrightarrow> l < 2 ^ 64"
  by (auto simp: xmssmt_leaves_def split: prod.splits iqr_XMSSMTVariant.splits)

lemma Called_notin_load_events [simp]: "Called a \<notin> set (load_events f w)"
  by (simp add: load_events_def split: option.splits libc_fault.splits)

lemma Called_notin_frees [simp]: "Called a \<notin> set (frees n p)"
  by (cases p) (simp_all add: frees_def)

lemma xmss_detach_rejected:
  assumes "files w priv_file = Some pk" and "files w state_file = Some sb"
    and "fst (iqr_DetachState eng (imported_key eng (ctx, strategy, height) pk)
               (imported_state eng (ctx, strategy, height) sb) n) = e"
    and "e \<noteq> IQR_OK"
  shows "fst (showcase_xmss_detach eng ctx height strategy priv_file state_file n
                detached_state_file w) \<noteq> IQR_OK \<and>
         files (snd (showcase_xmss_detach eng ctx height strategy priv_file state_file n
                detached_state_file w)) = files w \<and>
         saves (new_events w (snd (showcase_xmss_detach eng ctx height strategy priv_file
                state_file n detached_state_file w))) = [] \<and>
         (Called API_DetachState \<in> set (new_events w (snd (showcase_xmss_detach eng ctx height
                strategy priv_file state_file n detached_state_file w))) \<longrightarrow>
          fst (showcase_xmss_detach eng ctx height strategy priv_file state_file n
                detached_state_file w) = e)"
  using assms unfolding showcase_xmss_detach_def
  by (simp add: split_def Let_def new_events_def imported_key_def imported_state_def
        load_data_buf)

lemma xmssmt_detach_rejected:
  assumes "files w priv_file = Some pk" and "files w state_file = Some sb"
    and "fst (iqr_DetachState eng (imported_key eng (ctx, strategy, variant) pk)
               (imported_state eng (ctx, strategy, variant) sb) n) = e"
    and "e \<noteq> IQR_OK"
  shows "fst (showcase_xmssmt_detach eng ctx variant strategy priv_file state_file n
                detached_state_file w) \<noteq> IQR_OK \<and>
         files (snd (showcase_xmssmt_detach eng ctx variant strategy priv_file state_file n
                detached_state_file w)) = files w \<and>
         saves (new_events w (snd (showcase_xmssmt_detach eng ctx variant strategy priv_file
                state_file n detached_state_file w))) = [] \<and>
         (Called API_DetachState \<in> set (new_events w (snd (showcase_xmssmt_detach eng ctx variant
                strategy priv_file state_file n detached_state_file w))) \<longrightarrow>
          fst (showcase_xmssmt_detach eng ctx variant strategy priv_file state_file n
                detached_state_file w) = e)"
  using assms unfolding showcase_xmssmt_detach_def
  by (simp add: split_def Let_def new_events_def imported_key_def imported_state_def
        load_data_buf)

lemma example_imported [simp]:
  "imported_state xmss_spec ((), IQR_XMSS_FULL_TREE_STRATEGY, IQR_XMSS_HEIGHT_10)
     (export_state example_state) = example_state"
  "imported_state xmss_spec ((), IQR_XMSS_FULL_TREE_STRATEGY, IQR_XMSS_HEIGHT_10)
     (export_state depleted_state) = depleted_state"
  "imported_key xmss_spec ((), IQR_XMSS_FULL_TREE_STRATEGY, IQR_XMSS_HEIGHT_10) example_key
     = example_key"
  by (simp_all add: imported_state_def imported_key_def xmss_spec_def xmss_leaves_def
        import_export_state spec_ImportPrivateKey_def)

lemma load_data_ok_no_fault:
  "faults w = [] \<Longrightarrow> files w f = Some c \<Longrightarrow> fst (load_data f w) = IQR_OK"
  by (simp add: load_data_def next_fault_def)

lemma calloc_no_fault: "faults w = [] \<Longrightarrow> fst (calloc n w) = Some (replicate n 0)"
  by (simp add: calloc_def next_fault_def)

lemma xmss_sign_depleted:
  assumes "files w priv_file = Some pk" and "files w state_file = Some sb"
    and "iqr_GetSignatureCount eng (imported_state eng (ctx, strategy, height) sb) = (IQR_OK, mx, 0)"
  shows "fst (showcase_xmss_sign eng ctx rng height strategy digest priv_file state_file
                sig_file w) \<noteq> IQR_OK \<and>
         files (snd (showcase_xmss_sign eng ctx rng height strategy digest priv_file state_file
                sig_file w)) = files w \<and>
         saves (new_events w (snd (showcase_xmss_sign eng ctx rng height strategy digest
                priv_file state_file sig_file w))) = [] \<and>
         Called API_Sign \<notin> set (new_events w (snd (showcase_xmss_sign eng ctx rng height
                strategy digest priv_file state_file sig_file w))) \<and>
         (Called API_GetSignatureCount \<in> set (new_events w (snd (showcase_xmss_sign eng ctx rng
                height strategy digest priv_file state_file sig_file w))) \<longrightarrow>
          fst (showcase_xmss_sign eng ctx rng height strategy digest priv_file state_file
                sig_file w) = IQR_ESTATEDEPLETED)"
  using assms unfolding showcase_xmss_sign_def
  by (simp add: split_def Let_def new_events_def imported_state_def load_data_buf)

lemma xmss_sign_depleted_no_fault:
  assumes "files w priv_file = Some pk" and "files w state_file = Some sb"
    and "faults w = []"
    and "fst (iqr_CreateParams eng (ctx, strategy, height)) = IQR_OK"
    and "fst (iqr_ImportPrivateKey eng (snd (iqr_CreateParams eng (ctx, strategy, height))) pk)
           = IQR_OK"
    and "fst (iqr_ImportState eng (snd (iqr_CreateParams eng (ctx, strategy, height))) sb)
           = IQR_OK"
    and "iqr_GetSignatureCount eng (imported_state eng (ctx, strategy, height) sb) = (IQR_OK, mx, 0)"
  shows "fst (showcase_xmss_sign eng ctx rng height strategy digest priv_file state_file
                sig_file w) = IQR_ESTATEDEPLETED \<and>
         files (snd (showcase_xmss_sign eng ctx rng height strategy digest priv_file state_file
                sig_file w)) = files w \<and>
         faults (snd (showcase_xmss_sign eng ctx rng height strategy digest priv_file state_file
                sig_file w)) = []"
  using assms unfolding showcase_xmss_sign_def
  by (simp add: split_def Let_def imported_state_def load_data_buf load_data_ok_no_fault)

lemma hss_sign_refused:
  assumes "files w priv_file = Some pk" and "files w state_file = Some sb"
    and "fst (iqr_Sign eng (imported_key eng (ctx, strategy, wn, height, IQR_HSS_LEVEL_1) pk) rng
               digest (imported_state eng (ctx, strategy, wn, height, IQR_HSS_LEVEL_1) sb)
               (snd (iqr_GetSignatureSize eng
                  (snd (iqr_CreateParams eng (ctx, strategy, wn, height, IQR_HSS_LEVEL_1))))))
           = e"
    and "e \<noteq> IQR_OK"
  shows "fst (showcase_hss_sign eng ctx rng wn height strategy digest priv_file state_file
                sig_file w) \<noteq> IQR_OK \<and>
         files (snd (showcase_hss_sign eng ctx rng wn height strategy digest priv_file state_file
                sig_file w)) = files w \<and>
         saves (new_events w (snd (showcase_hss_sign eng ctx rng wn height strategy digest
                priv_file state_file sig_file w))) = [] \<and>
         (Called API_Sign \<in> set (new_events w (snd (showcase_hss_sign eng ctx rng wn height
                strategy digest priv_file state_file sig_file w))) \<longrightarrow>
          fst (showcase_hss_sign eng ctx rng wn height strategy digest priv_file state_file
                sig_file w) = e)"
  using assms unfolding showcase_hss_sign_def
  by (simp add: split_def Let_def new_events_def imported_key_def imported_state_def
        load_data_buf)

lemma hss_sign_refused_no_fault:
  assumes "files w priv_file = Some pk" and "files w state_file = Some sb"
    and "faults w = []"
    and "fst (iqr_CreateParams eng (ctx, strategy, wn, height, IQR_HSS_LEVEL_1)) = IQR_OK"
    and "fst (iqr_ImportPrivateKey eng
           (snd (iqr_CreateParams eng (ctx, strategy, wn, height, IQR_HSS_LEVEL_1))) pk) = IQR_OK"
    and "fst (iqr_ImportState eng
           (snd (iqr_CreateParams eng (ctx, strategy, wn, height, IQR_HSS_LEVEL_1))) sb) = IQR_OK"
    and "fst (iqr_GetSignatureSize eng
           (snd (iqr_CreateParams eng (ctx, strategy, wn, height, IQR_HSS_LEVEL_1)))) = IQR_OK"
    and "fst (iqr_Sign eng (imported_key eng (ctx, strategy, wn, height, IQR_HSS_LEVEL_1) pk) rng
               digest (imported_state eng (ctx, strategy, wn, height, IQR_HSS_LEVEL_1) sb)
               (snd (iqr_GetSignatureSize eng
                  (snd (iqr_CreateParams eng (ctx, strategy, wn, height, IQR_HSS_LEVEL_1))))))
           = e"
    and "e \<noteq> IQR_OK"
  shows "fst (showcase_hss_sign eng ctx rng wn height strategy digest priv_file state_file
                sig_file w) = e \<and>
         files (snd (showcase_hss_sign eng ctx rng wn height strategy digest priv_file state_file
                sig_file w)) = files w \<and>
         faults (snd (showcase_hss_sign eng ctx rng wn height strategy digest priv_file state_file
                sig_file w)) = []"
  using assms unfolding showcase_hss_sign_def
  by (simp add: split_def Let_def imported_key_def imported_state_def load_data_buf
        load_data_ok_no_fault calloc_no_fault)

lemma persist_then_release_failed:
  assumes "persist_then_release sf gf ret w w'"
    and "saves (new_events w w') = Save f blob r # rest"
    and "r = Open_failed \<or> r = Write_failed k"
  shows "rest = [] \<and> f = sf \<and> ret \<noteq> IQR_OK \<and>
         files w' = (if r = Open_failed then files w else (files w)(sf \<mapsto> take k blob))"
proof (cases rest)
  case Nil
  with assms show ?thesis
    by (auto simp: persist_then_release_def)
next
  case (Cons x xs)
  with assms show ?thesis
    by (cases x; cases xs) (auto simp: persist_then_release_def)
qed

lemma example_failed_write:
  "saves (new_events (example_world example_state [No_fault, No_fault, No_fault, Short_io 3])
     (snd (showcase_xmss_sign xmss_spec () () IQR_XMSS_HEIGHT_10 IQR_XMSS_FULL_TREE_STRATEGY
        example_digest ''priv.key'' ''priv.state'' ''sig.dat''
        (example_world example_state [No_fault, No_fault, No_fault, Short_io 3])))) =
   [Save ''priv.state'' (export_state (example_state\<lparr>next_leaf_index := next_leaf_index example_state + 1\<rparr>))
      (Write_failed 3)]"
  unfolding showcase_xmss_sign_def xmss_spec_def
  by (simp add: load_data_def xmss_leaves_def import_export_state spec_ImportPrivateKey_def
        xmss_count_def calloc_def next_fault_def spec_Sign_def spec_ExportState_def
        save_data_def new_events_def Let_def split_def)

lemma secure_memzero_all: "secure_memzero b (length b) = replicate (length b) 0"
  by (induction b) simp_all

lemma freed_as_simps [simp]:
  "freed_as n [] = []"
  "freed_as n (xs @ ys) = freed_as n xs @ freed_as n ys"
  "freed_as n (Called a # xs) = freed_as n xs"
  "freed_as n (Save f d r # xs) = freed_as n xs"
  "freed_as n (Freed m b # xs) = (if m = n then b # freed_as n xs else freed_as n xs)"
  by (simp_all add: freed_as_def)

lemma freed_as_frees:
  "freed_as n (frees m p) = (if m = n then (case p of None \<Rightarrow> [] | Some b \<Rightarrow> [b]) else [])"
  by (cases p) (simp_all add: frees_def)

lemma freed_as_frees_other [simp]: "m \<noteq> n \<Longrightarrow> freed_as n (frees m p) = []"
  by (simp add: freed_as_frees)

lemma freed_as_frees_same [simp]:
  "freed_as n (frees n p) = (case p of None \<Rightarrow> [] | Some b \<Rightarrow> [b])"
  by (simp add: freed_as_frees)

lemma case_wiped_option [simp]:
  "(case (case a of None \<Rightarrow> None | Some x \<Rightarrow> Some (secure_memzero x (length x))) of
      None \<Rightarrow> [] | Some b \<Rightarrow> [b]) =
   (case a of None \<Rightarrow> [] | Some x \<Rightarrow> [replicate (length x) 0])"
  by (cases a) (simp_all add: secure_memzero_all)

lemma freed_as_load_events [simp]: "freed_as ''priv_raw'' (load_events f w) = []"
  by (simp add: load_events_def split: option.splits libc_fault.splits)

lemma wiped_replicate [simp]: "wiped (replicate n 0)"
  by (simp add: wiped_def list_all_iff)

lemma wiped_freed_option [simp]:
  "list_all wiped (case a of None \<Rightarrow> [] | Some x \<Rightarrow> [replicate (length x) 0])"
  by (cases a) simp_all

lemma load_data_ptr:
  "fst (load_data f w) = IQR_OK \<Longrightarrow>
   fst (snd (load_data f w)) =
     (case files w f of None \<Rightarrow> None | Some c \<Rightarrow> if c = [] then None else Some c)"
  by (auto simp: load_data_def split_def split: if_splits libc_fault.splits option.splits)

lemma xmss_sign_wipes:
  "list_all wiped (freed_as ''priv_raw'' (new_events w (snd (showcase_xmss_sign eng ctx rng
      height strategy digest priv_file state_file sig_file w))))"
  unfolding showcase_xmss_sign_def
  by (simp add: split_def Let_def new_events_def)

lemma hss_sign_wipes:
  "list_all wiped (freed_as ''priv_raw'' (new_events w (snd (showcase_hss_sign eng ctx rng wn
      height strategy digest priv_file state_file sig_file w))))"
  unfolding showcase_hss_sign_def
  by (simp add: split_def Let_def new_events_def)

lemma xmss_detach_wipes:
  "list_all wiped (freed_as ''priv_raw'' (new_events w (snd (showcase_xmss_detach eng ctx height
      strategy priv_file state_file n detached_state_file w))))"
  unfolding showcase_xmss_detach_def
  by (simp add: split_def Let_def new_events_def)

lemma xmssmt_detach_wipes:
  "list_all wiped (freed_as ''priv_raw'' (new_events w (snd (showcase_xmssmt_detach eng ctx
      variant strategy priv_file state_file n detached_state_file w))))"
  unfolding showcase_xmssmt_detach_def
  by (simp add: split_def Let_def new_events_def)

lemma xmss_sign_frees_key:
  assumes "files w priv_file = Some pk" and "pk \<noteq> []"
    and "fst (iqr_CreateParams eng (ctx, strategy, height)) = IQR_OK"
    and "fst (load_data priv_file (log_event (Called API_CreateParams) w)) = IQR_OK"
  shows "freed_as ''priv_raw'' (new_events w (snd (showcase_xmss_sign eng ctx rng
      height strategy digest priv_file state_file sig_file w))) = [replicate (length pk) 0]"
  using assms unfolding showcase_xmss_sign_def
  by (simp add: split_def Let_def new_events_def load_data_ptr secure_memzero_all)

lemma hss_sign_frees_key:
  assumes "files w priv_file = Some pk" and "pk \<noteq> []"
    and "fst (iqr_CreateParams eng (ctx, strategy, wn, height, IQR_HSS_LEVEL_1)) = IQR_OK"
    and "fst (load_data priv_file (log_event (Called API_CreateParams) w)) = IQR_OK"
  shows "freed_as ''priv_raw'' (new_events w (snd (showcase_hss_sign eng ctx rng wn
      height strategy digest priv_file state_file sig_file w))) = [replicate (length pk) 0]"
  using assms unfolding showcase_hss_sign_def
  by (simp add: split_def Let_def new_events_def load_data_ptr secure_memzero_all)

lemma xmss_detach_frees_key:
  assumes "files w priv_file = Some pk" and "pk \<noteq> []"
    and "fst (iqr_CreateParams eng (ctx, strategy, height)) = IQR_OK"
    and "fst (load_data priv_file (log_event (Called API_CreateParams) w)) = IQR_OK"
  shows "freed_as ''priv_raw'' (new_events w (snd (showcase_xmss_detach eng ctx height
      strategy priv_file state_file n detached_state_file w))) = [replicate (length pk) 0]"
  using assms unfolding showcase_xmss_detach_def
  by (simp add: split_def Let_def new_events_def load_data_ptr secure_memzero_all)

lemma xmssmt_detach_frees_key:
  assumes "files w priv_file = Some pk" and "pk \<noteq> []"
    and "fst (iqr_CreateParams eng (ctx, strategy, variant)) = IQR_OK"
    and "fst (load_data priv_file (log_event (Called API_CreateParams) w)) = IQR_OK"
  shows "freed_as ''priv_raw'' (new_events w (snd (showcase_xmssmt_detach eng ctx
      variant strategy priv_file state_file n detached_state_file w))) = [replicate (length pk) 0]"
  using assms unfolding showcase_xmssmt_detach_def
  by (simp add: split_def Let_def new_events_def load_data_ptr secure_memzero_all)

lemma wiped_dec_be: "wiped bs \<Longrightarrow> dec_be bs = 0"
  by (induction bs rule: rev_induct) (simp_all add: wiped_def dec_be_def)

lemma wiped_append [simp]: "wiped (xs @ ys) = (wiped xs \<and> wiped ys)"
  by (simp add: wiped_def)

lemma wiped_export_state:
  assumes "wiped (export_state st)" and "total_leaves st < 2 ^ 64"
  shows "total_leaves st = 0"
proof -
  from assms(1) have "wiped (enc_be 8 (total_leaves st))"
    by (simp add: export_state_def)
  then have "dec_be (enc_be 8 (total_leaves st)) = 0"
    by (rule wiped_dec_be)
  moreover from assms(2) have "dec_be (enc_be 8 (total_leaves st)) = total_leaves st"
    by (simp add: dec_enc_be)
  ultimately show ?thesis by simp
qed

lemma load_data_outcome:
  "fst (load_data f w) = fst (load_outcome f (files w) (faults w))"
  "fst (snd (load_data f w)) = snd (load_outcome f (files w) (faults w))"
  by (simp_all add: load_outcome_def load_data_def next_fault_def Let_def
        split: list.splits option.splits libc_fault.splits)

lemma xmssmt_verify_files:
  "files (snd (showcase_xmssmt_verify eng ctx variant digest pub_file sig_file w)) = files w"
  unfolding showcase_xmssmt_verify_def
  by (simp add: split_def Let_def)

lemma xmssmt_verify_determined:
  assumes "files v = files w" and "faults v = faults w"
  shows "fst (showcase_xmssmt_verify eng ctx variant digest pub_file sig_file v) =
         fst (showcase_xmssmt_verify eng ctx variant digest pub_file sig_file w)"
  using assms unfolding showcase_xmssmt_verify_def
  by (simp add: split_def Let_def load_data_outcome)

lemma rainbow_verify_files:
  "files (snd (showcase_rainbow_verify eng ctx variant pub_file message_file sig_file w)) = files w"
  unfolding showcase_rainbow_verify_def
  by (simp add: split_def Let_def)

lemma rainbow_verify_determined:
  assumes "files v = files w" and "faults v = faults w"
  shows "fst (showcase_rainbow_verify eng ctx variant pub_file message_file sig_file v) =
         fst (showcase_rainbow_verify eng ctx variant pub_file message_file sig_file w)"
  using assms unfolding showcase_rainbow_verify_def
  by (simp add: split_def Let_def load_data_outcome)

lemma example_verify_ok:
  "fst (showcase_xmssmt_verify spec_verifier () IQR_XMSSMT_20_4 example_digest ''pub.key''
          ''sig.dat'' verify_world) = IQR_OK"
  unfolding showcase_xmssmt_verify_def spec_verifier_def verify_world_def
  by (simp add: load_data_def next_fault_def Let_def split_def example_key_def)

lemma strncmp_eq_0:
  "length p = length q \<Longrightarrow> (strncmp p q n = 0) = (take n p = take n q)"
  by (induction p q n rule: strncmp.induct) auto

lemma paramcmp_literal: "length q < 32 \<Longrightarrow> (paramcmp p q = 0) = (p = q)"
proof (cases "length p = length q")
  case True
  assume "length q < 32"
  with True show ?thesis
    by (simp add: paramcmp_def strnlen_def strncmp_eq_0)
next
  case False
  assume "length q < 32"
  with False show ?thesis
    by (auto simp: paramcmp_def strnlen_def)
qed

lemma isdigit_not_space: "isdigit c \<Longrightarrow> \<not> isspace c"
  by (auto simp: isdigit_def isspace_def)

lemma isdigit_not_sign: "isdigit c \<Longrightarrow> c \<noteq> CHR ''-'' \<and> c \<noteq> CHR ''+''"
  by (auto simp: isdigit_def)

lemma strtoull_digits:
  assumes "s \<noteq> []" and "list_all isdigit s" and "digits_value s < 2 ^ 64"
  shows "strtoull s e = (of_nat (digits_value s), [], e)"
proof -
  from assms obtain c cs where s: "s = c # cs" by (cases s) auto
  with assms have c: "isdigit c" by simp
  have tw: "takeWhile isdigit s = s" "dropWhile isdigit s = []"
    using assms(2) by (simp_all add: list_all_iff)
  have dw: "dropWhile isspace s = s"
    using c s by (simp add: isdigit_not_space)
  have sg: "hd s \<noteq> CHR ''-''" "hd s \<noteq> CHR ''+''"
    using c s isdigit_not_sign by auto
  show ?thesis
    using assms(1,3) sg by (simp add: strtoull_def Let_def tw dw)
qed

lemma of_nat_eq_ULLONG_MAX:
  assumes "v < 2 ^ 64"
  shows "((of_nat v :: 64 word) = ULLONG_MAX) = (v = 2 ^ 64 - 1)"
proof -
  have u: "unat (of_nat v :: 64 word) = v"
    using assms by (simp add: unat_of_nat)
  have m: "unat ULLONG_MAX = 2 ^ 64 - 1"
    by (simp add: ULLONG_MAX_def unsigned_minus_1_eq_mask mask_eq_exp_minus_1)
  have "((of_nat v :: 64 word) = ULLONG_MAX) = (unat (of_nat v :: 64 word) = unat ULLONG_MAX)"
    by (rule word_unat_eq_iff)
  with u m show ?thesis by simp
qed

lemma parse_num_sigs_digits:
  assumes "s \<noteq> []" and "list_all isdigit s" and "digits_value s < 2 ^ 64"
    and "\<not> (digits_value s = 2 ^ 64 - 1 \<and> e)"
  shows "parse_num_sigs s e = (IQR_OK, of_nat (digits_value s), e)"
  using assms
  by (auto simp: parse_num_sigs_def strtoull_digits of_nat_eq_ULLONG_MAX unsigned_of_nat
        take_bit_nat_eq_self)

lemma parse_num_sigs_accepted:
  "parse_num_sigs s e = (IQR_OK, n, e') \<Longrightarrow> n = ucast (fst (strtoull s e))"
  by (auto simp: parse_num_sigs_def split: prod.splits if_splits)

lemma xmss_detach_step_num_sigs:
  "xmss_detach_step ''--num-sigs'' s opts =
     (case parse_num_sigs s (opt_erange opts) of (ret, n, erange') \<Rightarrow>
        if ret \<noteq> IQR_OK then (ret, opts\<lparr>opt_erange := erange'\<rparr>, True)
        else (IQR_OK, opts\<lparr>opt_num_signatures := n, opt_erange := erange'\<rparr>, True))"
  by (simp add: xmss_detach_step_def paramcmp_literal)

lemma xmssmt_detach_step_num_sigs:
  "xmssmt_detach_step ''--num-sigs'' s opts =
     (case parse_num_sigs s (mt_erange opts) of (ret, n, erange') \<Rightarrow>
        if ret \<noteq> IQR_OK then (ret, opts\<lparr>mt_erange := erange'\<rparr>, True)
        else (IQR_OK, opts\<lparr>mt_num_signatures := n, mt_erange := erange'\<rparr>, True))"
  by (simp add: xmssmt_detach_step_def paramcmp_literal)

lemma xmss_parse_num_sigs:
  "xmss_detach_parse_commandline [cmd, ''--num-sigs'', s] opts =
     (case parse_num_sigs s (opt_erange opts) of (ret, n, erange') \<Rightarrow>
        if ret \<noteq> IQR_OK then (ret, opts\<lparr>opt_erange := erange'\<rparr>)
        else (IQR_OK, opts\<lparr>opt_num_signatures := n, opt_erange := erange'\<rparr>))"
  by (simp add: xmss_detach_parse_commandline_def xmss_detach_step_num_sigs split: prod.splits)

lemma xmssmt_parse_num_sigs:
  "xmssmt_detach_parse_commandline [cmd, ''--num-sigs'', s] opts =
     (case parse_num_sigs s (mt_erange opts) of (ret, n, erange') \<Rightarrow>
        if ret \<noteq> IQR_OK then (ret, opts\<lparr>mt_erange := erange'\<rparr>)
        else (IQR_OK, opts\<lparr>mt_num_signatures := n, mt_erange := erange'\<rparr>))"
  by (simp add: xmssmt_detach_parse_commandline_def xmssmt_detach_step_num_sigs split: prod.splits)

lemma persist_then_release_state_file:
  assumes "persist_then_release sf gf ret w w'"
    and "saves (new_events w w') = Save f blob r # rest" and "sf \<noteq> gf"
  shows "f = sf \<and> files w' sf =
           (case r of
              Written \<Rightarrow> Some blob
            | Open_failed \<Rightarrow> files w sf
            | Write_failed k \<Rightarrow> Some (take k blob)
            | Close_failed k \<Rightarrow> Some (take k blob))"
proof (cases rest)
  case Nil
  with assms show ?thesis
    by (cases r) (auto simp: persist_then_release_def)
next
  case (Cons x xs)
  with assms show ?thesis
    by (cases x; cases xs; cases r)
      (auto simp: persist_then_release_def files_after_save_def split: save_result.splits)
qed

lemma parent_then_detached_state_file:
  assumes "parent_then_detached sf gf ret w w'"
    and "saves (new_events w w') = Save f blob r # rest" and "sf \<noteq> gf"
  shows "f = sf \<and> files w' sf =
           (case r of
              Written \<Rightarrow> Some blob
            | Open_failed \<Rightarrow> files w sf
            | Write_failed k \<Rightarrow> Some (take k blob)
            | Close_failed k \<Rightarrow> Some (take k blob))"
proof (cases rest)
  case Nil
  with assms show ?thesis
    by (cases r) (auto simp: parent_then_detached_def)
next
  case (Cons x xs)
  with assms show ?thesis
    by (cases x; cases xs; cases r)
      (auto simp: parent_then_detached_def files_after_save_def split: save_result.splits)
qed

lemma files_after_save_other: "g \<noteq> f \<Longrightarrow> files_after_save r f d fs g = fs g"
  by (cases r) simp_all

lemma persist_then_release_other:
  assumes "persist_then_release sf gf ret w w'" and "g \<noteq> sf" and "g \<noteq> gf"
  shows "files w' g = files w g"
proof (cases "saves (new_events w w')")
  case Nil
  with assms show ?thesis
    by (simp add: persist_then_release_def)
next
  case outer: (Cons x xs)
  show ?thesis
  proof (cases xs)
    case Nil
    with outer assms show ?thesis
      by (cases x) (auto simp: persist_then_release_def files_after_save_other)
  next
    case (Cons y ys)
    with outer assms show ?thesis
      by (cases x; cases y; cases ys) (auto simp: persist_then_release_def files_after_save_other)
  qed
qed

lemma parent_then_detached_other:
  assumes "parent_then_detached sf gf ret w w'" and "g \<noteq> sf" and "g \<noteq> gf"
  shows "files w' g = files w g"
proof (cases "saves (new_events w w')")
  case Nil
  with assms show ?thesis
    by (simp add: parent_then_detached_def)
next
  case outer: (Cons x xs)
  show ?thesis
  proof (cases xs)
    case Nil
    with outer assms show ?thesis
      by (cases x) (auto simp: parent_then_detached_def files_after_save_other)
  next
    case (Cons y ys)
    with outer assms show ?thesis
      by (cases x; cases y; cases ys) (auto simp: parent_then_detached_def files_after_save_other)
  qed
qed

lemma first_saved_bytes:
  assumes "map saved_bytes evs = take (length evs) [a, b]" and "evs = Save f blob r # rest"
  shows "blob = a"
  using assms by simp

lemma spec_imported_state:
  assumes "leaves sel = Some l" and "l < 2 ^ 64" and "valid_state l st"
  shows "imported_state (spec_engine leaves count) sel (export_state st) = st"
  using assms by (simp add: imported_state_def import_export_state)

lemma spec_detach_refuses:
  "remaining st < unat n \<Longrightarrow> fst (spec_DetachState priv st n) = InsufficientCapacityError"
  by (simp add: spec_DetachState_def)

lemma load_data_short_read_frees_unwiped:
  "load_data ''priv.key''
     \<lparr>files = [''priv.key'' \<mapsto> example_key], faults = [Short_io 5], trace = []\<rparr> =
   (IQR_EBADVALUE, None,
    \<lparr>files = [''priv.key'' \<mapsto> example_key], faults = [],
     trace = [Freed ''tmp'' (replicate 5 7 @ replicate 27 0)]\<rparr>)"
  by (simp add: load_data_def next_fault_def free_buf_def frees_def example_key_def)

lemma partly_read_key_not_wiped: "\<not> wiped (replicate 5 7 @ replicate 27 0)"
  by (simp add: wiped_def list_all_iff)

lemma example_valid_mt [simp]: "valid_state 1048576 example_state"
  by (simp add: valid_state_def example_state_def)

lemma spec_xmss_detach_refused:
  fixes leaves :: "'c \<times> 'y \<times> 'h \<Rightarrow> nat option" and count :: "key_state \<Rightarrow> 32 word \<times> 32 word"
  assumes "leaves (ctx, strategy, height) = Some l" and "l < 2 ^ 64"
    and "files w priv_file = Some pk" and "length pk = 32"
    and "files w state_file = Some (export_state st)" and "valid_state l st"
    and "faults w = []" and "remaining st < unat n"
  shows "fst (showcase_xmss_detach (spec_engine leaves count) ctx height strategy priv_file
                state_file n detached_state_file w) = InsufficientCapacityError"
proof -
  from assms(4) have "pk \<noteq> []" by auto
  with assms show ?thesis
    unfolding showcase_xmss_detach_def
    by (simp add: load_data_no_fault import_export_state spec_ImportPrivateKey_def
        spec_DetachState_def InsufficientCapacityError_def Let_def split_def)
qed

lemma spec_xmssmt_detach_refused:
  fixes leaves :: "'c \<times> 'y \<times> 'v \<Rightarrow> nat option" and count :: "key_state \<Rightarrow> 64 word"
  assumes "leaves (ctx, strategy, variant) = Some l" and "l < 2 ^ 64"
    and "files w priv_file = Some pk" and "length pk = 32"
    and "files w state_file = Some (export_state st)" and "valid_state l st"
    and "faults w = []" and "remaining st < unat n"
  shows "fst (showcase_xmssmt_detach (spec_engine leaves count) ctx variant strategy priv_file
                state_file n detached_state_file w) = InsufficientCapacityError"
proof -
  from assms(4) have "pk \<noteq> []" by auto
  with assms show ?thesis
    unfolding showcase_xmssmt_detach_def
    by (simp add: load_data_no_fault import_export_state spec_ImportPrivateKey_def
        spec_DetachState_def InsufficientCapacityError_def Let_def split_def)
qed

lemma InsufficientCapacityError_not_OK [simp]: "InsufficientCapacityError \<noteq> IQR_OK"
  by (simp add: InsufficientCapacityError_def)

section \<open>The claims\<close>

text \<open>
  C1 fails on the code. The failing run: the key and a state with 500 signatures left
  are in their files, and the write of the state file fails when \<open>fclose\<close> flushes
  the stream, three bytes having reached the file. \<open>save_data\<close> discards the result of
  \<open>fclose\<close> and returns \<open>IQR_OK\<close>; both signing samples go on, write the signature
  file in full and return \<open>IQR_OK\<close>, while the state file holds three bytes, neither
  the state of before nor the advanced one. The signature is released although the
  advanced state was never persisted.
\<close>

theorem sign_releases_signature_over_torn_state:
  "fst (showcase_xmss_sign xmss_spec () () IQR_XMSS_HEIGHT_10 IQR_XMSS_FULL_TREE_STRATEGY
          example_digest ''priv.key'' ''priv.state'' ''sig.dat''
          (example_world example_state [No_fault, No_fault, No_fault, Flush_fails 3])) = IQR_OK
   \<and> saves (new_events (example_world example_state [No_fault, No_fault, No_fault, Flush_fails 3])
        (snd (showcase_xmss_sign xmss_spec () () IQR_XMSS_HEIGHT_10 IQR_XMSS_FULL_TREE_STRATEGY
          example_digest ''priv.key'' ''priv.state'' ''sig.dat''
          (example_world example_state [No_fault, No_fault, No_fault, Flush_fails 3])))) =
       [Save ''priv.state''
          (export_state (example_state\<lparr>next_leaf_index := next_leaf_index example_state + 1\<rparr>))
          (Close_failed 3),
        Save ''sig.dat'' (enc_be 8 (next_leaf_index example_state) @ example_digest) Written]
   \<and> files (snd (showcase_xmss_sign xmss_spec () () IQR_XMSS_HEIGHT_10 IQR_XMSS_FULL_TREE_STRATEGY
          example_digest ''priv.key'' ''priv.state'' ''sig.dat''
          (example_world example_state [No_fault, No_fault, No_fault, Flush_fails 3])))
        ''priv.state'' =
       Some (take 3 (export_state
          (example_state\<lparr>next_leaf_index := next_leaf_index example_state + 1\<rparr>)))
   \<and> files (snd (showcase_xmss_sign xmss_spec () () IQR_XMSS_HEIGHT_10 IQR_XMSS_FULL_TREE_STRATEGY
          example_digest ''priv.key'' ''priv.state'' ''sig.dat''
          (example_world example_state [No_fault, No_fault, No_fault, Flush_fails 3])))
        ''sig.dat'' =
       Some (enc_be 8 (next_leaf_index example_state) @ example_digest)
   \<and> fst (showcase_hss_sign hss_spec () () () () () example_digest ''priv.key'' ''priv.state''
          ''sig.dat''
          (example_world example_state [No_fault, No_fault, No_fault, Flush_fails 3])) = IQR_OK
   \<and> files (snd (showcase_hss_sign hss_spec () () () () () example_digest ''priv.key''
          ''priv.state'' ''sig.dat''
          (example_world example_state [No_fault, No_fault, No_fault, Flush_fails 3])))
        ''priv.state'' =
       Some (take 3 (export_state
          (example_state\<lparr>next_leaf_index := next_leaf_index example_state + 1\<rparr>)))
   \<and> files (snd (showcase_hss_sign hss_spec () () () () () example_digest ''priv.key''
          ''priv.state'' ''sig.dat''
          (example_world example_state [No_fault, No_fault, No_fault, Flush_fails 3])))
        ''sig.dat'' =
       Some (enc_be 8 (next_leaf_index example_state) @ example_digest)
   \<and> length (take 3 (export_state
          (example_state\<lparr>next_leaf_index := next_leaf_index example_state + 1\<rparr>))) = 3
   \<and> length (export_state example_state) = 24
   \<and> length (export_state
          (example_state\<lparr>next_leaf_index := next_leaf_index example_state + 1\<rparr>)) = 24"
proof -
  let ?w = "example_world example_state [No_fault, No_fault, No_fault, Flush_fails 3]"
  have x: "fst (showcase_xmss_sign xmss_spec () () IQR_XMSS_HEIGHT_10 IQR_XMSS_FULL_TREE_STRATEGY
          example_digest ''priv.key'' ''priv.state'' ''sig.dat'' ?w) = IQR_OK
     \<and> saves (new_events ?w (snd (showcase_xmss_sign xmss_spec () () IQR_XMSS_HEIGHT_10
          IQR_XMSS_FULL_TREE_STRATEGY example_digest ''priv.key'' ''priv.state'' ''sig.dat'' ?w))) =
        [Save ''priv.state''
          (export_state (example_state\<lparr>next_leaf_index := next_leaf_index example_state + 1\<rparr>))
          (Close_failed 3),
         Save ''sig.dat'' (enc_be 8 (next_leaf_index example_state) @ example_digest) Written]
     \<and> files (snd (showcase_xmss_sign xmss_spec () () IQR_XMSS_HEIGHT_10
          IQR_XMSS_FULL_TREE_STRATEGY example_digest ''priv.key'' ''priv.state'' ''sig.dat'' ?w)) =
        (files ?w)(''priv.state'' \<mapsto> take 3 (export_state
             (example_state\<lparr>next_leaf_index := next_leaf_index example_state + 1\<rparr>)),
           ''sig.dat'' \<mapsto> enc_be 8 (next_leaf_index example_state) @ example_digest)"
    unfolding showcase_xmss_sign_def xmss_spec_def
    by (simp add: load_data_def xmss_leaves_def import_export_state spec_ImportPrivateKey_def
        xmss_count_def calloc_def next_fault_def spec_Sign_def spec_ExportState_def
        save_data_def new_events_def Let_def split_def)
  have h: "fst (showcase_hss_sign hss_spec () () () () () example_digest ''priv.key''
          ''priv.state'' ''sig.dat'' ?w) = IQR_OK
     \<and> files (snd (showcase_hss_sign hss_spec () () () () () example_digest ''priv.key''
          ''priv.state'' ''sig.dat'' ?w)) =
        (files ?w)(''priv.state'' \<mapsto> take 3 (export_state
             (example_state\<lparr>next_leaf_index := next_leaf_index example_state + 1\<rparr>)),
           ''sig.dat'' \<mapsto> enc_be 8 (next_leaf_index example_state) @ example_digest)"
    unfolding showcase_hss_sign_def hss_spec_def
    by (simp add: load_data_def import_export_state spec_ImportPrivateKey_def
        xmss_count_def calloc_def next_fault_def spec_Sign_def spec_ExportState_def
        save_data_def Let_def split_def)
  from x h show ?thesis
    by simp
qed


text \<open>
  C5. With the toolkit as the specification describes it, in a world without faults
  whose state file holds a valid state \<open>st\<close> and for every \<open>n\<close> from 1 to the
  remaining count of \<open>st\<close>, the detach samples (XMSS and XMSS-MT) return \<open>IQR_OK\<close>
  and leave, in the detached state file, a state that imports again and has exactly
  \<open>n\<close> signatures remaining over the range that starts at the parent's cursor of
  before, and, in the parent's state file, a state that imports again, has \<open>n\<close>
  signatures fewer remaining and whose cursor stands on the first leaf after that
  range; the parent's next signature carries that leaf index.
\<close>

theorem detach_splits_capacity:
  assumes "files w priv_file = Some pk" and "length pk = 32"
    and "files w state_file = Some (export_state st)"
    and "faults w = []" and "state_file \<noteq> detached_state_file"
    and "1 \<le> unat n" and "unat n \<le> remaining st"
  shows
    "(xmss_leaves (ctx, strategy, height) = Some l \<and> valid_state l st \<longrightarrow>
       fst (showcase_xmss_detach (spec_engine xmss_leaves xmss_count) ctx height strategy
              priv_file state_file n detached_state_file w) = IQR_OK \<and>
       files (snd (showcase_xmss_detach (spec_engine xmss_leaves xmss_count) ctx height strategy
              priv_file state_file n detached_state_file w)) state_file =
         Some (export_state (parent_after st n)) \<and>
       files (snd (showcase_xmss_detach (spec_engine xmss_leaves xmss_count) ctx height strategy
              priv_file state_file n detached_state_file w)) detached_state_file =
         Some (export_state (detached_from st n)) \<and>
       spec_ImportState l (export_state (parent_after st n)) = (IQR_OK, parent_after st n) \<and>
       spec_ImportState l (export_state (detached_from st n)) = (IQR_OK, detached_from st n))
     \<and> (xmssmt_leaves (ctx', strategy', variant) = Some l' \<and> valid_state l' st \<longrightarrow>
       fst (showcase_xmssmt_detach (spec_engine xmssmt_leaves xmssmt_count) ctx' variant
              strategy' priv_file state_file n detached_state_file w) = IQR_OK \<and>
       files (snd (showcase_xmssmt_detach (spec_engine xmssmt_leaves xmssmt_count) ctx' variant
              strategy' priv_file state_file n detached_state_file w)) state_file =
         Some (export_state (parent_after st n)) \<and>
       files (snd (showcase_xmssmt_detach (spec_engine xmssmt_leaves xmssmt_count) ctx' variant
              strategy' priv_file state_file n detached_state_file w)) detached_state_file =
         Some (export_state (detached_from st n)) \<and>
       spec_ImportState l' (export_state (parent_after st n)) = (IQR_OK, parent_after st n) \<and>
       spec_ImportState l' (export_state (detached_from st n)) = (IQR_OK, detached_from st n))
     \<and> ((xmss_leaves (ctx, strategy, height) = Some l \<and> valid_state l st) \<or>
         (xmssmt_leaves (ctx', strategy', variant) = Some l' \<and> valid_state l' st) \<longrightarrow>
       remaining (detached_from st n) = unat n \<and>
       remaining (parent_after st n) = remaining st - unat n \<and>
       range_start (detached_from st n) = next_leaf_index st \<and>
       next_leaf_index (detached_from st n) = next_leaf_index st \<and>
       next_leaf_index (parent_after st n) = next_leaf_index st + unat n \<and>
       (unat n < remaining st \<and> length digest = 64 \<longrightarrow>
          spec_Sign pk rng digest (parent_after st n) 72 =
            (IQR_OK,
             (parent_after st n)\<lparr>next_leaf_index := next_leaf_index st + unat n + 1\<rparr>,
             enc_be 8 (next_leaf_index st + unat n) @ digest)))"
proof (intro conjI impI)
  assume h: "xmss_leaves (ctx, strategy, height) = Some l \<and> valid_state l st"
  then have b: "l < 2 ^ 64" by (auto dest: xmss_leaves_bound)
  from assms(6) have n0: "unat n \<noteq> 0" by simp
  note run = spec_xmss_detach_run [where leaves = xmss_leaves and count = xmss_count
      and detached_state_file = detached_state_file,
      OF conjunct1 [OF h] b assms(1,2,3) conjunct2 [OF h] assms(4) n0 assms(7)]
  show "fst (showcase_xmss_detach (spec_engine xmss_leaves xmss_count) ctx height strategy
              priv_file state_file n detached_state_file w) = IQR_OK"
    by (rule run(1))
  show "files (snd (showcase_xmss_detach (spec_engine xmss_leaves xmss_count) ctx height strategy
              priv_file state_file n detached_state_file w)) state_file =
         Some (export_state (parent_after st n))"
    using assms(5) by (simp add: run(2))
  show "files (snd (showcase_xmss_detach (spec_engine xmss_leaves xmss_count) ctx height strategy
              priv_file state_file n detached_state_file w)) detached_state_file =
         Some (export_state (detached_from st n))"
    by (simp add: run(2))
  show "spec_ImportState l (export_state (parent_after st n)) = (IQR_OK, parent_after st n)"
    using h b assms(7) by (simp add: import_export_state valid_after_detach)
  show "spec_ImportState l (export_state (detached_from st n)) = (IQR_OK, detached_from st n)"
    using h b assms(7) by (simp add: import_export_state valid_after_detach)
next
  assume h: "xmssmt_leaves (ctx', strategy', variant) = Some l' \<and> valid_state l' st"
  then have b: "l' < 2 ^ 64" by (auto dest: xmssmt_leaves_bound)
  from assms(6) have n0: "unat n \<noteq> 0" by simp
  note run = spec_xmssmt_detach_run [where leaves = xmssmt_leaves and count = xmssmt_count
      and detached_state_file = detached_state_file,
      OF conjunct1 [OF h] b assms(1,2,3) conjunct2 [OF h] assms(4) n0 assms(7)]
  show "fst (showcase_xmssmt_detach (spec_engine xmssmt_leaves xmssmt_count) ctx' variant
              strategy' priv_file state_file n detached_state_file w) = IQR_OK"
    by (rule run(1))
  show "files (snd (showcase_xmssmt_detach (spec_engine xmssmt_leaves xmssmt_count) ctx' variant
              strategy' priv_file state_file n detached_state_file w)) state_file =
         Some (export_state (parent_after st n))"
    using assms(5) by (simp add: run(2))
  show "files (snd (showcase_xmssmt_detach (spec_engine xmssmt_leaves xmssmt_count) ctx' variant
              strategy' priv_file state_file n detached_state_file w)) detached_state_file =
         Some (export_state (detached_from st n))"
    by (simp add: run(2))
  show "spec_ImportState l' (export_state (parent_after st n)) = (IQR_OK, parent_after st n)"
    using h b assms(7) by (simp add: import_export_state valid_after_detach)
  show "spec_ImportState l' (export_state (detached_from st n)) = (IQR_OK, detached_from st n)"
    using h b assms(7) by (simp add: import_export_state valid_after_detach)
next
  assume h: "(xmss_leaves (ctx, strategy, height) = Some l \<and> valid_state l st) \<or>
         (xmssmt_leaves (ctx', strategy', variant) = Some l' \<and> valid_state l' st)"
  then obtain m where v: "valid_state m st" by blast
  show "remaining (detached_from st n) = unat n"
    using v assms(7) by (rule remaining_after_detach(2))
  show "remaining (parent_after st n) = remaining st - unat n"
    using v assms(7) by (rule remaining_after_detach(1))
  show "range_start (detached_from st n) = next_leaf_index st"
    by (simp add: detached_from_def)
  show "next_leaf_index (detached_from st n) = next_leaf_index st"
    by (simp add: detached_from_def)
  show "next_leaf_index (parent_after st n) = next_leaf_index st + unat n"
    by (simp add: parent_after_def)
  assume "unat n < remaining st \<and> length digest = 64"
  then show "spec_Sign pk rng digest (parent_after st n) 72 =
            (IQR_OK,
             (parent_after st n)\<lparr>next_leaf_index := next_leaf_index st + unat n + 1\<rparr>,
             enc_be 8 (next_leaf_index st + unat n) @ digest)"
    using remaining_after_detach(1) [OF v assms(7)]
    by (simp add: spec_Sign_def parent_after_def)
qed

theorem detach_splits_capacity_witness:
  "files (example_world example_state []) ''priv.key'' = Some example_key
   \<and> length example_key = 32
   \<and> files (example_world example_state []) ''priv.state'' = Some (export_state example_state)
   \<and> faults (example_world example_state []) = []
   \<and> ''priv.state'' \<noteq> ''detached.state''
   \<and> 1 \<le> unat (100 :: 32 word) \<and> unat (100 :: 32 word) \<le> remaining example_state
   \<and> xmss_leaves ((), IQR_XMSS_FULL_TREE_STRATEGY, IQR_XMSS_HEIGHT_10) = Some 1024
   \<and> valid_state 1024 example_state
   \<and> fst (showcase_xmss_detach (spec_engine xmss_leaves xmss_count) () IQR_XMSS_HEIGHT_10
            IQR_XMSS_FULL_TREE_STRATEGY ''priv.key'' ''priv.state'' 100 ''detached.state''
            (example_world example_state [])) = IQR_OK
   \<and> files (snd (showcase_xmss_detach (spec_engine xmss_leaves xmss_count) () IQR_XMSS_HEIGHT_10
            IQR_XMSS_FULL_TREE_STRATEGY ''priv.key'' ''priv.state'' 100 ''detached.state''
            (example_world example_state []))) ''detached.state'' =
       Some (export_state (detached_from example_state 100))
   \<and> files (snd (showcase_xmss_detach (spec_engine xmss_leaves xmss_count) () IQR_XMSS_HEIGHT_10
            IQR_XMSS_FULL_TREE_STRATEGY ''priv.key'' ''priv.state'' 100 ''detached.state''
            (example_world example_state []))) ''priv.state'' =
       Some (export_state (parent_after example_state 100))
   \<and> remaining (detached_from example_state 100) = 100
   \<and> remaining (parent_after example_state 100) = 400
   \<and> next_leaf_index (parent_after example_state 100) = 624
   \<and> range_start (detached_from example_state 100) = 524"
proof -
  let ?w = "example_world example_state []"
  have h: "files ?w ''priv.key'' = Some example_key" "length example_key = 32"
    "files ?w ''priv.state'' = Some (export_state example_state)"
    "faults ?w = []" "''priv.state'' \<noteq> ''detached.state''"
    "1 \<le> unat (100 :: 32 word)" "unat (100 :: 32 word) \<le> remaining example_state"
    by simp_all
  have l: "xmss_leaves ((), IQR_XMSS_FULL_TREE_STRATEGY, IQR_XMSS_HEIGHT_10) = Some 1024"
    by (simp add: xmss_leaves_def)
  have v: "valid_state 1024 example_state" by simp
  note t = detach_splits_capacity [OF h, of "()" IQR_XMSS_FULL_TREE_STRATEGY
      IQR_XMSS_HEIGHT_10 1024 "()" IQR_XMSSMT_FULL_TREE_STRATEGY IQR_XMSSMT_20_4 "2 ^ 20"
      example_digest "()"]
  have e: "next_leaf_index example_state = 524"
    by (simp add: example_state_def)
  note t1 = t [THEN conjunct1, THEN mp, OF conjI [OF l v]]
  note t3 = t [THEN conjunct2, THEN conjunct2, THEN mp, OF disjI1 [OF conjI [OF l v]]]
  have r: "remaining (detached_from example_state 100) = 100"
    "remaining (parent_after example_state 100) = 400"
    "next_leaf_index (parent_after example_state 100) = 624"
    "range_start (detached_from example_state 100) = 524"
    using t3 e by simp_all
  from h l v t1 r show ?thesis
    by blast
qed

text \<open>
  C4. With the toolkit as the specification describes it: let the private key file be
  there, let the state file hold a valid state \<open>st\<close>, and let \<open>n\<close> exceed the
  remaining count of \<open>st\<close>. Then, whatever the fault script, the detach samples (XMSS
  and XMSS-MT) do not return \<open>IQR_OK\<close>, call \<open>save_data\<close> not once and leave every
  file as it was: the parent's blob is not rewritten and no detached state is
  produced. Without faults and with a key of the right size, the code returned is
  \<open>InsufficientCapacityError\<close>, the refusal of the detach primitive.
\<close>

theorem detach_beyond_capacity_rejected:
  assumes "files w priv_file = Some pk"
    and "files w state_file = Some (export_state st)"
    and "remaining st < unat n"
  shows
    "(xmss_leaves (ctx, strategy, height) = Some l \<and> valid_state l st \<longrightarrow>
       fst (showcase_xmss_detach (spec_engine xmss_leaves xmss_count) ctx height strategy
              priv_file state_file n detached_state_file w) \<noteq> IQR_OK \<and>
       files (snd (showcase_xmss_detach (spec_engine xmss_leaves xmss_count) ctx height strategy
              priv_file state_file n detached_state_file w)) = files w \<and>
       saves (new_events w (snd (showcase_xmss_detach (spec_engine xmss_leaves xmss_count) ctx
              height strategy priv_file state_file n detached_state_file w))) = [] \<and>
       (length pk = 32 \<and> faults w = [] \<longrightarrow>
          fst (showcase_xmss_detach (spec_engine xmss_leaves xmss_count) ctx height strategy
                 priv_file state_file n detached_state_file w) = InsufficientCapacityError))
     \<and> (xmssmt_leaves (ctx', strategy', variant) = Some l' \<and> valid_state l' st \<longrightarrow>
       fst (showcase_xmssmt_detach (spec_engine xmssmt_leaves xmssmt_count) ctx' variant
              strategy' priv_file state_file n detached_state_file w) \<noteq> IQR_OK \<and>
       files (snd (showcase_xmssmt_detach (spec_engine xmssmt_leaves xmssmt_count) ctx' variant
              strategy' priv_file state_file n detached_state_file w)) = files w \<and>
       saves (new_events w (snd (showcase_xmssmt_detach (spec_engine xmssmt_leaves xmssmt_count)
              ctx' variant strategy' priv_file state_file n detached_state_file w))) = [] \<and>
       (length pk = 32 \<and> faults w = [] \<longrightarrow>
          fst (showcase_xmssmt_detach (spec_engine xmssmt_leaves xmssmt_count) ctx' variant
                 strategy' priv_file state_file n detached_state_file w)
            = InsufficientCapacityError))"
proof (intro conjI impI)
  assume h: "xmss_leaves (ctx, strategy, height) = Some l \<and> valid_state l st"
  then have b: "l < 2 ^ 64" by (auto dest: xmss_leaves_bound)
  have d: "fst (iqr_DetachState (spec_engine xmss_leaves xmss_count)
                (imported_key (spec_engine xmss_leaves xmss_count) (ctx, strategy, height) pk)
                (imported_state (spec_engine xmss_leaves xmss_count) (ctx, strategy, height)
                   (export_state st)) n)
         = InsufficientCapacityError"
    using assms(3)
    by (simp add: spec_imported_state [where leaves = xmss_leaves
            and sel = "(ctx, strategy, height)", OF conjunct1 [OF h] b conjunct2 [OF h]]
          spec_detach_refuses)
  note r = xmss_detach_rejected [OF assms(1,2) d InsufficientCapacityError_not_OK,
      of detached_state_file]
  show "fst (showcase_xmss_detach (spec_engine xmss_leaves xmss_count) ctx height strategy
              priv_file state_file n detached_state_file w) \<noteq> IQR_OK"
    using r by (rule conjunct1)
  show "files (snd (showcase_xmss_detach (spec_engine xmss_leaves xmss_count) ctx height strategy
              priv_file state_file n detached_state_file w)) = files w"
    using r by blast
  show "saves (new_events w (snd (showcase_xmss_detach (spec_engine xmss_leaves xmss_count) ctx
              height strategy priv_file state_file n detached_state_file w))) = []"
    using r by blast
  assume f: "length pk = 32 \<and> faults w = []"
  show "fst (showcase_xmss_detach (spec_engine xmss_leaves xmss_count) ctx height strategy
                 priv_file state_file n detached_state_file w) = InsufficientCapacityError"
    using conjunct1 [OF h] b assms(1) conjunct1 [OF f] assms(2) conjunct2 [OF h]
      conjunct2 [OF f] assms(3)
    by (rule spec_xmss_detach_refused)
next
  assume h: "xmssmt_leaves (ctx', strategy', variant) = Some l' \<and> valid_state l' st"
  then have b: "l' < 2 ^ 64" by (auto dest: xmssmt_leaves_bound)
  have d: "fst (iqr_DetachState (spec_engine xmssmt_leaves xmssmt_count)
                (imported_key (spec_engine xmssmt_leaves xmssmt_count) (ctx', strategy', variant) pk)
                (imported_state (spec_engine xmssmt_leaves xmssmt_count) (ctx', strategy', variant)
                   (export_state st)) n)
         = InsufficientCapacityError"
    using assms(3)
    by (simp add: spec_imported_state [where leaves = xmssmt_leaves
            and sel = "(ctx', strategy', variant)", OF conjunct1 [OF h] b conjunct2 [OF h]]
          spec_detach_refuses)
  note r = xmssmt_detach_rejected [OF assms(1,2) d InsufficientCapacityError_not_OK,
      of detached_state_file]
  show "fst (showcase_xmssmt_detach (spec_engine xmssmt_leaves xmssmt_count) ctx' variant
              strategy' priv_file state_file n detached_state_file w) \<noteq> IQR_OK"
    using r by (rule conjunct1)
  show "files (snd (showcase_xmssmt_detach (spec_engine xmssmt_leaves xmssmt_count) ctx' variant
              strategy' priv_file state_file n detached_state_file w)) = files w"
    using r by blast
  show "saves (new_events w (snd (showcase_xmssmt_detach (spec_engine xmssmt_leaves xmssmt_count)
              ctx' variant strategy' priv_file state_file n detached_state_file w))) = []"
    using r by blast
  assume f: "length pk = 32 \<and> faults w = []"
  show "fst (showcase_xmssmt_detach (spec_engine xmssmt_leaves xmssmt_count) ctx' variant
                 strategy' priv_file state_file n detached_state_file w)
            = InsufficientCapacityError"
    using conjunct1 [OF h] b assms(1) conjunct1 [OF f] assms(2) conjunct2 [OF h]
      conjunct2 [OF f] assms(3)
    by (rule spec_xmssmt_detach_refused)
qed

theorem detach_beyond_capacity_rejected_witness:
  "files (example_world example_state []) ''priv.key'' = Some example_key
   \<and> files (example_world example_state []) ''priv.state'' = Some (export_state example_state)
   \<and> remaining example_state = 500
   \<and> remaining example_state < unat (501 :: 32 word)
   \<and> xmss_leaves ((), IQR_XMSS_FULL_TREE_STRATEGY, IQR_XMSS_HEIGHT_10) = Some 1024
   \<and> valid_state 1024 example_state
   \<and> length example_key = 32
   \<and> faults (example_world example_state []) = []
   \<and> fst (showcase_xmss_detach (spec_engine xmss_leaves xmss_count) () IQR_XMSS_HEIGHT_10
            IQR_XMSS_FULL_TREE_STRATEGY ''priv.key'' ''priv.state'' 501 ''detached.state''
            (example_world example_state [])) = InsufficientCapacityError
   \<and> files (snd (showcase_xmss_detach (spec_engine xmss_leaves xmss_count) () IQR_XMSS_HEIGHT_10
            IQR_XMSS_FULL_TREE_STRATEGY ''priv.key'' ''priv.state'' 501 ''detached.state''
            (example_world example_state []))) = files (example_world example_state [])
   \<and> saves (new_events (example_world example_state [])
        (snd (showcase_xmss_detach (spec_engine xmss_leaves xmss_count) () IQR_XMSS_HEIGHT_10
            IQR_XMSS_FULL_TREE_STRATEGY ''priv.key'' ''priv.state'' 501 ''detached.state''
            (example_world example_state [])))) = []"
proof -
  let ?w = "example_world example_state []"
  have h: "files ?w ''priv.key'' = Some example_key"
    "files ?w ''priv.state'' = Some (export_state example_state)"
    "remaining example_state < unat (501 :: 32 word)"
    by simp_all
  have l: "xmss_leaves ((), IQR_XMSS_FULL_TREE_STRATEGY, IQR_XMSS_HEIGHT_10) = Some 1024"
    by (simp add: xmss_leaves_def)
  have v: "valid_state 1024 example_state" by simp
  have f: "length example_key = 32 \<and> faults ?w = []" by simp
  have r: "remaining example_state = 500" by simp
  note t = detach_beyond_capacity_rejected [OF h, of "()" IQR_XMSS_FULL_TREE_STRATEGY
      IQR_XMSS_HEIGHT_10 1024 "''detached.state''" "()" IQR_XMSSMT_FULL_TREE_STRATEGY
      IQR_XMSSMT_20_4 "2 ^ 20"]
  note t1 = t [THEN conjunct1, THEN mp, OF conjI [OF l v]]
  note t2 = t1 [THEN conjunct2, THEN conjunct2, THEN conjunct2, THEN mp, OF f]
  from h l v f r t1 t2 show ?thesis
    by blast
qed

text \<open>
  C2, as the code has it. Let the private key file and the state file be there.

  XMSS: when the engine reports 0 signatures remaining for the state it imported, the
  run does not return \<open>IQR_OK\<close>, never calls the signing primitive, calls \<open>save_data\<close>
  not once and leaves every file as it was; a run that got as far as the count query
  returns \<open>IQR_ESTATEDEPLETED\<close>. Without faults and with the imports accepted, the run
  returns \<open>IQR_ESTATEDEPLETED\<close>, and so does a second run started where the first
  ended, again leaving the files as they were.

  HSS: the sample has no count query before signing. When the signing primitive
  refuses the state with a code \<open>e\<close> other than \<open>IQR_OK\<close> (as the engine does for a
  depleted state), the run does not return \<open>IQR_OK\<close>, calls \<open>save_data\<close> not once and
  leaves every file as it was; a run that got as far as the signing call returns \<open>e\<close>,
  and without faults a second run returns \<open>e\<close> again.
\<close>

theorem depleted_state_never_persists:
  assumes "files w priv_file = Some pk" and "files w state_file = Some sb"
  shows
    "(iqr_GetSignatureCount eng (imported_state eng (ctx, strategy, height) sb) = (IQR_OK, mx, 0) \<longrightarrow>
       (fst (showcase_xmss_sign eng ctx rng height strategy digest priv_file state_file
                sig_file w) \<noteq> IQR_OK \<and>
        files (snd (showcase_xmss_sign eng ctx rng height strategy digest priv_file state_file
                sig_file w)) = files w \<and>
        saves (new_events w (snd (showcase_xmss_sign eng ctx rng height strategy digest
                priv_file state_file sig_file w))) = [] \<and>
        Called API_Sign \<notin> set (new_events w (snd (showcase_xmss_sign eng ctx rng height
                strategy digest priv_file state_file sig_file w))) \<and>
        (Called API_GetSignatureCount \<in> set (new_events w (snd (showcase_xmss_sign eng ctx rng
                height strategy digest priv_file state_file sig_file w))) \<longrightarrow>
          fst (showcase_xmss_sign eng ctx rng height strategy digest priv_file state_file
                sig_file w) = IQR_ESTATEDEPLETED)) \<and>
       (faults w = [] \<and>
        fst (iqr_CreateParams eng (ctx, strategy, height)) = IQR_OK \<and>
        fst (iqr_ImportPrivateKey eng (snd (iqr_CreateParams eng (ctx, strategy, height))) pk)
          = IQR_OK \<and>
        fst (iqr_ImportState eng (snd (iqr_CreateParams eng (ctx, strategy, height))) sb)
          = IQR_OK \<longrightarrow>
        fst (showcase_xmss_sign eng ctx rng height strategy digest priv_file state_file
                sig_file w) = IQR_ESTATEDEPLETED \<and>
        fst (showcase_xmss_sign eng ctx rng height strategy digest priv_file state_file sig_file
               (snd (showcase_xmss_sign eng ctx rng height strategy digest priv_file state_file
                sig_file w))) = IQR_ESTATEDEPLETED \<and>
        files (snd (showcase_xmss_sign eng ctx rng height strategy digest priv_file state_file
               sig_file
               (snd (showcase_xmss_sign eng ctx rng height strategy digest priv_file state_file
                sig_file w)))) = files w))
     \<and> (e \<noteq> IQR_OK \<and>
        fst (iqr_Sign eng' (imported_key eng' (ctx', strategy', wn, height', IQR_HSS_LEVEL_1) pk)
               rng' digest
               (imported_state eng' (ctx', strategy', wn, height', IQR_HSS_LEVEL_1) sb)
               (snd (iqr_GetSignatureSize eng'
                  (snd (iqr_CreateParams eng' (ctx', strategy', wn, height', IQR_HSS_LEVEL_1))))))
           = e \<longrightarrow>
       (fst (showcase_hss_sign eng' ctx' rng' wn height' strategy' digest priv_file state_file
                sig_file w) \<noteq> IQR_OK \<and>
        files (snd (showcase_hss_sign eng' ctx' rng' wn height' strategy' digest priv_file
                state_file sig_file w)) = files w \<and>
        saves (new_events w (snd (showcase_hss_sign eng' ctx' rng' wn height' strategy' digest
                priv_file state_file sig_file w))) = [] \<and>
        (Called API_Sign \<in> set (new_events w (snd (showcase_hss_sign eng' ctx' rng' wn height'
                strategy' digest priv_file state_file sig_file w))) \<longrightarrow>
          fst (showcase_hss_sign eng' ctx' rng' wn height' strategy' digest priv_file state_file
                sig_file w) = e)) \<and>
       (faults w = [] \<and>
        fst (iqr_CreateParams eng' (ctx', strategy', wn, height', IQR_HSS_LEVEL_1)) = IQR_OK \<and>
        fst (iqr_ImportPrivateKey eng'
           (snd (iqr_CreateParams eng' (ctx', strategy', wn, height', IQR_HSS_LEVEL_1))) pk)
          = IQR_OK \<and>
        fst (iqr_ImportState eng'
           (snd (iqr_CreateParams eng' (ctx', strategy', wn, height', IQR_HSS_LEVEL_1))) sb)
          = IQR_OK \<and>
        fst (iqr_GetSignatureSize eng'
           (snd (iqr_CreateParams eng' (ctx', strategy', wn, height', IQR_HSS_LEVEL_1))))
          = IQR_OK \<longrightarrow>
        fst (showcase_hss_sign eng' ctx' rng' wn height' strategy' digest priv_file state_file
                sig_file w) = e \<and>
        fst (showcase_hss_sign eng' ctx' rng' wn height' strategy' digest priv_file state_file
               sig_file
               (snd (showcase_hss_sign eng' ctx' rng' wn height' strategy' digest priv_file
                state_file sig_file w))) = e \<and>
        files (snd (showcase_hss_sign eng' ctx' rng' wn height' strategy' digest priv_file
               state_file sig_file
               (snd (showcase_hss_sign eng' ctx' rng' wn height' strategy' digest priv_file
                state_file sig_file w)))) = files w))"
proof (intro conjI impI)
  assume c: "iqr_GetSignatureCount eng (imported_state eng (ctx, strategy, height) sb)
      = (IQR_OK, mx, 0)"
  note a = xmss_sign_depleted [OF assms c, of rng digest sig_file]
  show "fst (showcase_xmss_sign eng ctx rng height strategy digest priv_file state_file
                sig_file w) \<noteq> IQR_OK"
    using a by (rule conjunct1)
  show "files (snd (showcase_xmss_sign eng ctx rng height strategy digest priv_file state_file
                sig_file w)) = files w"
    using a by blast
  show "saves (new_events w (snd (showcase_xmss_sign eng ctx rng height strategy digest
                priv_file state_file sig_file w))) = []"
    using a by blast
  show "Called API_Sign \<notin> set (new_events w (snd (showcase_xmss_sign eng ctx rng height
                strategy digest priv_file state_file sig_file w)))"
    using a by blast
  {
    assume "Called API_GetSignatureCount \<in> set (new_events w (snd (showcase_xmss_sign eng ctx rng
                height strategy digest priv_file state_file sig_file w)))"
    with a show "fst (showcase_xmss_sign eng ctx rng height strategy digest priv_file state_file
                sig_file w) = IQR_ESTATEDEPLETED"
      by blast
  }
  assume n: "faults w = [] \<and>
        fst (iqr_CreateParams eng (ctx, strategy, height)) = IQR_OK \<and>
        fst (iqr_ImportPrivateKey eng (snd (iqr_CreateParams eng (ctx, strategy, height))) pk)
          = IQR_OK \<and>
        fst (iqr_ImportState eng (snd (iqr_CreateParams eng (ctx, strategy, height))) sb)
          = IQR_OK"
  let ?w' = "snd (showcase_xmss_sign eng ctx rng height strategy digest priv_file state_file
                sig_file w)"
  have first: "fst (showcase_xmss_sign eng ctx rng height strategy digest priv_file state_file
                sig_file w) = IQR_ESTATEDEPLETED \<and> files ?w' = files w \<and> faults ?w' = []"
    using n by (intro xmss_sign_depleted_no_fault [OF assms _ _ _ _ c]) simp_all
  then have f': "files ?w' priv_file = Some pk" "files ?w' state_file = Some sb"
    and nf: "faults ?w' = []"
    using assms by simp_all
  have second: "fst (showcase_xmss_sign eng ctx rng height strategy digest priv_file state_file
                sig_file ?w') = IQR_ESTATEDEPLETED \<and>
      files (snd (showcase_xmss_sign eng ctx rng height strategy digest priv_file state_file
                sig_file ?w')) = files ?w' \<and>
      faults (snd (showcase_xmss_sign eng ctx rng height strategy digest priv_file state_file
                sig_file ?w')) = []"
    using n by (intro xmss_sign_depleted_no_fault [OF f' nf _ _ _ c]) simp_all
  show "fst (showcase_xmss_sign eng ctx rng height strategy digest priv_file state_file
                sig_file w) = IQR_ESTATEDEPLETED"
    using first by (rule conjunct1)
  show "fst (showcase_xmss_sign eng ctx rng height strategy digest priv_file state_file sig_file
               ?w') = IQR_ESTATEDEPLETED"
    using second by (rule conjunct1)
  show "files (snd (showcase_xmss_sign eng ctx rng height strategy digest priv_file state_file
               sig_file ?w')) = files w"
    using first second by simp
next
  assume r: "e \<noteq> IQR_OK \<and>
        fst (iqr_Sign eng' (imported_key eng' (ctx', strategy', wn, height', IQR_HSS_LEVEL_1) pk)
               rng' digest
               (imported_state eng' (ctx', strategy', wn, height', IQR_HSS_LEVEL_1) sb)
               (snd (iqr_GetSignatureSize eng'
                  (snd (iqr_CreateParams eng' (ctx', strategy', wn, height', IQR_HSS_LEVEL_1))))))
           = e"
  note a = hss_sign_refused [OF assms conjunct2 [OF r] conjunct1 [OF r], of sig_file]
  show "fst (showcase_hss_sign eng' ctx' rng' wn height' strategy' digest priv_file state_file
                sig_file w) \<noteq> IQR_OK"
    using a by (rule conjunct1)
  show "files (snd (showcase_hss_sign eng' ctx' rng' wn height' strategy' digest priv_file
                state_file sig_file w)) = files w"
    using a by blast
  show "saves (new_events w (snd (showcase_hss_sign eng' ctx' rng' wn height' strategy' digest
                priv_file state_file sig_file w))) = []"
    using a by blast
  {
    assume "Called API_Sign \<in> set (new_events w (snd (showcase_hss_sign eng' ctx' rng' wn height'
                strategy' digest priv_file state_file sig_file w)))"
    with a show "fst (showcase_hss_sign eng' ctx' rng' wn height' strategy' digest priv_file
                state_file sig_file w) = e"
      by blast
  }
  assume n: "faults w = [] \<and>
        fst (iqr_CreateParams eng' (ctx', strategy', wn, height', IQR_HSS_LEVEL_1)) = IQR_OK \<and>
        fst (iqr_ImportPrivateKey eng'
           (snd (iqr_CreateParams eng' (ctx', strategy', wn, height', IQR_HSS_LEVEL_1))) pk)
          = IQR_OK \<and>
        fst (iqr_ImportState eng'
           (snd (iqr_CreateParams eng' (ctx', strategy', wn, height', IQR_HSS_LEVEL_1))) sb)
          = IQR_OK \<and>
        fst (iqr_GetSignatureSize eng'
           (snd (iqr_CreateParams eng' (ctx', strategy', wn, height', IQR_HSS_LEVEL_1))))
          = IQR_OK"
  let ?w' = "snd (showcase_hss_sign eng' ctx' rng' wn height' strategy' digest priv_file
                state_file sig_file w)"
  have first: "fst (showcase_hss_sign eng' ctx' rng' wn height' strategy' digest priv_file
                state_file sig_file w) = e \<and> files ?w' = files w \<and> faults ?w' = []"
    using n by (intro hss_sign_refused_no_fault [OF assms _ _ _ _ _ conjunct2 [OF r]
          conjunct1 [OF r]]) simp_all
  then have f': "files ?w' priv_file = Some pk" "files ?w' state_file = Some sb"
    and nf: "faults ?w' = []"
    using assms by simp_all
  have second: "fst (showcase_hss_sign eng' ctx' rng' wn height' strategy' digest priv_file
                state_file sig_file ?w') = e \<and>
      files (snd (showcase_hss_sign eng' ctx' rng' wn height' strategy' digest priv_file
                state_file sig_file ?w')) = files ?w' \<and>
      faults (snd (showcase_hss_sign eng' ctx' rng' wn height' strategy' digest priv_file
                state_file sig_file ?w')) = []"
    using n by (intro hss_sign_refused_no_fault [OF f' nf _ _ _ _ conjunct2 [OF r]
          conjunct1 [OF r]]) simp_all
  show "fst (showcase_hss_sign eng' ctx' rng' wn height' strategy' digest priv_file state_file
                sig_file w) = e"
    using first by (rule conjunct1)
  show "fst (showcase_hss_sign eng' ctx' rng' wn height' strategy' digest priv_file state_file
               sig_file ?w') = e"
    using second by (rule conjunct1)
  show "files (snd (showcase_hss_sign eng' ctx' rng' wn height' strategy' digest priv_file
               state_file sig_file ?w')) = files w"
    using first second by simp
qed

theorem depleted_state_never_persists_witness:
  "files (example_world depleted_state []) ''priv.key'' = Some example_key
   \<and> files (example_world depleted_state []) ''priv.state'' = Some (export_state depleted_state)
   \<and> iqr_GetSignatureCount xmss_spec
        (imported_state xmss_spec ((), IQR_XMSS_FULL_TREE_STRATEGY, IQR_XMSS_HEIGHT_10)
           (export_state depleted_state)) = (IQR_OK, 1024, 0)
   \<and> faults (example_world depleted_state []) = []
   \<and> fst (iqr_CreateParams xmss_spec ((), IQR_XMSS_FULL_TREE_STRATEGY, IQR_XMSS_HEIGHT_10)) = IQR_OK
   \<and> fst (iqr_ImportPrivateKey xmss_spec
        (snd (iqr_CreateParams xmss_spec ((), IQR_XMSS_FULL_TREE_STRATEGY, IQR_XMSS_HEIGHT_10)))
        example_key) = IQR_OK
   \<and> fst (iqr_ImportState xmss_spec
        (snd (iqr_CreateParams xmss_spec ((), IQR_XMSS_FULL_TREE_STRATEGY, IQR_XMSS_HEIGHT_10)))
        (export_state depleted_state)) = IQR_OK
   \<and> fst (showcase_xmss_sign xmss_spec () () IQR_XMSS_HEIGHT_10 IQR_XMSS_FULL_TREE_STRATEGY
          example_digest ''priv.key'' ''priv.state'' ''sig.dat'' (example_world depleted_state []))
       = IQR_ESTATEDEPLETED
   \<and> fst (showcase_xmss_sign xmss_spec () () IQR_XMSS_HEIGHT_10 IQR_XMSS_FULL_TREE_STRATEGY
          example_digest ''priv.key'' ''priv.state'' ''sig.dat''
          (snd (showcase_xmss_sign xmss_spec () () IQR_XMSS_HEIGHT_10 IQR_XMSS_FULL_TREE_STRATEGY
             example_digest ''priv.key'' ''priv.state'' ''sig.dat''
             (example_world depleted_state []))))
       = IQR_ESTATEDEPLETED
   \<and> files (snd (showcase_xmss_sign xmss_spec () () IQR_XMSS_HEIGHT_10
          IQR_XMSS_FULL_TREE_STRATEGY example_digest ''priv.key'' ''priv.state'' ''sig.dat''
          (example_world depleted_state [])))
       = files (example_world depleted_state [])
   \<and> Called API_Sign \<notin> set (new_events (example_world depleted_state [])
        (snd (showcase_xmss_sign xmss_spec () () IQR_XMSS_HEIGHT_10 IQR_XMSS_FULL_TREE_STRATEGY
          example_digest ''priv.key'' ''priv.state'' ''sig.dat''
          (example_world depleted_state []))))
   \<and> IQR_ESTATEDEPLETED \<noteq> IQR_OK
   \<and> fst (iqr_Sign hss_spec
        (imported_key hss_spec ((), (), (), (), IQR_HSS_LEVEL_1) example_key) () example_digest
        (imported_state hss_spec ((), (), (), (), IQR_HSS_LEVEL_1) (export_state depleted_state))
        (snd (iqr_GetSignatureSize hss_spec
           (snd (iqr_CreateParams hss_spec ((), (), (), (), IQR_HSS_LEVEL_1))))))
       = IQR_ESTATEDEPLETED
   \<and> files (snd (showcase_hss_sign hss_spec () () () () () example_digest ''priv.key''
          ''priv.state'' ''sig.dat'' (example_world depleted_state [])))
       = files (example_world depleted_state [])
   \<and> saves (new_events (example_world depleted_state [])
        (snd (showcase_hss_sign hss_spec () () () () () example_digest ''priv.key''
          ''priv.state'' ''sig.dat'' (example_world depleted_state [])))) = []"
proof -
  let ?w = "example_world depleted_state []"
  have f: "files ?w ''priv.key'' = Some example_key"
    "files ?w ''priv.state'' = Some (export_state depleted_state)"
    by simp_all
  have c: "iqr_GetSignatureCount xmss_spec
        (imported_state xmss_spec ((), IQR_XMSS_FULL_TREE_STRATEGY, IQR_XMSS_HEIGHT_10)
           (export_state depleted_state)) = (IQR_OK, 1024, 0)"
    by simp (simp add: xmss_spec_def xmss_count_def depleted_state_def remaining_def)
  have n: "faults ?w = [] \<and>
      fst (iqr_CreateParams xmss_spec ((), IQR_XMSS_FULL_TREE_STRATEGY, IQR_XMSS_HEIGHT_10)) = IQR_OK \<and>
      fst (iqr_ImportPrivateKey xmss_spec
        (snd (iqr_CreateParams xmss_spec ((), IQR_XMSS_FULL_TREE_STRATEGY, IQR_XMSS_HEIGHT_10)))
        example_key) = IQR_OK \<and>
      fst (iqr_ImportState xmss_spec
        (snd (iqr_CreateParams xmss_spec ((), IQR_XMSS_FULL_TREE_STRATEGY, IQR_XMSS_HEIGHT_10)))
        (export_state depleted_state)) = IQR_OK"
    by (simp add: xmss_spec_def xmss_leaves_def spec_ImportPrivateKey_def import_export_state)
  have e: "IQR_ESTATEDEPLETED \<noteq> IQR_OK \<and>
      fst (iqr_Sign hss_spec
        (imported_key hss_spec ((), (), (), (), IQR_HSS_LEVEL_1) example_key) () example_digest
        (imported_state hss_spec ((), (), (), (), IQR_HSS_LEVEL_1) (export_state depleted_state))
        (snd (iqr_GetSignatureSize hss_spec
           (snd (iqr_CreateParams hss_spec ((), (), (), (), IQR_HSS_LEVEL_1))))))
       = IQR_ESTATEDEPLETED"
    by (simp add: hss_spec_def imported_state_def imported_key_def import_export_state
        spec_Sign_def)
  note t = depleted_state_never_persists [OF f, of xmss_spec "()" IQR_XMSS_FULL_TREE_STRATEGY
      IQR_XMSS_HEIGHT_10 1024 "()" example_digest "''sig.dat''" IQR_ESTATEDEPLETED
      hss_spec "()" "()" "()" "()" "()"]
  note x1 = t [THEN conjunct1, THEN mp, OF c, THEN conjunct1]
  note x2 = t [THEN conjunct1, THEN mp, OF c, THEN conjunct2, THEN mp, OF n]
  note h1 = t [THEN conjunct2, THEN mp, OF e, THEN conjunct1]
  from f c n e x1 x2 h1 show ?thesis
    by blast
qed

text \<open>
  The claim C2 as stated fails on the HSS sample: with a depleted state in the state
  file, the run calls the signing primitive, and no count query comes before it.
\<close>

theorem hss_sign_calls_engine_on_depleted_state:
  "remaining depleted_state = 0
   \<and> files (example_world depleted_state []) ''priv.state'' = Some (export_state depleted_state)
   \<and> imported_state hss_spec ((), (), (), (), IQR_HSS_LEVEL_1) (export_state depleted_state)
       = depleted_state
   \<and> Called API_Sign \<in> set (new_events (example_world depleted_state [])
        (snd (showcase_hss_sign hss_spec () () () () () example_digest ''priv.key''
          ''priv.state'' ''sig.dat'' (example_world depleted_state []))))
   \<and> Called API_GetSignatureCount \<notin> set (new_events (example_world depleted_state [])
        (snd (showcase_hss_sign hss_spec () () () () () example_digest ''priv.key''
          ''priv.state'' ''sig.dat'' (example_world depleted_state []))))"
  unfolding showcase_hss_sign_def hss_spec_def
  by (simp add: load_data_no_fault import_export_state spec_ImportPrivateKey_def
        imported_state_def calloc_def next_fault_def spec_Sign_def new_events_def
        Let_def split_def)

text \<open>
  C3, as the code has it. In every run of the signing samples in which the write of
  the state file meets a failure that \<open>save_data\<close> detects (the file cannot be
  opened, or the error indicator is set after \<open>fwrite\<close>), nothing is written after it
  (the signature file is never written), the run does not return \<open>IQR_OK\<close>, and the
  files are as the failed write left them: untouched when the state file could not be
  opened; when \<open>fwrite\<close> failed after \<open>k\<close> bytes, the state file holds the first
  \<open>k\<close> bytes of the new blob and the other files are untouched. (A failure that shows
  only at \<open>fclose\<close> is not detected; that run is the one of C1.)
\<close>

theorem detected_write_failure_releases_nothing:
  "(saves (new_events w (snd (showcase_xmss_sign eng ctx rng height strategy digest priv_file
        state_file sig_file w))) = Save f blob r # rest \<and>
      (r = Open_failed \<or> r = Write_failed k) \<longrightarrow>
      rest = [] \<and> f = state_file \<and>
      fst (showcase_xmss_sign eng ctx rng height strategy digest priv_file state_file
             sig_file w) \<noteq> IQR_OK \<and>
      files (snd (showcase_xmss_sign eng ctx rng height strategy digest priv_file state_file
             sig_file w)) =
        (if r = Open_failed then files w else (files w)(state_file \<mapsto> take k blob)))
   \<and> (saves (new_events w (snd (showcase_hss_sign eng' ctx' rng' wn height' strategy' digest
        priv_file state_file sig_file w))) = Save f blob r # rest \<and>
      (r = Open_failed \<or> r = Write_failed k) \<longrightarrow>
      rest = [] \<and> f = state_file \<and>
      fst (showcase_hss_sign eng' ctx' rng' wn height' strategy' digest priv_file state_file
             sig_file w) \<noteq> IQR_OK \<and>
      files (snd (showcase_hss_sign eng' ctx' rng' wn height' strategy' digest priv_file
             state_file sig_file w)) =
        (if r = Open_failed then files w else (files w)(state_file \<mapsto> take k blob)))"
  by (rule conjI; rule impI; elim conjE)
    (rule persist_then_release_failed [OF xmss_sign_order], assumption+,
     rule persist_then_release_failed [OF hss_sign_order], assumption+)

theorem detected_write_failure_releases_nothing_witness:
  "saves (new_events (example_world example_state [No_fault, No_fault, No_fault, Short_io 3])
     (snd (showcase_xmss_sign xmss_spec () () IQR_XMSS_HEIGHT_10 IQR_XMSS_FULL_TREE_STRATEGY
        example_digest ''priv.key'' ''priv.state'' ''sig.dat''
        (example_world example_state [No_fault, No_fault, No_fault, Short_io 3])))) =
     Save ''priv.state'' (export_state (example_state\<lparr>next_leaf_index := next_leaf_index example_state + 1\<rparr>))
       (Write_failed 3) # []
   \<and> fst (showcase_xmss_sign xmss_spec () () IQR_XMSS_HEIGHT_10 IQR_XMSS_FULL_TREE_STRATEGY
        example_digest ''priv.key'' ''priv.state'' ''sig.dat''
        (example_world example_state [No_fault, No_fault, No_fault, Short_io 3])) \<noteq> IQR_OK
   \<and> files (snd (showcase_xmss_sign xmss_spec () () IQR_XMSS_HEIGHT_10
        IQR_XMSS_FULL_TREE_STRATEGY example_digest ''priv.key'' ''priv.state'' ''sig.dat''
        (example_world example_state [No_fault, No_fault, No_fault, Short_io 3]))) =
      (files (example_world example_state [No_fault, No_fault, No_fault, Short_io 3]))
        (''priv.state'' \<mapsto> take 3 (export_state (example_state\<lparr>next_leaf_index := next_leaf_index example_state + 1\<rparr>)))"
proof -
  let ?w = "example_world example_state [No_fault, No_fault, No_fault, Short_io 3]"
  have h: "saves (new_events ?w
     (snd (showcase_xmss_sign xmss_spec () () IQR_XMSS_HEIGHT_10 IQR_XMSS_FULL_TREE_STRATEGY
        example_digest ''priv.key'' ''priv.state'' ''sig.dat'' ?w))) =
     Save ''priv.state'' (export_state (example_state\<lparr>next_leaf_index := next_leaf_index example_state + 1\<rparr>))
       (Write_failed 3) # [] \<and> (Write_failed 3 = Open_failed \<or> Write_failed 3 = Write_failed 3)"
    using example_failed_write by simp
  note t = detected_write_failure_releases_nothing [THEN conjunct1, THEN mp, OF h]
  from h t show ?thesis
    by simp
qed

text \<open>
  The claim C3 as stated fails where it says the state blob on disk is unchanged: when
  the error indicator is set after \<open>fwrite\<close>, three bytes having been stored, the run
  returns \<open>IQR_EBADVALUE\<close> and the state file, which \<open>fopen\<close> had truncated, holds
  three bytes of the new blob and no longer the 24 bytes of the blob of before.
\<close>

theorem failed_state_write_truncates_state_file:
  "files (example_world example_state [No_fault, No_fault, No_fault, Short_io 3]) ''priv.state''
     = Some (export_state example_state)
   \<and> length (export_state example_state) = 24
   \<and> fst (showcase_xmss_sign xmss_spec () () IQR_XMSS_HEIGHT_10 IQR_XMSS_FULL_TREE_STRATEGY
        example_digest ''priv.key'' ''priv.state'' ''sig.dat''
        (example_world example_state [No_fault, No_fault, No_fault, Short_io 3])) = IQR_EBADVALUE
   \<and> files (snd (showcase_xmss_sign xmss_spec () () IQR_XMSS_HEIGHT_10
        IQR_XMSS_FULL_TREE_STRATEGY example_digest ''priv.key'' ''priv.state'' ''sig.dat''
        (example_world example_state [No_fault, No_fault, No_fault, Short_io 3]))) ''priv.state''
     = Some (take 3 (export_state (example_state\<lparr>next_leaf_index := next_leaf_index example_state + 1\<rparr>)))
   \<and> length (take 3 (export_state (example_state\<lparr>next_leaf_index := next_leaf_index example_state + 1\<rparr>))) = 3
   \<and> files (snd (showcase_xmss_sign xmss_spec () () IQR_XMSS_HEIGHT_10
        IQR_XMSS_FULL_TREE_STRATEGY example_digest ''priv.key'' ''priv.state'' ''sig.dat''
        (example_world example_state [No_fault, No_fault, No_fault, Short_io 3]))) ''priv.state''
     \<noteq> files (example_world example_state [No_fault, No_fault, No_fault, Short_io 3])
          ''priv.state''"
proof -
  let ?w = "example_world example_state [No_fault, No_fault, No_fault, Short_io 3]"
  have a: "fst (showcase_xmss_sign xmss_spec () () IQR_XMSS_HEIGHT_10 IQR_XMSS_FULL_TREE_STRATEGY
        example_digest ''priv.key'' ''priv.state'' ''sig.dat'' ?w) = IQR_EBADVALUE
      \<and> files (snd (showcase_xmss_sign xmss_spec () () IQR_XMSS_HEIGHT_10
        IQR_XMSS_FULL_TREE_STRATEGY example_digest ''priv.key'' ''priv.state'' ''sig.dat'' ?w))
        ''priv.state''
        = Some (take 3 (export_state (example_state\<lparr>next_leaf_index := next_leaf_index example_state + 1\<rparr>)))"
    unfolding showcase_xmss_sign_def xmss_spec_def
    by (simp add: load_data_def xmss_leaves_def import_export_state spec_ImportPrivateKey_def
        xmss_count_def calloc_def next_fault_def spec_Sign_def spec_ExportState_def
        save_data_def Let_def split_def)
  have l: "length (take 3 (export_state (example_state\<lparr>next_leaf_index := next_leaf_index example_state + 1\<rparr>))) = 3"
    by simp
  have "take 3 (export_state (example_state\<lparr>next_leaf_index := next_leaf_index example_state + 1\<rparr>))
      \<noteq> export_state example_state"
    using l length_export_state [of example_state] by (metis numeral_eq_iff semiring_norm(89))
  with a l show ?thesis
    by simp
qed

text \<open>
  C7, as the code has it. The durable write of a state blob in the signing and detach
  samples is the first call of \<open>save_data\<close> of a run, on the state file, with the
  new blob: the advanced state exported (signing) or the parent's state after the
  detachment exported (detach). It is a write in place. When the file cannot be
  opened, the blob of before stays in the file. Otherwise the file is truncated and
  afterwards holds the bytes of the new blob that reached it: all of them when the
  write completes; the first \<open>k\<close> when it stops after \<open>k\<close> bytes, and then a reader
  finds a partly written blob and the blob of before is lost. No temporary file is
  used: a run touches no file but the state file and the file it writes second.
\<close>

theorem state_write_is_in_place:
  "(state_file \<noteq> sig_file \<and> files w priv_file = Some pk \<and> files w state_file = Some sb \<and>
      saves (new_events w (snd (showcase_xmss_sign eng1 ctx1 rng1 height1 strategy1 digest priv_file
         state_file sig_file w))) = Save f blob r # rest \<longrightarrow>
      f = state_file \<and>
      blob = advanced_state_blob eng1 (ctx1, strategy1, height1) rng1 digest pk sb \<and>
      files (snd (showcase_xmss_sign eng1 ctx1 rng1 height1 strategy1 digest priv_file
         state_file sig_file w)) state_file =
        (case r of
           Written \<Rightarrow> Some blob
         | Open_failed \<Rightarrow> Some sb
         | Write_failed k \<Rightarrow> Some (take k blob)
         | Close_failed k \<Rightarrow> Some (take k blob)))
   \<and> (state_file \<noteq> sig_file \<and> files w priv_file = Some pk \<and> files w state_file = Some sb \<and>
      saves (new_events w (snd (showcase_hss_sign eng2 ctx2 rng2 wn2 height2 strategy2 digest priv_file
         state_file sig_file w))) = Save f blob r # rest \<longrightarrow>
      f = state_file \<and>
      blob = advanced_state_blob eng2 (ctx2, strategy2, wn2, height2, IQR_HSS_LEVEL_1) rng2 digest pk sb \<and>
      files (snd (showcase_hss_sign eng2 ctx2 rng2 wn2 height2 strategy2 digest priv_file
         state_file sig_file w)) state_file =
        (case r of
           Written \<Rightarrow> Some blob
         | Open_failed \<Rightarrow> Some sb
         | Write_failed k \<Rightarrow> Some (take k blob)
         | Close_failed k \<Rightarrow> Some (take k blob)))
   \<and> (state_file \<noteq> detached_state_file \<and> files w priv_file = Some pk \<and> files w state_file = Some sb \<and>
      saves (new_events w (snd (showcase_xmss_detach eng3 ctx3 height3 strategy3 priv_file state_file n
         detached_state_file w))) = Save f blob r # rest \<longrightarrow>
      f = state_file \<and>
      blob = parent_blob eng3 (ctx3, strategy3, height3) n pk sb \<and>
      files (snd (showcase_xmss_detach eng3 ctx3 height3 strategy3 priv_file state_file n
         detached_state_file w)) state_file =
        (case r of
           Written \<Rightarrow> Some blob
         | Open_failed \<Rightarrow> Some sb
         | Write_failed k \<Rightarrow> Some (take k blob)
         | Close_failed k \<Rightarrow> Some (take k blob)))
   \<and> (state_file \<noteq> detached_state_file \<and> files w priv_file = Some pk \<and> files w state_file = Some sb \<and>
      saves (new_events w (snd (showcase_xmssmt_detach eng4 ctx4 variant4 strategy4 priv_file state_file n
         detached_state_file w))) = Save f blob r # rest \<longrightarrow>
      f = state_file \<and>
      blob = parent_blob eng4 (ctx4, strategy4, variant4) n pk sb \<and>
      files (snd (showcase_xmssmt_detach eng4 ctx4 variant4 strategy4 priv_file state_file n
         detached_state_file w)) state_file =
        (case r of
           Written \<Rightarrow> Some blob
         | Open_failed \<Rightarrow> Some sb
         | Write_failed k \<Rightarrow> Some (take k blob)
         | Close_failed k \<Rightarrow> Some (take k blob)))
   \<and> (g \<noteq> state_file \<and> g \<noteq> sig_file \<longrightarrow>
      files (snd (showcase_xmss_sign eng1 ctx1 rng1 height1 strategy1 digest priv_file
         state_file sig_file w)) g = files w g)
   \<and> (g \<noteq> state_file \<and> g \<noteq> sig_file \<longrightarrow>
      files (snd (showcase_hss_sign eng2 ctx2 rng2 wn2 height2 strategy2 digest priv_file
         state_file sig_file w)) g = files w g)
   \<and> (g \<noteq> state_file \<and> g \<noteq> detached_state_file \<longrightarrow>
      files (snd (showcase_xmss_detach eng3 ctx3 height3 strategy3 priv_file state_file n
         detached_state_file w)) g = files w g)
   \<and> (g \<noteq> state_file \<and> g \<noteq> detached_state_file \<longrightarrow>
      files (snd (showcase_xmssmt_detach eng4 ctx4 variant4 strategy4 priv_file state_file n
         detached_state_file w)) g = files w g)"
proof -
  have s1: "(state_file \<noteq> sig_file \<and> files w priv_file = Some pk \<and> files w state_file = Some sb \<and>
      saves (new_events w (snd (showcase_xmss_sign eng1 ctx1 rng1 height1 strategy1 digest priv_file
         state_file sig_file w))) = Save f blob r # rest \<longrightarrow>
      f = state_file \<and>
      blob = advanced_state_blob eng1 (ctx1, strategy1, height1) rng1 digest pk sb \<and>
      files (snd (showcase_xmss_sign eng1 ctx1 rng1 height1 strategy1 digest priv_file
         state_file sig_file w)) state_file =
        (case r of
           Written \<Rightarrow> Some blob
         | Open_failed \<Rightarrow> Some sb
         | Write_failed k \<Rightarrow> Some (take k blob)
         | Close_failed k \<Rightarrow> Some (take k blob)))"
  proof (intro impI, elim conjE)
    assume d: "state_file \<noteq> sig_file" and p: "files w priv_file = Some pk"
      and q: "files w state_file = Some sb"
      and e: "saves (new_events w (snd (showcase_xmss_sign eng1 ctx1 rng1 height1 strategy1 digest priv_file
         state_file sig_file w))) = Save f blob r # rest"
    note a = persist_then_release_state_file [OF xmss_sign_order e d]
    have b: "blob = advanced_state_blob eng1 (ctx1, strategy1, height1) rng1 digest pk sb"
      using xmss_sign_blob [OF p q] e by (rule first_saved_bytes)
    from a q b show "f = state_file \<and>
      blob = advanced_state_blob eng1 (ctx1, strategy1, height1) rng1 digest pk sb \<and>
      files (snd (showcase_xmss_sign eng1 ctx1 rng1 height1 strategy1 digest priv_file
         state_file sig_file w)) state_file =
        (case r of
           Written \<Rightarrow> Some blob
         | Open_failed \<Rightarrow> Some sb
         | Write_failed k \<Rightarrow> Some (take k blob)
         | Close_failed k \<Rightarrow> Some (take k blob))"
      by (cases r) simp_all
  qed
  have s2: "(state_file \<noteq> sig_file \<and> files w priv_file = Some pk \<and> files w state_file = Some sb \<and>
      saves (new_events w (snd (showcase_hss_sign eng2 ctx2 rng2 wn2 height2 strategy2 digest priv_file
         state_file sig_file w))) = Save f blob r # rest \<longrightarrow>
      f = state_file \<and>
      blob = advanced_state_blob eng2 (ctx2, strategy2, wn2, height2, IQR_HSS_LEVEL_1) rng2 digest pk sb \<and>
      files (snd (showcase_hss_sign eng2 ctx2 rng2 wn2 height2 strategy2 digest priv_file
         state_file sig_file w)) state_file =
        (case r of
           Written \<Rightarrow> Some blob
         | Open_failed \<Rightarrow> Some sb
         | Write_failed k \<Rightarrow> Some (take k blob)
         | Close_failed k \<Rightarrow> Some (take k blob)))"
  proof (intro impI, elim conjE)
    assume d: "state_file \<noteq> sig_file" and p: "files w priv_file = Some pk"
      and q: "files w state_file = Some sb"
      and e: "saves (new_events w (snd (showcase_hss_sign eng2 ctx2 rng2 wn2 height2 strategy2 digest priv_file
         state_file sig_file w))) = Save f blob r # rest"
    note a = persist_then_release_state_file [OF hss_sign_order e d]
    have b: "blob = advanced_state_blob eng2 (ctx2, strategy2, wn2, height2, IQR_HSS_LEVEL_1) rng2 digest pk sb"
      using hss_sign_blob [OF p q] e by (rule first_saved_bytes)
    from a q b show "f = state_file \<and>
      blob = advanced_state_blob eng2 (ctx2, strategy2, wn2, height2, IQR_HSS_LEVEL_1) rng2 digest pk sb \<and>
      files (snd (showcase_hss_sign eng2 ctx2 rng2 wn2 height2 strategy2 digest priv_file
         state_file sig_file w)) state_file =
        (case r of
           Written \<Rightarrow> Some blob
         | Open_failed \<Rightarrow> Some sb
         | Write_failed k \<Rightarrow> Some (take k blob)
         | Close_failed k \<Rightarrow> Some (take k blob))"
      by (cases r) simp_all
  qed
  have s3: "(state_file \<noteq> detached_state_file \<and> files w priv_file = Some pk \<and> files w state_file = Some sb \<and>
      saves (new_events w (snd (showcase_xmss_detach eng3 ctx3 height3 strategy3 priv_file state_file n
         detached_state_file w))) = Save f blob r # rest \<longrightarrow>
      f = state_file \<and>
      blob = parent_blob eng3 (ctx3, strategy3, height3) n pk sb \<and>
      files (snd (showcase_xmss_detach eng3 ctx3 height3 strategy3 priv_file state_file n
         detached_state_file w)) state_file =
        (case r of
           Written \<Rightarrow> Some blob
         | Open_failed \<Rightarrow> Some sb
         | Write_failed k \<Rightarrow> Some (take k blob)
         | Close_failed k \<Rightarrow> Some (take k blob)))"
  proof (intro impI, elim conjE)
    assume d: "state_file \<noteq> detached_state_file" and p: "files w priv_file = Some pk"
      and q: "files w state_file = Some sb"
      and e: "saves (new_events w (snd (showcase_xmss_detach eng3 ctx3 height3 strategy3 priv_file state_file n
         detached_state_file w))) = Save f blob r # rest"
    note a = parent_then_detached_state_file [OF xmss_detach_order e d]
    have b: "blob = parent_blob eng3 (ctx3, strategy3, height3) n pk sb"
      using xmss_detach_blobs [OF p q] e by (rule first_saved_bytes)
    from a q b show "f = state_file \<and>
      blob = parent_blob eng3 (ctx3, strategy3, height3) n pk sb \<and>
      files (snd (showcase_xmss_detach eng3 ctx3 height3 strategy3 priv_file state_file n
         detached_state_file w)) state_file =
        (case r of
           Written \<Rightarrow> Some blob
         | Open_failed \<Rightarrow> Some sb
         | Write_failed k \<Rightarrow> Some (take k blob)
         | Close_failed k \<Rightarrow> Some (take k blob))"
      by (cases r) simp_all
  qed
  have s4: "(state_file \<noteq> detached_state_file \<and> files w priv_file = Some pk \<and> files w state_file = Some sb \<and>
      saves (new_events w (snd (showcase_xmssmt_detach eng4 ctx4 variant4 strategy4 priv_file state_file n
         detached_state_file w))) = Save f blob r # rest \<longrightarrow>
      f = state_file \<and>
      blob = parent_blob eng4 (ctx4, strategy4, variant4) n pk sb \<and>
      files (snd (showcase_xmssmt_detach eng4 ctx4 variant4 strategy4 priv_file state_file n
         detached_state_file w)) state_file =
        (case r of
           Written \<Rightarrow> Some blob
         | Open_failed \<Rightarrow> Some sb
         | Write_failed k \<Rightarrow> Some (take k blob)
         | Close_failed k \<Rightarrow> Some (take k blob)))"
  proof (intro impI, elim conjE)
    assume d: "state_file \<noteq> detached_state_file" and p: "files w priv_file = Some pk"
      and q: "files w state_file = Some sb"
      and e: "saves (new_events w (snd (showcase_xmssmt_detach eng4 ctx4 variant4 strategy4 priv_file state_file n
         detached_state_file w))) = Save f blob r # rest"
    note a = parent_then_detached_state_file [OF xmssmt_detach_order e d]
    have b: "blob = parent_blob eng4 (ctx4, strategy4, variant4) n pk sb"
      using xmssmt_detach_blobs [OF p q] e by (rule first_saved_bytes)
    from a q b show "f = state_file \<and>
      blob = parent_blob eng4 (ctx4, strategy4, variant4) n pk sb \<and>
      files (snd (showcase_xmssmt_detach eng4 ctx4 variant4 strategy4 priv_file state_file n
         detached_state_file w)) state_file =
        (case r of
           Written \<Rightarrow> Some blob
         | Open_failed \<Rightarrow> Some sb
         | Write_failed k \<Rightarrow> Some (take k blob)
         | Close_failed k \<Rightarrow> Some (take k blob))"
      by (cases r) simp_all
  qed
  have o1: "(g \<noteq> state_file \<and> g \<noteq> sig_file \<longrightarrow>
      files (snd (showcase_xmss_sign eng1 ctx1 rng1 height1 strategy1 digest priv_file
         state_file sig_file w)) g = files w g)"
    by (rule impI, elim conjE, rule persist_then_release_other [OF xmss_sign_order], assumption+)
  have o2: "(g \<noteq> state_file \<and> g \<noteq> sig_file \<longrightarrow>
      files (snd (showcase_hss_sign eng2 ctx2 rng2 wn2 height2 strategy2 digest priv_file
         state_file sig_file w)) g = files w g)"
    by (rule impI, elim conjE, rule persist_then_release_other [OF hss_sign_order], assumption+)
  have o3: "(g \<noteq> state_file \<and> g \<noteq> detached_state_file \<longrightarrow>
      files (snd (showcase_xmss_detach eng3 ctx3 height3 strategy3 priv_file state_file n
         detached_state_file w)) g = files w g)"
    by (rule impI, elim conjE, rule parent_then_detached_other [OF xmss_detach_order], assumption+)
  have o4: "(g \<noteq> state_file \<and> g \<noteq> detached_state_file \<longrightarrow>
      files (snd (showcase_xmssmt_detach eng4 ctx4 variant4 strategy4 priv_file state_file n
         detached_state_file w)) g = files w g)"
    by (rule impI, elim conjE, rule parent_then_detached_other [OF xmssmt_detach_order], assumption+)
  show ?thesis
    by (intro conjI s1 s2 s3 s4 o1 o2 o3 o4)
qed

theorem state_write_is_in_place_witness:
  "''priv.state'' \<noteq> ''sig.dat''
   \<and> files (example_world example_state [No_fault, No_fault, No_fault, Short_io 3]) ''priv.key''
       = Some example_key
   \<and> files (example_world example_state [No_fault, No_fault, No_fault, Short_io 3]) ''priv.state''
       = Some (export_state example_state)
   \<and> saves (new_events (example_world example_state [No_fault, No_fault, No_fault, Short_io 3])
       (snd (showcase_xmss_sign xmss_spec () () IQR_XMSS_HEIGHT_10 IQR_XMSS_FULL_TREE_STRATEGY
          example_digest ''priv.key'' ''priv.state'' ''sig.dat''
          (example_world example_state [No_fault, No_fault, No_fault, Short_io 3])))) =
       Save ''priv.state''
         (export_state (example_state\<lparr>next_leaf_index := next_leaf_index example_state + 1\<rparr>))
         (Write_failed 3) # []
   \<and> export_state (example_state\<lparr>next_leaf_index := next_leaf_index example_state + 1\<rparr>) =
       advanced_state_blob xmss_spec ((), IQR_XMSS_FULL_TREE_STRATEGY, IQR_XMSS_HEIGHT_10) ()
         example_digest example_key (export_state example_state)
   \<and> files (snd (showcase_xmss_sign xmss_spec () () IQR_XMSS_HEIGHT_10
          IQR_XMSS_FULL_TREE_STRATEGY example_digest ''priv.key'' ''priv.state'' ''sig.dat''
          (example_world example_state [No_fault, No_fault, No_fault, Short_io 3])))
        ''priv.state'' =
       Some (take 3 (export_state
          (example_state\<lparr>next_leaf_index := next_leaf_index example_state + 1\<rparr>)))"
proof -
  let ?w = "example_world example_state [No_fault, No_fault, No_fault, Short_io 3]"
  have h: "''priv.state'' \<noteq> ''sig.dat'' \<and> files ?w ''priv.key'' = Some example_key \<and>
      files ?w ''priv.state'' = Some (export_state example_state) \<and>
      saves (new_events ?w
       (snd (showcase_xmss_sign xmss_spec () () IQR_XMSS_HEIGHT_10 IQR_XMSS_FULL_TREE_STRATEGY
          example_digest ''priv.key'' ''priv.state'' ''sig.dat'' ?w))) =
       Save ''priv.state''
         (export_state (example_state\<lparr>next_leaf_index := next_leaf_index example_state + 1\<rparr>))
         (Write_failed 3) # []"
    using example_failed_write by simp
  note t = state_write_is_in_place [THEN conjunct1, THEN mp, OF h]
  from h t show ?thesis
    by simp
qed

text \<open>
  The claim C7 as stated fails: when the write of the state file by the HSS signing
  sample stops after five bytes, the file holds five bytes, which is neither the blob
  of before nor the new one.
\<close>

theorem state_write_torn:
  "files (example_world example_state [No_fault, No_fault, No_fault, Short_io 5]) ''priv.state''
     = Some (export_state example_state)
   \<and> files (snd (showcase_hss_sign hss_spec () () () () () example_digest ''priv.key''
          ''priv.state'' ''sig.dat''
          (example_world example_state [No_fault, No_fault, No_fault, Short_io 5])))
        ''priv.state'' =
       Some (take 5 (export_state
          (example_state\<lparr>next_leaf_index := next_leaf_index example_state + 1\<rparr>)))
   \<and> length (take 5 (export_state
          (example_state\<lparr>next_leaf_index := next_leaf_index example_state + 1\<rparr>))) = 5
   \<and> length (export_state example_state) = 24
   \<and> length (export_state
          (example_state\<lparr>next_leaf_index := next_leaf_index example_state + 1\<rparr>)) = 24"
proof -
  let ?w = "example_world example_state [No_fault, No_fault, No_fault, Short_io 5]"
  have "files (snd (showcase_hss_sign hss_spec () () () () () example_digest ''priv.key''
          ''priv.state'' ''sig.dat'' ?w)) ''priv.state'' =
       Some (take 5 (export_state
          (example_state\<lparr>next_leaf_index := next_leaf_index example_state + 1\<rparr>)))"
    unfolding showcase_hss_sign_def hss_spec_def
    by (simp add: load_data_def import_export_state spec_ImportPrivateKey_def
        xmss_count_def calloc_def next_fault_def spec_Sign_def spec_ExportState_def
        save_data_def Let_def split_def)
  then show ?thesis
    by simp
qed

text \<open>
  C9, as the code has it. In every run of the signing and detach samples (any engine,
  any files, any fault script, whichever exit is taken) every block freed as
  \<open>priv_raw\<close>, the buffer in which the operation holds the private key, holds zeros
  only; and when \<open>load_data\<close> has handed over the key, the run frees \<open>priv_raw\<close>
  exactly once, as a block of the key's length filled with zeros by \<open>secure_memzero\<close>.
  The block \<open>state_raw\<close> is freed as it is. What \<open>load_data\<close> does with its own
  block \<open>tmp\<close> when a read comes back short is not part of this statement; the
  lemma \<open>load_data_short_read_frees_unwiped\<close> above shows that run.
\<close>

theorem private_key_wiped_before_free:
  "list_all wiped (freed_as ''priv_raw'' (new_events w (snd (showcase_xmss_sign eng1 ctx1 rng1
      height1 strategy1 digest priv_file state_file sig_file w))))
   \<and> list_all wiped (freed_as ''priv_raw'' (new_events w (snd (showcase_hss_sign eng2 ctx2 rng2
      wn2 height2 strategy2 digest priv_file state_file sig_file w))))
   \<and> list_all wiped (freed_as ''priv_raw'' (new_events w (snd (showcase_xmss_detach eng3 ctx3
      height3 strategy3 priv_file state_file n detached_state_file w))))
   \<and> list_all wiped (freed_as ''priv_raw'' (new_events w (snd (showcase_xmssmt_detach eng4 ctx4
      variant4 strategy4 priv_file state_file n detached_state_file w))))
   \<and> (files w priv_file = Some pk \<and> pk \<noteq> [] \<and>
      fst (load_data priv_file (log_event (Called API_CreateParams) w)) = IQR_OK \<longrightarrow>
      (fst (iqr_CreateParams eng1 (ctx1, strategy1, height1)) = IQR_OK \<longrightarrow>
        freed_as ''priv_raw'' (new_events w (snd (showcase_xmss_sign eng1 ctx1 rng1
          height1 strategy1 digest priv_file state_file sig_file w))) = [replicate (length pk) 0])
      \<and> (fst (iqr_CreateParams eng2 (ctx2, strategy2, wn2, height2, IQR_HSS_LEVEL_1)) = IQR_OK \<longrightarrow>
        freed_as ''priv_raw'' (new_events w (snd (showcase_hss_sign eng2 ctx2 rng2
          wn2 height2 strategy2 digest priv_file state_file sig_file w))) = [replicate (length pk) 0])
      \<and> (fst (iqr_CreateParams eng3 (ctx3, strategy3, height3)) = IQR_OK \<longrightarrow>
        freed_as ''priv_raw'' (new_events w (snd (showcase_xmss_detach eng3 ctx3
          height3 strategy3 priv_file state_file n detached_state_file w)))
          = [replicate (length pk) 0])
      \<and> (fst (iqr_CreateParams eng4 (ctx4, strategy4, variant4)) = IQR_OK \<longrightarrow>
        freed_as ''priv_raw'' (new_events w (snd (showcase_xmssmt_detach eng4 ctx4
          variant4 strategy4 priv_file state_file n detached_state_file w)))
          = [replicate (length pk) 0]))"
proof (intro conjI impI)
  show "list_all wiped (freed_as ''priv_raw'' (new_events w (snd (showcase_xmss_sign eng1 ctx1
      rng1 height1 strategy1 digest priv_file state_file sig_file w))))"
    by (rule xmss_sign_wipes)
  show "list_all wiped (freed_as ''priv_raw'' (new_events w (snd (showcase_hss_sign eng2 ctx2
      rng2 wn2 height2 strategy2 digest priv_file state_file sig_file w))))"
    by (rule hss_sign_wipes)
  show "list_all wiped (freed_as ''priv_raw'' (new_events w (snd (showcase_xmss_detach eng3 ctx3
      height3 strategy3 priv_file state_file n detached_state_file w))))"
    by (rule xmss_detach_wipes)
  show "list_all wiped (freed_as ''priv_raw'' (new_events w (snd (showcase_xmssmt_detach eng4
      ctx4 variant4 strategy4 priv_file state_file n detached_state_file w))))"
    by (rule xmssmt_detach_wipes)
next
  assume h: "files w priv_file = Some pk \<and> pk \<noteq> [] \<and>
      fst (load_data priv_file (log_event (Called API_CreateParams) w)) = IQR_OK"
    and c: "fst (iqr_CreateParams eng1 (ctx1, strategy1, height1)) = IQR_OK"
  from h c show "freed_as ''priv_raw'' (new_events w (snd (showcase_xmss_sign eng1 ctx1 rng1
      height1 strategy1 digest priv_file state_file sig_file w))) = [replicate (length pk) 0]"
    by (intro xmss_sign_frees_key) simp_all
next
  assume h: "files w priv_file = Some pk \<and> pk \<noteq> [] \<and>
      fst (load_data priv_file (log_event (Called API_CreateParams) w)) = IQR_OK"
    and c: "fst (iqr_CreateParams eng2 (ctx2, strategy2, wn2, height2, IQR_HSS_LEVEL_1)) = IQR_OK"
  from h c show "freed_as ''priv_raw'' (new_events w (snd (showcase_hss_sign eng2 ctx2 rng2
      wn2 height2 strategy2 digest priv_file state_file sig_file w))) = [replicate (length pk) 0]"
    by (intro hss_sign_frees_key) simp_all
next
  assume h: "files w priv_file = Some pk \<and> pk \<noteq> [] \<and>
      fst (load_data priv_file (log_event (Called API_CreateParams) w)) = IQR_OK"
    and c: "fst (iqr_CreateParams eng3 (ctx3, strategy3, height3)) = IQR_OK"
  from h c show "freed_as ''priv_raw'' (new_events w (snd (showcase_xmss_detach eng3 ctx3
      height3 strategy3 priv_file state_file n detached_state_file w)))
      = [replicate (length pk) 0]"
    by (intro xmss_detach_frees_key) simp_all
next
  assume h: "files w priv_file = Some pk \<and> pk \<noteq> [] \<and>
      fst (load_data priv_file (log_event (Called API_CreateParams) w)) = IQR_OK"
    and c: "fst (iqr_CreateParams eng4 (ctx4, strategy4, variant4)) = IQR_OK"
  from h c show "freed_as ''priv_raw'' (new_events w (snd (showcase_xmssmt_detach eng4 ctx4
      variant4 strategy4 priv_file state_file n detached_state_file w)))
      = [replicate (length pk) 0]"
    by (intro xmssmt_detach_frees_key) simp_all
qed

theorem private_key_wiped_before_free_witness:
  "files (example_world example_state []) ''priv.key'' = Some example_key
   \<and> example_key \<noteq> []
   \<and> fst (load_data ''priv.key''
        (log_event (Called API_CreateParams) (example_world example_state []))) = IQR_OK
   \<and> fst (iqr_CreateParams xmss_spec ((), IQR_XMSS_FULL_TREE_STRATEGY, IQR_XMSS_HEIGHT_10)) = IQR_OK
   \<and> freed_as ''priv_raw'' (new_events (example_world example_state [])
        (snd (showcase_xmss_sign xmss_spec () () IQR_XMSS_HEIGHT_10 IQR_XMSS_FULL_TREE_STRATEGY
           example_digest ''priv.key'' ''priv.state'' ''sig.dat''
           (example_world example_state [])))) = [replicate 32 0]
   \<and> list_all wiped (freed_as ''priv_raw'' (new_events (example_world example_state [])
        (snd (showcase_xmss_sign xmss_spec () () IQR_XMSS_HEIGHT_10 IQR_XMSS_FULL_TREE_STRATEGY
           example_digest ''priv.key'' ''priv.state'' ''sig.dat''
           (example_world example_state [])))))"
proof -
  let ?w = "example_world example_state []"
  have h: "files ?w ''priv.key'' = Some example_key \<and> example_key \<noteq> [] \<and>
    fst (load_data ''priv.key'' (log_event (Called API_CreateParams) ?w)) = IQR_OK"
    by (simp add: load_data_ok_no_fault)
  have c: "fst (iqr_CreateParams xmss_spec ((), IQR_XMSS_FULL_TREE_STRATEGY, IQR_XMSS_HEIGHT_10))
      = IQR_OK"
    by (simp add: xmss_spec_def xmss_leaves_def)
  note t = private_key_wiped_before_free [of ?w xmss_spec "()" "()" IQR_XMSS_HEIGHT_10
      IQR_XMSS_FULL_TREE_STRATEGY example_digest "''priv.key''" "''priv.state''" "''sig.dat''"
      hss_spec "()" "()" "()" "()" "()" xmss_spec "()" IQR_XMSS_HEIGHT_10
      IQR_XMSS_FULL_TREE_STRATEGY 1 "''detached.state''" xmssmt_spec "()" IQR_XMSSMT_20_4
      IQR_XMSSMT_FULL_TREE_STRATEGY example_key]
  note t1 = t [THEN conjunct1]
  note t5 = t [THEN conjunct2, THEN conjunct2, THEN conjunct2, THEN conjunct2, THEN mp, OF h,
      THEN conjunct1, THEN mp, OF c]
  from h c t1 t5 show ?thesis
    by simp
qed

text \<open>
  The claim C9 as stated fails for the state bytes: in a signing run that succeeds,
  the block \<open>state_raw\<close> is freed while it holds the exported state, which is not a
  block of zeros.
\<close>

theorem state_raw_freed_unwiped:
  "freed_as ''state_raw'' (new_events (example_world example_state [])
      (snd (showcase_xmss_sign xmss_spec () () IQR_XMSS_HEIGHT_10 IQR_XMSS_FULL_TREE_STRATEGY
         example_digest ''priv.key'' ''priv.state'' ''sig.dat''
         (example_world example_state [])))) =
     [export_state (example_state\<lparr>next_leaf_index := next_leaf_index example_state + 1\<rparr>)]
   \<and> \<not> wiped (export_state
         (example_state\<lparr>next_leaf_index := next_leaf_index example_state + 1\<rparr>))"
proof -
  have a: "freed_as ''state_raw'' (new_events (example_world example_state [])
      (snd (showcase_xmss_sign xmss_spec () () IQR_XMSS_HEIGHT_10 IQR_XMSS_FULL_TREE_STRATEGY
         example_digest ''priv.key'' ''priv.state'' ''sig.dat''
         (example_world example_state [])))) =
     [export_state (example_state\<lparr>next_leaf_index := next_leaf_index example_state + 1\<rparr>)]"
    unfolding showcase_xmss_sign_def xmss_spec_def
    by (simp add: load_data_no_fault xmss_leaves_def import_export_state spec_ImportPrivateKey_def
        xmss_count_def calloc_def next_fault_def spec_Sign_def spec_ExportState_def
        save_data_def new_events_def Let_def split_def freed_as_frees)
  have "total_leaves (example_state\<lparr>next_leaf_index := next_leaf_index example_state + 1\<rparr>)
      \<noteq> 0"
    by (simp add: example_state_def)
  then have b: "\<not> wiped (export_state
      (example_state\<lparr>next_leaf_index := next_leaf_index example_state + 1\<rparr>))"
    using wiped_export_state [of "example_state\<lparr>next_leaf_index :=
      next_leaf_index example_state + 1\<rparr>"]
    by (auto simp: example_state_def)
  from a b show ?thesis by simp
qed

text \<open>
  C8. With verification as the specification gives it (a function of public key,
  digest and signature), a run of the verification samples (XMSS-MT and Rainbow)
  leaves every file as it was, the public key file among them, and its result is
  determined by the files and the fault script: two worlds that agree on these give
  the same result, so a second run after the first, under the same faults, returns
  what the first returned.
\<close>

theorem verify_is_pure:
  "files (snd (showcase_xmssmt_verify eng ctx variant digest pub_file sig_file w)) = files w
   \<and> (files v = files w \<and> faults v = faults w \<longrightarrow>
        fst (showcase_xmssmt_verify eng ctx variant digest pub_file sig_file v) =
        fst (showcase_xmssmt_verify eng ctx variant digest pub_file sig_file w))
   \<and> fst (showcase_xmssmt_verify eng ctx variant digest pub_file sig_file
        ((snd (showcase_xmssmt_verify eng ctx variant digest pub_file sig_file w))
           \<lparr>faults := faults w\<rparr>)) =
      fst (showcase_xmssmt_verify eng ctx variant digest pub_file sig_file w)
   \<and> files (snd (showcase_rainbow_verify eng' ctx' variant' pub_file message_file sig_file w))
      = files w
   \<and> (files v = files w \<and> faults v = faults w \<longrightarrow>
        fst (showcase_rainbow_verify eng' ctx' variant' pub_file message_file sig_file v) =
        fst (showcase_rainbow_verify eng' ctx' variant' pub_file message_file sig_file w))
   \<and> fst (showcase_rainbow_verify eng' ctx' variant' pub_file message_file sig_file
        ((snd (showcase_rainbow_verify eng' ctx' variant' pub_file message_file sig_file w))
           \<lparr>faults := faults w\<rparr>)) =
      fst (showcase_rainbow_verify eng' ctx' variant' pub_file message_file sig_file w)"
proof (intro conjI impI)
  show "files (snd (showcase_xmssmt_verify eng ctx variant digest pub_file sig_file w)) = files w"
    by (rule xmssmt_verify_files)
  show "files (snd (showcase_rainbow_verify eng' ctx' variant' pub_file message_file sig_file w))
      = files w"
    by (rule rainbow_verify_files)
  show "fst (showcase_xmssmt_verify eng ctx variant digest pub_file sig_file
        ((snd (showcase_xmssmt_verify eng ctx variant digest pub_file sig_file w))
           \<lparr>faults := faults w\<rparr>)) =
      fst (showcase_xmssmt_verify eng ctx variant digest pub_file sig_file w)"
    by (rule xmssmt_verify_determined) (simp_all add: xmssmt_verify_files)
  show "fst (showcase_rainbow_verify eng' ctx' variant' pub_file message_file sig_file
        ((snd (showcase_rainbow_verify eng' ctx' variant' pub_file message_file sig_file w))
           \<lparr>faults := faults w\<rparr>)) =
      fst (showcase_rainbow_verify eng' ctx' variant' pub_file message_file sig_file w)"
    by (rule rainbow_verify_determined) (simp_all add: rainbow_verify_files)
next
  assume "files v = files w \<and> faults v = faults w"
  then show "fst (showcase_xmssmt_verify eng ctx variant digest pub_file sig_file v) =
        fst (showcase_xmssmt_verify eng ctx variant digest pub_file sig_file w)"
    by (intro xmssmt_verify_determined) simp_all
next
  assume "files v = files w \<and> faults v = faults w"
  then show "fst (showcase_rainbow_verify eng' ctx' variant' pub_file message_file sig_file v) =
        fst (showcase_rainbow_verify eng' ctx' variant' pub_file message_file sig_file w)"
    by (intro rainbow_verify_determined) simp_all
qed

theorem verify_is_pure_witness:
  "files (verify_world\<lparr>trace := [Called API_Verify]\<rparr>) = files verify_world
   \<and> faults (verify_world\<lparr>trace := [Called API_Verify]\<rparr>) = faults verify_world
   \<and> fst (showcase_xmssmt_verify spec_verifier () IQR_XMSSMT_20_4 example_digest ''pub.key''
          ''sig.dat'' verify_world) = IQR_OK
   \<and> fst (showcase_xmssmt_verify spec_verifier () IQR_XMSSMT_20_4 example_digest ''pub.key''
          ''sig.dat'' (verify_world\<lparr>trace := [Called API_Verify]\<rparr>)) = IQR_OK
   \<and> fst (showcase_xmssmt_verify spec_verifier () IQR_XMSSMT_20_4 example_digest ''pub.key''
          ''sig.dat''
          ((snd (showcase_xmssmt_verify spec_verifier () IQR_XMSSMT_20_4 example_digest
                  ''pub.key'' ''sig.dat'' verify_world))\<lparr>faults := faults verify_world\<rparr>))
       = IQR_OK
   \<and> files (snd (showcase_xmssmt_verify spec_verifier () IQR_XMSSMT_20_4 example_digest
          ''pub.key'' ''sig.dat'' verify_world)) ''pub.key'' = Some example_key"
proof -
  have h: "files (verify_world\<lparr>trace := [Called API_Verify]\<rparr>) = files verify_world \<and>
      faults (verify_world\<lparr>trace := [Called API_Verify]\<rparr>) = faults verify_world"
    by simp
  have k: "files verify_world ''pub.key'' = Some example_key"
    by (simp add: verify_world_def)
  note t = verify_is_pure [of spec_verifier "()" IQR_XMSSMT_20_4 example_digest "''pub.key''"
      "''sig.dat''" verify_world "verify_world\<lparr>trace := [Called API_Verify]\<rparr>"
      spec_verifier "()" "()" "''message.dat''"]
  note t1 = t [THEN conjunct1]
  note t2 = t [THEN conjunct2, THEN conjunct1, THEN mp, OF h]
  note t3 = t [THEN conjunct2, THEN conjunct2, THEN conjunct1]
  from h k t1 t2 t3 example_verify_ok show ?thesis
    by simp
qed

text \<open>
  C10. Whenever the parser of a detach sample accepts the value of \<open>--num-sigs\<close>, the
  count it stores is the 64-bit result of \<open>strtoull\<close> cast to \<open>uint32_t\<close>, that is
  reduced modulo \<open>2 ^ 32\<close>. Every non-empty string of decimal digits whose value is
  below \<open>2 ^ 64\<close> is accepted (the value \<open>2 ^ 64 - 1\<close> only if \<open>errno\<close> is not
  \<open>ERANGE\<close> from before), without any error, and the count stored is its value modulo
  \<open>2 ^ 32\<close>: for a value of \<open>2 ^ 32\<close> or more this is not the number the user wrote.
\<close>

theorem num_sigs_cast_to_uint32:
  "(xmss_detach_parse_commandline [cmd, ''--num-sigs'', s] opts = (IQR_OK, opts') \<longrightarrow>
      opt_num_signatures opts' = ucast (fst (strtoull s (opt_erange opts))) \<and>
      unat (opt_num_signatures opts') = unat (fst (strtoull s (opt_erange opts))) mod 2 ^ 32)
   \<and> (xmssmt_detach_parse_commandline [cmd, ''--num-sigs'', s] mopts = (IQR_OK, mopts') \<longrightarrow>
      mt_num_signatures mopts' = ucast (fst (strtoull s (mt_erange mopts))) \<and>
      unat (mt_num_signatures mopts') = unat (fst (strtoull s (mt_erange mopts))) mod 2 ^ 32)
   \<and> (s \<noteq> [] \<and> list_all isdigit s \<and> digits_value s < 2 ^ 64 \<and>
       \<not> (digits_value s = 2 ^ 64 - 1 \<and> opt_erange opts) \<longrightarrow>
      fst (xmss_detach_parse_commandline [cmd, ''--num-sigs'', s] opts) = IQR_OK \<and>
      unat (opt_num_signatures (snd (xmss_detach_parse_commandline [cmd, ''--num-sigs'', s] opts)))
        = digits_value s mod 2 ^ 32 \<and>
      (2 ^ 32 \<le> digits_value s \<longrightarrow>
        unat (opt_num_signatures
               (snd (xmss_detach_parse_commandline [cmd, ''--num-sigs'', s] opts)))
          \<noteq> digits_value s))
   \<and> (s \<noteq> [] \<and> list_all isdigit s \<and> digits_value s < 2 ^ 64 \<and>
       \<not> (digits_value s = 2 ^ 64 - 1 \<and> mt_erange mopts) \<longrightarrow>
      fst (xmssmt_detach_parse_commandline [cmd, ''--num-sigs'', s] mopts) = IQR_OK \<and>
      unat (mt_num_signatures
             (snd (xmssmt_detach_parse_commandline [cmd, ''--num-sigs'', s] mopts)))
        = digits_value s mod 2 ^ 32 \<and>
      (2 ^ 32 \<le> digits_value s \<longrightarrow>
        unat (mt_num_signatures
               (snd (xmssmt_detach_parse_commandline [cmd, ''--num-sigs'', s] mopts)))
          \<noteq> digits_value s))"
proof (intro conjI impI)
  assume a: "xmss_detach_parse_commandline [cmd, ''--num-sigs'', s] opts = (IQR_OK, opts')"
  then obtain n e' where p: "parse_num_sigs s (opt_erange opts) = (IQR_OK, n, e')"
    and o: "opts' = opts\<lparr>opt_num_signatures := n, opt_erange := e'\<rparr>"
    by (auto simp: xmss_parse_num_sigs split: prod.splits if_splits)
  from p have n: "n = ucast (fst (strtoull s (opt_erange opts)))"
    by (rule parse_num_sigs_accepted)
  with o show "opt_num_signatures opts' = ucast (fst (strtoull s (opt_erange opts)))"
    by simp
  then show "unat (opt_num_signatures opts') =
      unat (fst (strtoull s (opt_erange opts))) mod 2 ^ 32"
    by (simp add: unsigned_ucast_eq take_bit_eq_mod)
next
  assume a: "xmssmt_detach_parse_commandline [cmd, ''--num-sigs'', s] mopts = (IQR_OK, mopts')"
  then obtain n e' where p: "parse_num_sigs s (mt_erange mopts) = (IQR_OK, n, e')"
    and o: "mopts' = mopts\<lparr>mt_num_signatures := n, mt_erange := e'\<rparr>"
    by (auto simp: xmssmt_parse_num_sigs split: prod.splits if_splits)
  from p have n: "n = ucast (fst (strtoull s (mt_erange mopts)))"
    by (rule parse_num_sigs_accepted)
  with o show "mt_num_signatures mopts' = ucast (fst (strtoull s (mt_erange mopts)))"
    by simp
  then show "unat (mt_num_signatures mopts') =
      unat (fst (strtoull s (mt_erange mopts))) mod 2 ^ 32"
    by (simp add: unsigned_ucast_eq take_bit_eq_mod)
next
  assume h: "s \<noteq> [] \<and> list_all isdigit s \<and> digits_value s < 2 ^ 64 \<and>
       \<not> (digits_value s = 2 ^ 64 - 1 \<and> opt_erange opts)"
  then have p: "parse_num_sigs s (opt_erange opts) =
      (IQR_OK, of_nat (digits_value s), opt_erange opts)"
    by (intro parse_num_sigs_digits) simp_all
  show "fst (xmss_detach_parse_commandline [cmd, ''--num-sigs'', s] opts) = IQR_OK"
    by (simp add: xmss_parse_num_sigs p)
  show u: "unat (opt_num_signatures
      (snd (xmss_detach_parse_commandline [cmd, ''--num-sigs'', s] opts)))
        = digits_value s mod 2 ^ 32"
    by (simp add: xmss_parse_num_sigs p unat_of_nat)
  assume "2 ^ 32 \<le> digits_value s"
  moreover have "digits_value s mod 2 ^ 32 < (2 ^ 32 :: nat)"
    by simp
  ultimately have "digits_value s mod 2 ^ 32 \<noteq> digits_value s"
    by linarith
  with u show "unat (opt_num_signatures
      (snd (xmss_detach_parse_commandline [cmd, ''--num-sigs'', s] opts))) \<noteq> digits_value s"
    by simp
next
  assume h: "s \<noteq> [] \<and> list_all isdigit s \<and> digits_value s < 2 ^ 64 \<and>
       \<not> (digits_value s = 2 ^ 64 - 1 \<and> mt_erange mopts)"
  then have p: "parse_num_sigs s (mt_erange mopts) =
      (IQR_OK, of_nat (digits_value s), mt_erange mopts)"
    by (intro parse_num_sigs_digits) simp_all
  show "fst (xmssmt_detach_parse_commandline [cmd, ''--num-sigs'', s] mopts) = IQR_OK"
    by (simp add: xmssmt_parse_num_sigs p)
  show u: "unat (mt_num_signatures
      (snd (xmssmt_detach_parse_commandline [cmd, ''--num-sigs'', s] mopts)))
        = digits_value s mod 2 ^ 32"
    by (simp add: xmssmt_parse_num_sigs p unat_of_nat)
  assume "2 ^ 32 \<le> digits_value s"
  moreover have "digits_value s mod 2 ^ 32 < (2 ^ 32 :: nat)"
    by simp
  ultimately have "digits_value s mod 2 ^ 32 \<noteq> digits_value s"
    by linarith
  with u show "unat (mt_num_signatures
      (snd (xmssmt_detach_parse_commandline [cmd, ''--num-sigs'', s] mopts))) \<noteq> digits_value s"
    by simp
qed

theorem num_sigs_cast_to_uint32_witness:
  "''4294967296'' \<noteq> []
   \<and> list_all isdigit ''4294967296''
   \<and> digits_value ''4294967296'' = 2 ^ 32
   \<and> digits_value ''4294967296'' < 2 ^ 64
   \<and> \<not> (digits_value ''4294967296'' = 2 ^ 64 - 1 \<and> opt_erange (xmss_detach_defaults False))
   \<and> fst (xmss_detach_parse_commandline [''xmss_detach'', ''--num-sigs'', ''4294967296'']
        (xmss_detach_defaults False)) = IQR_OK
   \<and> unat (opt_num_signatures
        (snd (xmss_detach_parse_commandline [''xmss_detach'', ''--num-sigs'', ''4294967296'']
          (xmss_detach_defaults False)))) = 0"
proof -
  have d: "digits_value ''4294967296'' = 2 ^ 32"
    by (simp add: digits_value_def)
  have h: "''4294967296'' \<noteq> [] \<and> list_all isdigit ''4294967296'' \<and>
      digits_value ''4294967296'' < 2 ^ 64 \<and>
      \<not> (digits_value ''4294967296'' = 2 ^ 64 - 1 \<and> opt_erange (xmss_detach_defaults False))"
    by (simp add: d isdigit_def xmss_detach_defaults_def)
  note t = num_sigs_cast_to_uint32 [THEN conjunct2, THEN conjunct2, THEN conjunct1, THEN mp,
      OF h, of "''xmss_detach''"]
  from d h t show ?thesis
    by simp
qed

end
